theory Spec2Isabelle
  imports Main
begin

section \<open>Connection manager of kaf: pkg/connection/conn.go\<close>

text \<open>
  The file wraps the sarama client library: a cache of clients keyed by cluster name
  (\<open>ConnManager\<close>), the translation of a cluster record of the configuration package
  into a sarama configuration (\<open>toSaramaConfig\<close>), and one reconnect around the
  offset-fetch request (\<open>GetAvailableOffsets\<close>).
\<close>

subsection \<open>Errors and outcomes\<close>

text \<open>
  A Go \<open>error\<close> is known to its receiver through its message. \<open>Underlying m\<close> is an
  error value handed to this package by a callee outside it (the configuration loader,
  the file system, sarama, crypto/tls), with message \<open>m\<close>; \<open>Errorf m\<close> is an error
  value that this package creates itself with \<open>fmt.Errorf\<close>, with message \<open>m\<close>.
\<close>

datatype error = Underlying string | Errorf string

fun message :: "error \<Rightarrow> string" where
  "message (Underlying m) = m"
| "message (Errorf m) = m"

text \<open>
  A call either returns a value, returns a non-nil error (\<open>Err\<close>), or panics on a nil
  pointer dereference (\<open>NilDereference\<close>).
\<close>

datatype failure = Err error | NilDereference

subsection \<open>The configuration schema (package config)\<close>

text \<open>
  The declarations of \<open>config.Cluster\<close>, \<open>config.SASL\<close>, \<open>config.TLS\<close> and
  \<open>config.Config\<close> live in pkg/config; the records below carry the fields that
  conn.go reads. \<open>SASL\<close> and \<open>TLS\<close> are pointers in the source, so \<open>None\<close> is nil.
  The elements of \<open>Clusters\<close> are taken to be non-nil pointers.
\<close>

record sasl =
  Mechanism :: string
  Username :: string
  Password :: string

record tls =
  Cafile :: string
  Clientfile :: string
  Clientkeyfile :: string
  Insecure :: bool

record cluster =
  Name :: string
  Version :: string
  Brokers :: "string list"
  SASL :: "sasl option"
  TLS :: "tls option"
  SecurityProtocol :: string

record config =
  Clusters :: "cluster list"

subsection \<open>The library's configuration object (sarama.Config, tls.Config)\<close>

type_synonym bytes = string

datatype KafkaVersion = KafkaVersion nat nat nat nat

definition V1_1_0_0 :: KafkaVersion where
  "V1_1_0_0 = KafkaVersion 1 1 0 0"

text \<open>\<open>time.Minute\<close>, a duration in nanoseconds.\<close>

definition Minute :: int where
  "Minute = 60000000000"

text \<open>
  The hash generators of the SCRAM client; the generator function stored in the
  configuration returns an \<open>XDGSCRAMClient\<close> with the given generator, so the stored
  closure is identified with that generator.
\<close>

datatype hashgen = SHA256 | SHA512

datatype certificate = Certificate bytes bytes

text \<open>
  \<open>tls.Config\<close>: a certificate pool is the list of PEM blocks appended to it
  (\<open>None\<close> is the nil pool).
\<close>

record tls_config =
  InsecureSkipVerify :: bool
  RootCAs :: "bytes list option"
  Certificates :: "certificate list"

text \<open>The fields of \<open>sarama.Config\<close> that conn.go assigns, named by their path.\<close>

record sarama_config =
  Config_Version :: KafkaVersion
  Producer_Return_Successes :: bool
  Metadata_Full :: bool
  Metadata_RefreshFrequency :: int
  Net_SASL_Enable :: bool
  Net_SASL_User :: string
  Net_SASL_Password :: string
  Net_SASL_Mechanism :: string
  Net_SASL_SCRAMClientGeneratorFunc :: "hashgen option"
  Net_TLS_Enable :: bool
  Net_TLS_Config :: "tls_config option"

definition SASLTypeSCRAMSHA256 :: string where
  "SASLTypeSCRAMSHA256 = ''SCRAM-SHA-256''"

definition SASLTypeSCRAMSHA512 :: string where
  "SASLTypeSCRAMSHA512 = ''SCRAM-SHA-512''"

subsection \<open>Handles of the library\<close>

datatype client = Client nat
datatype admin = ClusterAdmin nat
datatype broker = Broker nat
datatype offset_request = OffsetRequest nat
datatype offset_response = OffsetResponse nat

subsection \<open>The callees outside the file\<close>

text \<open>
  Everything conn.go calls and does not define is a field of the environment. \<open>'w\<close> is
  the state of the world outside the process (files, brokers, connections). Reading the
  configuration or a file observes that state; opening a client, creating an admin
  handle, and the three broker operations change it. \<open>ParseKafkaVersion\<close>,
  \<open>X509KeyPair\<close> and \<open>NewConfig\<close> are pure. \<open>ActiveCluster\<close> is the method of
  \<open>config.Config\<close>; it returns a pointer, \<open>None\<close> being nil. The errors that
  \<open>Broker.Close\<close> and \<open>Broker.Open\<close> return are dropped by the source, so the two
  fields return the new world only.
\<close>

record 'w env =
  ReadConfig :: "'w \<Rightarrow> string + config"
  ActiveCluster :: "config \<Rightarrow> cluster option"
  NewConfig :: sarama_config
  ParseKafkaVersion :: "string \<Rightarrow> string + KafkaVersion"
  ReadFile :: "'w \<Rightarrow> string \<Rightarrow> string + bytes"
  X509KeyPair :: "bytes \<Rightarrow> bytes \<Rightarrow> string + certificate"
  NewClient :: "string list \<Rightarrow> sarama_config \<Rightarrow> 'w \<Rightarrow> (string + client) \<times> 'w"
  NewClusterAdminFromClient :: "client \<Rightarrow> 'w \<Rightarrow> (string + admin) \<times> 'w"
  Broker_GetAvailableOffsets ::
    "broker \<Rightarrow> offset_request \<Rightarrow> 'w \<Rightarrow> (string + offset_response) \<times> 'w"
  Broker_Close :: "broker \<Rightarrow> 'w \<Rightarrow> 'w"
  Broker_Open :: "broker \<Rightarrow> sarama_config \<Rightarrow> 'w \<Rightarrow> 'w"

text \<open>
  Each call that leaves the process is recorded, in order, next to the world: the record
  is what "how often was the request sent" and "was the configuration read" are about.
\<close>

datatype event =
    is_ReadConfig: EvReadConfig
  | is_ReadFile: EvReadFile string
  | is_NewClient: EvNewClient "string list" sarama_config
  | is_NewClusterAdmin: EvNewClusterAdmin client
  | is_GetAvailableOffsets: EvGetAvailableOffsets broker offset_request
  | is_Close: EvClose broker
  | is_Open: EvOpen broker sarama_config

record 'w world =
  extern :: 'w
  calls :: "event list"

text \<open>How many of the recorded calls are of a given kind.\<close>

definition count_calls :: "(event \<Rightarrow> bool) \<Rightarrow> 'w world \<Rightarrow> nat" where
  "count_calls P w = length (filter P (calls w))"

definition record_call :: "event \<Rightarrow> 'w world \<Rightarrow> 'w world" where
  "record_call e w = w\<lparr>calls := calls w @ [e]\<rparr>"

definition lift_error :: "string + 'a \<Rightarrow> failure + 'a" where
  "lift_error r = (case r of Inl m \<Rightarrow> Inl (Err (Underlying m)) | Inr v \<Rightarrow> Inr v)"

definition call_ReadConfig :: "'w env \<Rightarrow> 'w world \<Rightarrow> (string + config) \<times> 'w world" where
  "call_ReadConfig env w = (ReadConfig env (extern w), record_call EvReadConfig w)"

definition call_ReadFile :: "'w env \<Rightarrow> string \<Rightarrow> 'w world \<Rightarrow> (string + bytes) \<times> 'w world" where
  "call_ReadFile env path w = (ReadFile env (extern w) path, record_call (EvReadFile path) w)"

definition call_NewClient ::
  "'w env \<Rightarrow> string list \<Rightarrow> sarama_config \<Rightarrow> 'w world \<Rightarrow> (string + client) \<times> 'w world" where
  "call_NewClient env brokers cfg w =
     (case NewClient env brokers cfg (extern w) of
        (r, x) \<Rightarrow> (r, \<lparr>extern = x, calls = calls w @ [EvNewClient brokers cfg]\<rparr>))"

definition call_NewClusterAdminFromClient ::
  "'w env \<Rightarrow> client \<Rightarrow> 'w world \<Rightarrow> (string + admin) \<times> 'w world" where
  "call_NewClusterAdminFromClient env cl w =
     (case NewClusterAdminFromClient env cl (extern w) of
        (r, x) \<Rightarrow> (r, \<lparr>extern = x, calls = calls w @ [EvNewClusterAdmin cl]\<rparr>))"

definition call_GetAvailableOffsets ::
  "'w env \<Rightarrow> broker \<Rightarrow> offset_request \<Rightarrow> 'w world \<Rightarrow> (string + offset_response) \<times> 'w world" where
  "call_GetAvailableOffsets env b req w =
     (case Broker_GetAvailableOffsets env b req (extern w) of
        (r, x) \<Rightarrow> (r, \<lparr>extern = x, calls = calls w @ [EvGetAvailableOffsets b req]\<rparr>))"

definition call_Close :: "'w env \<Rightarrow> broker \<Rightarrow> 'w world \<Rightarrow> 'w world" where
  "call_Close env b w = \<lparr>extern = Broker_Close env b (extern w), calls = calls w @ [EvClose b]\<rparr>"

definition call_Open :: "'w env \<Rightarrow> broker \<Rightarrow> sarama_config \<Rightarrow> 'w world \<Rightarrow> 'w world" where
  "call_Open env b cfg w =
     \<lparr>extern = Broker_Open env b cfg (extern w), calls = calls w @ [EvOpen b cfg]\<rparr>"

subsection \<open>toSaramaConfig (lines 148 to 232)\<close>

text \<open>Lines 149 to 153: the library's fresh configuration with four fields assigned.\<close>

definition baseConfig :: "'w env \<Rightarrow> sarama_config" where
  "baseConfig env =
     (NewConfig env)\<lparr>Config_Version := V1_1_0_0, Producer_Return_Successes := True,
        Metadata_Full := True, Metadata_RefreshFrequency := Minute\<rparr>"

text \<open>Lines 155 to 161: the version string, when there is one.\<close>

definition versionStep :: "'w env \<Rightarrow> cluster \<Rightarrow> sarama_config \<Rightarrow> failure + sarama_config" where
  "versionStep env cl sc =
     (if Version cl \<noteq> '''' then
        (case ParseKafkaVersion env (Version cl) of
           Inl m \<Rightarrow> Inl (Err (Errorf (''Unable to parse Kafka version: '' @ m)))
         | Inr parsedVersion \<Rightarrow> Inr (sc\<lparr>Config_Version := parsedVersion\<rparr>))
      else Inr sc)"

text \<open>Lines 162 to 166.\<close>

definition saslStep :: "cluster \<Rightarrow> sarama_config \<Rightarrow> sarama_config" where
  "saslStep cl sc =
     (case SASL cl of
        Some s \<Rightarrow> sc\<lparr>Net_SASL_Enable := True, Net_SASL_User := Username s,
                     Net_SASL_Password := Password s\<rparr>
      | None \<Rightarrow> sc)"

text \<open>Lines 173 to 181: the certificate authority file of the plain TLS block.\<close>

definition tlsCafile ::
  "'w env \<Rightarrow> tls \<Rightarrow> tls_config \<Rightarrow> 'w world \<Rightarrow> (failure + tls_config) \<times> 'w world" where
  "tlsCafile env t tc w =
     (if Cafile t \<noteq> '''' then
        (case call_ReadFile env (Cafile t) w of
           (Inl m, w1) \<Rightarrow> (Inl (Err (Errorf (''Unable to read Cafile :'' @ m))), w1)
         | (Inr caCert, w1) \<Rightarrow> (Inr (tc\<lparr>RootCAs := Some [caCert]\<rparr>), w1))
      else (Inr tc, w))"

text \<open>
  Lines 183 to 200: the client certificate and key. \<open>BuildNameToCertificate\<close> fills a
  lookup table derived from \<open>Certificates\<close> and is not a field of the model.
\<close>

definition tlsClientPair ::
  "'w env \<Rightarrow> tls \<Rightarrow> tls_config \<Rightarrow> 'w world \<Rightarrow> (failure + tls_config) \<times> 'w world" where
  "tlsClientPair env t tc w =
     (if Clientfile t \<noteq> '''' \<and> Clientkeyfile t \<noteq> '''' then
        (case call_ReadFile env (Clientfile t) w of
           (Inl m, w1) \<Rightarrow> (Inl (Err (Errorf (''Unable to read Clientfile :'' @ m))), w1)
         | (Inr clientCert, w1) \<Rightarrow>
             (case call_ReadFile env (Clientkeyfile t) w1 of
                (Inl m, w2) \<Rightarrow> (Inl (Err (Errorf (''Unable to read Clientkeyfile :'' @ m))), w2)
              | (Inr clientKey, w2) \<Rightarrow>
                  (case X509KeyPair env clientCert clientKey of
                     Inl m \<Rightarrow> (Inl (Err (Errorf (''Unable to creatre KeyPair: '' @ m))), w2)
                   | Inr cert \<Rightarrow> (Inr (tc\<lparr>Certificates := [cert]\<rparr>), w2))))
      else (Inr tc, w))"

text \<open>Lines 167 to 202.\<close>

definition tlsStep ::
  "'w env \<Rightarrow> cluster \<Rightarrow> sarama_config \<Rightarrow> 'w world \<Rightarrow> (failure + sarama_config) \<times> 'w world" where
  "tlsStep env cl sc w =
     (case TLS cl of
        None \<Rightarrow> (Inr sc, w)
      | Some t \<Rightarrow>
          if SecurityProtocol cl \<noteq> ''SASL_SSL'' then
            (case tlsCafile env t
                    \<lparr>InsecureSkipVerify = Insecure t, RootCAs = None, Certificates = []\<rparr> w of
               (Inl f, w1) \<Rightarrow> (Inl f, w1)
             | (Inr tc1, w1) \<Rightarrow>
                 (case tlsClientPair env t tc1 w1 of
                    (Inl f, w2) \<Rightarrow> (Inl f, w2)
                  | (Inr tc2, w2) \<Rightarrow>
                      (Inr (sc\<lparr>Net_TLS_Enable := True, Net_TLS_Config := Some tc2\<rparr>), w2)))
          else (Inr sc, w))"

text \<open>Lines 205 to 222: the TLS configuration of the SASL_SSL block.\<close>

definition saslSslTls ::
  "'w env \<Rightarrow> cluster \<Rightarrow> sarama_config \<Rightarrow> 'w world \<Rightarrow> (failure + sarama_config) \<times> 'w world" where
  "saslSslTls env cl sc w =
     (case TLS cl of
        Some t \<Rightarrow>
          if Cafile t \<noteq> '''' then
            (case call_ReadFile env (Cafile t) w of
               (Inl m, w1) \<Rightarrow> (Inl (Err (Underlying m)), w1)
             | (Inr caCert, w1) \<Rightarrow>
                 (Inr (sc\<lparr>Net_TLS_Config :=
                         Some \<lparr>InsecureSkipVerify = Insecure t, RootCAs = Some [caCert],
                               Certificates = []\<rparr>\<rparr>), w1))
          else
            (Inr (sc\<lparr>Net_TLS_Config :=
                    Some \<lparr>InsecureSkipVerify = Insecure t, RootCAs = None,
                          Certificates = []\<rparr>\<rparr>), w)
      | None \<Rightarrow>
          (Inr (sc\<lparr>Net_TLS_Config :=
                  Some \<lparr>InsecureSkipVerify = False, RootCAs = None, Certificates = []\<rparr>\<rparr>), w))"

text \<open>
  Lines 223 to 229: \<open>cluster.SASL.Mechanism\<close> is read with no nil check, so a nil
  \<open>SASL\<close> panics here.
\<close>

definition saslSslMechanism :: "cluster \<Rightarrow> sarama_config \<Rightarrow> failure + sarama_config" where
  "saslSslMechanism cl sc =
     (case SASL cl of
        None \<Rightarrow> Inl NilDereference
      | Some s \<Rightarrow>
          if Mechanism s = ''SCRAM-SHA-512'' then
            Inr (sc\<lparr>Net_SASL_SCRAMClientGeneratorFunc := Some SHA512,
                    Net_SASL_Mechanism := SASLTypeSCRAMSHA512\<rparr>)
          else if Mechanism s = ''SCRAM-SHA-256'' then
            Inr (sc\<lparr>Net_SASL_SCRAMClientGeneratorFunc := Some SHA256,
                    Net_SASL_Mechanism := SASLTypeSCRAMSHA256\<rparr>)
          else Inr sc)"

text \<open>Lines 203 to 230.\<close>

definition saslSslStep ::
  "'w env \<Rightarrow> cluster \<Rightarrow> sarama_config \<Rightarrow> 'w world \<Rightarrow> (failure + sarama_config) \<times> 'w world" where
  "saslSslStep env cl sc w =
     (if SecurityProtocol cl = ''SASL_SSL'' then
        (case saslSslTls env cl (sc\<lparr>Net_TLS_Enable := True\<rparr>) w of
           (Inl f, w1) \<Rightarrow> (Inl f, w1)
         | (Inr sc1, w1) \<Rightarrow> (saslSslMechanism cl sc1, w1))
      else (Inr sc, w))"

text \<open>
  The whole function. The argument is a pointer: \<open>None\<close> is nil, and line 155 then
  dereferences it.
\<close>

definition toSaramaConfig ::
  "'w env \<Rightarrow> cluster option \<Rightarrow> 'w world \<Rightarrow> (failure + sarama_config) \<times> 'w world" where
  "toSaramaConfig env cluster w =
     (case cluster of
        None \<Rightarrow> (Inl NilDereference, w)
      | Some cl \<Rightarrow>
          (case versionStep env cl (baseConfig env) of
             Inl f \<Rightarrow> (Inl f, w)
           | Inr sc1 \<Rightarrow>
               (case tlsStep env cl (saslStep cl sc1) w of
                  (Inl f, w1) \<Rightarrow> (Inl f, w1)
                | (Inr sc3, w1) \<Rightarrow> saslSslStep env cl sc3 w1)))"

subsection \<open>The connection manager\<close>

text \<open>
  \<open>conns\<close> is the Go map; a manager comes from \<open>NewConnManager\<close>, so the map is never
  the nil map.
\<close>

record ConnManager =
  conns :: "string \<rightharpoonup> client"

definition NewConnManager :: ConnManager where
  "NewConnManager = \<lparr>conns = Map.empty\<rparr>"

text \<open>
  The loop of lines 42 to 46 (and 92 to 96, 123 to 127): every matching element
  overwrites \<open>cl\<close>.
\<close>

fun findCluster :: "cluster list \<Rightarrow> string \<Rightarrow> cluster option \<Rightarrow> cluster option" where
  "findCluster [] name cl = cl"
| "findCluster (cx # cxs) name cl = findCluster cxs name (if Name cx = name then Some cx else cl)"

text \<open>The message of line 48; \<open>CHR 0x22\<close> is the double quote.\<close>

definition notFound :: "string \<Rightarrow> error" where
  "notFound name = Errorf (''Cluster '' @ [CHR 0x22] @ name @ [CHR 0x22] @ '' not found.'')"

text \<open>
  Lines 51 to 61 of \<open>GetClient\<close> and, word for word, lines 133 to 143 of
  \<open>GetAdminClient\<close>: build the configuration for the resolved cluster \<open>cl\<close>, open the
  client, store it under the requested name. After \<open>toSaramaConfig\<close> has returned
  without a panic \<open>cl\<close> is not nil.
\<close>

definition openAndStore ::
  "'w env \<Rightarrow> ConnManager \<Rightarrow> string \<Rightarrow> cluster option \<Rightarrow> 'w world
     \<Rightarrow> (failure + client) \<times> ConnManager \<times> 'w world" where
  "openAndStore env c name cl w =
     (case toSaramaConfig env cl w of
        (Inl f, w1) \<Rightarrow> (Inl f, c, w1)
      | (Inr cfg, w1) \<Rightarrow>
          (case cl of
             None \<Rightarrow> (Inl NilDereference, c, w1)
           | Some cl' \<Rightarrow>
               (case call_NewClient env (Brokers cl') cfg w1 of
                  (Inl m, w2) \<Rightarrow> (Inl (Err (Underlying m)), c, w2)
                | (Inr client, w2) \<Rightarrow>
                    (Inr client, c\<lparr>conns := (conns c)(name \<mapsto> client)\<rparr>, w2))))"

definition GetClient ::
  "'w env \<Rightarrow> ConnManager \<Rightarrow> string \<Rightarrow> 'w world \<Rightarrow> (failure + client) \<times> ConnManager \<times> 'w world" where
  "GetClient env c name w =
     (case conns c name of
        Some cl \<Rightarrow> (Inr cl, c, w)
      | None \<Rightarrow>
          (case call_ReadConfig env w of
             (Inl m, w1) \<Rightarrow> (Inl (Err (Underlying m)), c, w1)
           | (Inr configTotal, w1) \<Rightarrow>
               (case findCluster (Clusters configTotal) name None of
                  None \<Rightarrow> (Inl (Err (notFound name)), c, w1)
                | Some cl \<Rightarrow> openAndStore env c name (Some cl) w1)))"

text \<open>
  Lines 88 to 100 and 119 to 131: the empty name, and a name that matches nothing, both
  resolve to the active cluster.
\<close>

definition resolveOrActive :: "'w env \<Rightarrow> config \<Rightarrow> string \<Rightarrow> cluster option" where
  "resolveOrActive env configTotal name =
     (let cl = (if name = '''' then ActiveCluster env configTotal
                else findCluster (Clusters configTotal) name None)
      in if cl = None then ActiveCluster env configTotal else cl)"

definition GetConfig ::
  "'w env \<Rightarrow> string \<Rightarrow> 'w world \<Rightarrow> (failure + sarama_config) \<times> 'w world" where
  "GetConfig env name w =
     (case call_ReadConfig env w of
        (Inl m, w1) \<Rightarrow> (Inl (Err (Underlying m)), w1)
      | (Inr configTotal, w1) \<Rightarrow> toSaramaConfig env (resolveOrActive env configTotal name) w1)"

definition adminFromClient ::
  "'w env \<Rightarrow> client \<Rightarrow> 'w world \<Rightarrow> (failure + admin) \<times> 'w world" where
  "adminFromClient env cl w =
     (case call_NewClusterAdminFromClient env cl w of (r, w1) \<Rightarrow> (lift_error r, w1))"

definition GetAdminClient ::
  "'w env \<Rightarrow> ConnManager \<Rightarrow> string \<Rightarrow> 'w world \<Rightarrow> (failure + admin) \<times> ConnManager \<times> 'w world" where
  "GetAdminClient env c name w =
     (case conns c name of
        Some cl \<Rightarrow> (case adminFromClient env cl w of (r, w1) \<Rightarrow> (r, c, w1))
      | None \<Rightarrow>
          (case call_ReadConfig env w of
             (Inl m, w1) \<Rightarrow> (Inl (Err (Underlying m)), c, w1)
           | (Inr configTotal, w1) \<Rightarrow>
               (case openAndStore env c name (resolveOrActive env configTotal name) w1 of
                  (Inl f, c1, w2) \<Rightarrow> (Inl f, c1, w2)
                | (Inr client, c1, w2) \<Rightarrow>
                    (case adminFromClient env client w2 of (r, w3) \<Rightarrow> (r, c1, w3)))))"

text \<open>Lines 24 to 30: \<open>None\<close> is the nil error.\<close>

definition Connect ::
  "'w env \<Rightarrow> ConnManager \<Rightarrow> string \<Rightarrow> 'w world \<Rightarrow> failure option \<times> ConnManager \<times> 'w world" where
  "Connect env c name w =
     (case GetAdminClient env c name w of
        (Inl f, c1, w1) \<Rightarrow> (Some f, c1, w1)
      | (Inr _, c1, w1) \<Rightarrow> (None, c1, w1))"

text \<open>Lines 67 to 80.\<close>

definition GetAvailableOffsets ::
  "'w env \<Rightarrow> broker \<Rightarrow> string \<Rightarrow> offset_request \<Rightarrow> 'w world
     \<Rightarrow> (failure + offset_response) \<times> 'w world" where
  "GetAvailableOffsets env b name req w =
     (case call_GetAvailableOffsets env b req w of
        (Inr resp, w1) \<Rightarrow> (Inr resp, w1)
      | (Inl m, w1) \<Rightarrow>
          (case GetConfig env name (call_Close env b w1) of
             (Inl f, w2) \<Rightarrow> (Inl f, w2)
           | (Inr cfg, w2) \<Rightarrow>
               (case call_GetAvailableOffsets env b req (call_Open env b cfg w2) of
                  (r, w3) \<Rightarrow> (lift_error r, w3))))"

subsection \<open>Worlds that differ by file reads only\<close>

text \<open>
  \<open>reads_only w w'\<close>: from \<open>w\<close> to \<open>w'\<close> the outside world has not changed and the
  calls recorded in between are file reads.
\<close>

definition reads_only :: "'w world \<Rightarrow> 'w world \<Rightarrow> bool" where
  "reads_only w w' =
     (extern w' = extern w \<and> (\<exists>evs. calls w' = calls w @ evs \<and> list_all is_ReadFile evs))"

subsection \<open>When, and with which error, toSaramaConfig fails\<close>

text \<open>
  The three conditions under which line 158, lines 176 and 212, and lines 186 to 195
  return an error, read off the outside world \<open>x\<close>: the version string is there and
  does not parse; the TLS section names a certificate authority file that cannot be
  read; outside SASL_SSL the TLS section names both a client certificate and a client
  key, and one of the two files cannot be read or the pair is rejected.
\<close>

definition versionFails :: "'w env \<Rightarrow> cluster \<Rightarrow> bool" where
  "versionFails env cl = (Version cl \<noteq> '''' \<and> isl (ParseKafkaVersion env (Version cl)))"

definition cafileFails :: "'w env \<Rightarrow> 'w \<Rightarrow> cluster \<Rightarrow> bool" where
  "cafileFails env x cl =
     (case TLS cl of
        None \<Rightarrow> False
      | Some t \<Rightarrow> Cafile t \<noteq> '''' \<and> isl (ReadFile env x (Cafile t)))"

definition clientPairFails :: "'w env \<Rightarrow> 'w \<Rightarrow> cluster \<Rightarrow> bool" where
  "clientPairFails env x cl =
     (case TLS cl of
        None \<Rightarrow> False
      | Some t \<Rightarrow>
          SecurityProtocol cl \<noteq> ''SASL_SSL'' \<and> Clientfile t \<noteq> '''' \<and> Clientkeyfile t \<noteq> '''' \<and>
          (case ReadFile env x (Clientfile t) of
             Inl _ \<Rightarrow> True
           | Inr cert \<Rightarrow>
               (case ReadFile env x (Clientkeyfile t) of
                  Inl _ \<Rightarrow> True
                | Inr key \<Rightarrow> isl (X509KeyPair env cert key))))"

text \<open>
  The error values \<open>toSaramaConfig\<close> can return for a cluster: the prefixed errors of
  the version string and of the plain TLS block, and the unprefixed read error of the
  SASL_SSL block.
\<close>

definition configError :: "'w env \<Rightarrow> 'w \<Rightarrow> cluster \<Rightarrow> error \<Rightarrow> bool" where
  "configError env x cl e =
     ((Version cl \<noteq> '''' \<and>
        (\<exists>m. ParseKafkaVersion env (Version cl) = Inl m \<and>
             e = Errorf (''Unable to parse Kafka version: '' @ m))) \<or>
      (\<exists>t. TLS cl = Some t \<and> SecurityProtocol cl \<noteq> ''SASL_SSL'' \<and>
         ((Cafile t \<noteq> '''' \<and>
           (\<exists>m. ReadFile env x (Cafile t) = Inl m \<and>
                e = Errorf (''Unable to read Cafile :'' @ m))) \<or>
          (Clientfile t \<noteq> '''' \<and> Clientkeyfile t \<noteq> '''' \<and>
           ((\<exists>m. ReadFile env x (Clientfile t) = Inl m \<and>
                 e = Errorf (''Unable to read Clientfile :'' @ m)) \<or>
            (\<exists>m. ReadFile env x (Clientkeyfile t) = Inl m \<and>
                 e = Errorf (''Unable to read Clientkeyfile :'' @ m)) \<or>
            (\<exists>cert key m. ReadFile env x (Clientfile t) = Inr cert \<and>
                 ReadFile env x (Clientkeyfile t) = Inr key \<and>
                 X509KeyPair env cert key = Inl m \<and>
                 e = Errorf (''Unable to creatre KeyPair: '' @ m)))))) \<or>
      (\<exists>t. TLS cl = Some t \<and> SecurityProtocol cl = ''SASL_SSL'' \<and> Cafile t \<noteq> '''' \<and>
         (\<exists>m. ReadFile env x (Cafile t) = Inl m \<and> e = Underlying m)))"

subsection \<open>Calls made at most once\<close>

text \<open>
  \<open>no_repeated_call w w'\<close>: between \<open>w\<close> and \<open>w'\<close> the configuration was read at most
  once, at most one client was opened, at most one admin handle was created, and no
  broker was asked for offsets, closed or opened.
\<close>

definition no_repeated_call :: "'w world \<Rightarrow> 'w world \<Rightarrow> bool" where
  "no_repeated_call w w' =
     (count_calls is_ReadConfig w' \<le> count_calls is_ReadConfig w + 1 \<and>
      count_calls is_NewClient w' \<le> count_calls is_NewClient w + 1 \<and>
      count_calls is_NewClusterAdmin w' \<le> count_calls is_NewClusterAdmin w + 1 \<and>
      count_calls is_GetAvailableOffsets w' = count_calls is_GetAvailableOffsets w \<and>
      count_calls is_Close w' = count_calls is_Close w \<and>
      count_calls is_Open w' = count_calls is_Open w)"

subsection \<open>A concrete environment\<close>

text \<open>
  Two clusters and a small world for evaluating the functions: the world is a counter,
  every opened client and every reopened broker advances it, the offset request fails
  while the counter is zero, and the only readable file is \<open>ca.pem\<close>.
\<close>

definition localCluster :: cluster where
  "localCluster = \<lparr>Name = ''local'', Version = '''', Brokers = [''localhost:9092''],
     SASL = None, TLS = None, SecurityProtocol = ''''\<rparr>"

definition prodCluster :: cluster where
  "prodCluster = \<lparr>Name = ''prod'', Version = ''2.0.0'', Brokers = [''k1:9093'', ''k2:9093''],
     SASL = Some \<lparr>Mechanism = ''SCRAM-SHA-512'', Username = ''svc'', Password = ''secret''\<rparr>,
     TLS = Some \<lparr>Cafile = ''ca.pem'', Clientfile = '''', Clientkeyfile = '''', Insecure = False\<rparr>,
     SecurityProtocol = ''SASL_SSL''\<rparr>"

text \<open>A cluster whose version string does not parse.\<close>

definition badVersionCluster :: cluster where
  "badVersionCluster = \<lparr>Name = ''dev'', Version = ''bogus'', Brokers = [''d1:9092''],
     SASL = None, TLS = None, SecurityProtocol = ''''\<rparr>"

definition demoConfig :: config where
  "demoConfig = \<lparr>Clusters = [localCluster, prodCluster, badVersionCluster]\<rparr>"

definition libraryDefaults :: sarama_config where
  "libraryDefaults = \<lparr>Config_Version = KafkaVersion 0 8 2 0, Producer_Return_Successes = False,
     Metadata_Full = True, Metadata_RefreshFrequency = 10 * Minute, Net_SASL_Enable = False,
     Net_SASL_User = '''', Net_SASL_Password = '''', Net_SASL_Mechanism = '''',
     Net_SASL_SCRAMClientGeneratorFunc = None, Net_TLS_Enable = False, Net_TLS_Config = None\<rparr>"

definition demoEnv :: "nat env" where
  "demoEnv = \<lparr>
     ReadConfig = (\<lambda>w. Inr demoConfig),
     ActiveCluster = (\<lambda>cfg. case Clusters cfg of [] \<Rightarrow> None | cx # _ \<Rightarrow> Some cx),
     NewConfig = libraryDefaults,
     ParseKafkaVersion =
       (\<lambda>s. if s = ''2.0.0'' then Inr (KafkaVersion 2 0 0 0) else Inl (''invalid version '' @ s)),
     ReadFile =
       (\<lambda>w path. if path = ''ca.pem'' then Inr ''PEM'' else Inl (''open '' @ path @ '': no such file'')),
     X509KeyPair = (\<lambda>cert key. Inr (Certificate cert key)),
     NewClient = (\<lambda>brokers cfg w. (Inr (Client w), Suc w)),
     NewClusterAdminFromClient = (\<lambda>cl w. (Inr (ClusterAdmin w), w)),
     Broker_GetAvailableOffsets =
       (\<lambda>b req w. (if w = 0 then Inl ''broken pipe'' else Inr (OffsetResponse w), w)),
     Broker_Close = (\<lambda>b w. w),
     Broker_Open = (\<lambda>b cfg w. Suc w)\<rparr>"

definition startWorld :: "nat world" where
  "startWorld = \<lparr>extern = 0, calls = []\<rparr>"

text \<open>A cluster that asks for SASL_SSL and has no SASL section.\<close>

definition noSaslCluster :: cluster where
  "noSaslCluster = \<lparr>Name = ''staging'', Version = '''', Brokers = [''s1:9093''],
     SASL = None, TLS = None, SecurityProtocol = ''SASL_SSL''\<rparr>"

text \<open>
  A cluster with a TLS section that names a client certificate and no client key; the
  certificate file does not exist in the concrete world.
\<close>

definition certOnlyCluster :: cluster where
  "certOnlyCluster = \<lparr>Name = ''edge'', Version = '''', Brokers = [''e1:9093''], SASL = None,
     TLS = Some \<lparr>Cafile = '''', Clientfile = ''client.pem'', Clientkeyfile = '''',
                 Insecure = False\<rparr>,
     SecurityProtocol = ''SSL''\<rparr>"

text \<open>
  A configuration in which two clusters are named \<open>prod\<close>, the second with another
  broker list, and the environment that loads it.
\<close>

definition prodCluster2 :: cluster where
  "prodCluster2 = prodCluster\<lparr>Brokers := [''k9:9093'']\<rparr>"

definition dupConfig :: config where
  "dupConfig = \<lparr>Clusters = [localCluster, prodCluster, badVersionCluster, prodCluster2]\<rparr>"

definition dupEnv :: "nat env" where
  "dupEnv = demoEnv\<lparr>ReadConfig := \<lambda>w. Inr dupConfig\<rparr>"

text \<open>The concrete environment with an admin handle that cannot be created.\<close>

definition adminFailEnv :: "nat env" where
  "adminFailEnv = demoEnv\<lparr>NewClusterAdminFromClient := \<lambda>cl w. (Inl ''client closed'', w)\<rparr>"

text \<open>
  The concrete environment with a configuration that cannot be loaded, and a world in
  which the broker answers at once.
\<close>

definition noConfigEnv :: "nat env" where
  "noConfigEnv = demoEnv\<lparr>ReadConfig := \<lambda>w. Inl ''config unreadable''\<rparr>"

definition liveWorld :: "nat world" where
  "liveWorld = \<lparr>extern = 1, calls = []\<rparr>"

text \<open>
  The concrete environment with the files \<open>ca.pem\<close>, \<open>client.pem\<close> and \<open>client.key\<close>
  readable, and the same with a certificate and key that do not match.
\<close>

definition filesEnv :: "nat env" where
  "filesEnv = demoEnv\<lparr>ReadFile :=
     \<lambda>w path. if path \<in> {''ca.pem'', ''client.pem'', ''client.key''}
               then Inr (''contents of '' @ path)
               else Inl (''open '' @ path @ '': no such file'')\<rparr>"

definition pairFailEnv :: "nat env" where
  "pairFailEnv = filesEnv\<lparr>X509KeyPair :=
     \<lambda>cert key. Inl ''tls: private key does not match public key''\<rparr>"

text \<open>The concrete environment with no broker to connect to.\<close>

definition noBrokerEnv :: "nat env" where
  "noBrokerEnv = demoEnv\<lparr>NewClient :=
     \<lambda>brokers cfg w. (Inl ''kafka: client has run out of available brokers'', w)\<rparr>"

text \<open>
  The concrete environment with a configuration that has no active cluster, and with
  a configuration that has no cluster at all.
\<close>

definition noActiveEnv :: "nat env" where
  "noActiveEnv = demoEnv\<lparr>ActiveCluster := \<lambda>cfg. None\<rparr>"

definition emptyConfigEnv :: "nat env" where
  "emptyConfigEnv = demoEnv\<lparr>ReadConfig := \<lambda>w. Inr \<lparr>Clusters = []\<rparr>\<rparr>"

text \<open>
  A cluster with a plain TLS section that names a certificate authority file, a client
  certificate and a client key, and the same with one of the three files missing.
\<close>

definition mtlsCluster :: cluster where
  "mtlsCluster = \<lparr>Name = ''mtls'', Version = ''2.0.0'', Brokers = [''m1:9093''], SASL = None,
     TLS = Some \<lparr>Cafile = ''ca.pem'', Clientfile = ''client.pem'', Clientkeyfile = ''client.key'',
                 Insecure = True\<rparr>,
     SecurityProtocol = ''SSL''\<rparr>"

definition caMissingCluster :: cluster where
  "caMissingCluster = mtlsCluster\<lparr>TLS :=
     Some \<lparr>Cafile = ''gone-ca.pem'', Clientfile = ''client.pem'', Clientkeyfile = ''client.key'',
           Insecure = True\<rparr>\<rparr>"

definition certMissingCluster :: cluster where
  "certMissingCluster = mtlsCluster\<lparr>TLS :=
     Some \<lparr>Cafile = ''ca.pem'', Clientfile = ''gone.pem'', Clientkeyfile = ''client.key'',
           Insecure = True\<rparr>\<rparr>"

definition keyMissingCluster :: cluster where
  "keyMissingCluster = mtlsCluster\<lparr>TLS :=
     Some \<lparr>Cafile = ''ca.pem'', Clientfile = ''client.pem'', Clientkeyfile = ''gone.key'',
           Insecure = True\<rparr>\<rparr>"

text \<open>The cluster \<open>prod\<close> with a certificate authority file that is missing.\<close>

definition saslCaMissingCluster :: cluster where
  "saslCaMissingCluster = prodCluster\<lparr>TLS :=
     Some \<lparr>Cafile = ''gone-ca.pem'', Clientfile = '''', Clientkeyfile = '''', Insecure = False\<rparr>\<rparr>"

lemmas step_defs =
  baseConfig_def versionStep_def saslStep_def tlsCafile_def tlsClientPair_def tlsStep_def
  saslSslTls_def saslSslMechanism_def saslSslStep_def toSaramaConfig_def
  call_ReadFile_def record_call_def

lemmas manager_defs =
  GetClient_def GetAdminClient_def GetConfig_def openAndStore_def adminFromClient_def
  resolveOrActive_def call_ReadConfig_def call_NewClient_def
  call_NewClusterAdminFromClient_def lift_error_def notFound_def

lemmas demo_defs =
  demoEnv_def demoConfig_def localCluster_def prodCluster_def badVersionCluster_def
  libraryDefaults_def startWorld_def NewConnManager_def

lemmas eval_defs = manager_defs step_defs demo_defs V1_1_0_0_def Minute_def
  SASLTypeSCRAMSHA512_def SASLTypeSCRAMSHA256_def count_calls_def

lemmas more_demo_defs = filesEnv_def pairFailEnv_def noBrokerEnv_def noActiveEnv_def
  emptyConfigEnv_def
  mtlsCluster_def caMissingCluster_def certMissingCluster_def keyMissingCluster_def
  saslCaMissingCluster_def adminFailEnv_def noConfigEnv_def

section \<open>Auxiliary facts\<close>

subsection \<open>The lookup loop\<close>

lemma findCluster_filter:
  "findCluster cxs name acc =
     (case filter (\<lambda>cx. Name cx = name) cxs of [] \<Rightarrow> acc | m # ms \<Rightarrow> Some (last (m # ms)))"
  by (induction cxs arbitrary: acc) (auto split: list.splits)

lemma findCluster_None:
  "findCluster cxs name None = None \<longleftrightarrow> (\<forall>cx \<in> set cxs. Name cx \<noteq> name)"
proof -
  have "filter (\<lambda>cx. Name cx = name) cxs = [] \<longleftrightarrow> (\<forall>cx \<in> set cxs. Name cx \<noteq> name)"
    by (simp add: filter_empty_conv)
  then show ?thesis
    by (cases "filter (\<lambda>cx. Name cx = name) cxs") (simp_all add: findCluster_filter)
qed

lemma reads_only_refl: "reads_only w w"
  by (simp add: reads_only_def)

lemma reads_only_trans: "reads_only w w1 \<Longrightarrow> reads_only w1 w2 \<Longrightarrow> reads_only w w2"
  by (auto simp: reads_only_def)

lemma reads_only_ReadFile: "call_ReadFile env p w = (r, w') \<Longrightarrow> reads_only w w'"
  by (auto simp: call_ReadFile_def record_call_def reads_only_def)

lemma reads_only_tlsCafile: "tlsCafile env t tc w = (r, w') \<Longrightarrow> reads_only w w'"
  by (auto simp: tlsCafile_def reads_only_refl split: if_splits prod.splits sum.splits
      dest: reads_only_ReadFile)

lemma reads_only_tlsClientPair: "tlsClientPair env t tc w = (r, w') \<Longrightarrow> reads_only w w'"
  by (auto simp: tlsClientPair_def reads_only_refl split: if_splits prod.splits sum.splits
      dest!: reads_only_ReadFile intro: reads_only_trans)

lemma reads_only_tlsStep: "tlsStep env cl sc w = (r, w') \<Longrightarrow> reads_only w w'"
  by (auto simp: tlsStep_def reads_only_refl split: if_splits prod.splits sum.splits option.splits
      dest!: reads_only_tlsCafile reads_only_tlsClientPair intro: reads_only_trans)

lemma reads_only_saslSslTls: "saslSslTls env cl sc w = (r, w') \<Longrightarrow> reads_only w w'"
  by (auto simp: saslSslTls_def reads_only_refl split: if_splits prod.splits sum.splits option.splits
      dest!: reads_only_ReadFile)

lemma reads_only_saslSslStep: "saslSslStep env cl sc w = (r, w') \<Longrightarrow> reads_only w w'"
  by (auto simp: saslSslStep_def reads_only_refl split: if_splits prod.splits sum.splits
      dest!: reads_only_saslSslTls)

lemma reads_only_toSaramaConfig: "toSaramaConfig env cl w = (r, w') \<Longrightarrow> reads_only w w'"
  by (auto simp: toSaramaConfig_def reads_only_refl split: prod.splits sum.splits option.splits
      dest!: reads_only_tlsStep reads_only_saslSslStep intro: reads_only_trans)

lemma reads_only_count:
  "reads_only w w' \<Longrightarrow> \<forall>e. P e \<longrightarrow> \<not> is_ReadFile e \<Longrightarrow> count_calls P w' = count_calls P w"
proof -
  assume r: "reads_only w w'" and p: "\<forall>e. P e \<longrightarrow> \<not> is_ReadFile e"
  from r obtain evs where evs: "calls w' = calls w @ evs" "\<forall>e \<in> set evs. is_ReadFile e"
    unfolding reads_only_def list_all_iff by blast
  from evs(2) p have "\<forall>e \<in> set evs. \<not> P e" by blast
  then have "filter P evs = []" by (simp add: filter_empty_conv)
  with evs(1) show ?thesis by (simp add: count_calls_def)
qed

subsection \<open>What the manager's steps record and store\<close>

lemma calls_NewClient:
  "call_NewClient env bs cfg w = (r, w') \<Longrightarrow> calls w' = calls w @ [EvNewClient bs cfg]"
  by (auto simp: call_NewClient_def split: prod.splits)

lemma calls_ReadConfig:
  "call_ReadConfig env w = (r, w') \<Longrightarrow>
     r = ReadConfig env (extern w) \<and> extern w' = extern w \<and> calls w' = calls w @ [EvReadConfig]"
  by (auto simp: call_ReadConfig_def record_call_def)

lemma calls_adminFromClient:
  "adminFromClient env cl w = (r, w') \<Longrightarrow> calls w' = calls w @ [EvNewClusterAdmin cl]"
  by (auto simp: adminFromClient_def call_NewClusterAdminFromClient_def split: prod.splits)

lemma openAndStore_Inl: "openAndStore env c name clo w = (Inl f, c', w') \<Longrightarrow> c' = c"
  by (auto simp: openAndStore_def split: prod.splits sum.splits option.splits)

lemma openAndStore_Inr:
  assumes "openAndStore env c name clo w = (Inr cl, c', w')"
  shows "c' = c\<lparr>conns := (conns c)(name \<mapsto> cl)\<rparr>"
    and "\<exists>ac cfg w1. clo = Some ac \<and> toSaramaConfig env clo w = (Inr cfg, w1) \<and>
           call_NewClient env (Brokers ac) cfg w1 = (Inr cl, w')"
  using assms by (auto simp: openAndStore_def split: prod.splits sum.splits option.splits)

lemma count_append_one:
  "calls w' = calls w @ [e] \<Longrightarrow> count_calls P w' = (if P e then Suc (count_calls P w) else count_calls P w)"
  by (simp add: count_calls_def)

lemma openAndStore_NewClient_count:
  assumes "openAndStore env c name clo w = (Inr cl, c', w')"
  shows "count_calls is_NewClient w' = Suc (count_calls is_NewClient w)"
proof -
  from openAndStore_Inr(2)[OF assms] obtain ac cfg w1 where
    "clo = Some ac" and
    t: "toSaramaConfig env clo w = (Inr cfg, w1)" and
    n: "call_NewClient env (Brokers ac) cfg w1 = (Inr cl, w')" by blast
  have "count_calls is_NewClient w1 = count_calls is_NewClient w"
    using reads_only_toSaramaConfig[OF t] by (rule reads_only_count) auto
  moreover have "count_calls is_NewClient w' = Suc (count_calls is_NewClient w1)"
    using calls_NewClient[OF n] by (simp add: count_append_one)
  ultimately show ?thesis by simp
qed

lemma GetClient_hit: "conns c name = Some cl \<Longrightarrow> GetClient env c name w = (Inr cl, c, w)"
  by (simp add: GetClient_def)

lemma GetClient_miss_Inr:
  assumes "conns c name = None" "GetClient env c name w = (Inr cl, c', w')"
  shows "c' = c\<lparr>conns := (conns c)(name \<mapsto> cl)\<rparr> \<and>
         count_calls is_NewClient w' = Suc (count_calls is_NewClient w)"
proof -
  from assms obtain cfg ac w1 where
    r: "call_ReadConfig env w = (Inr cfg, w1)" and
    o: "openAndStore env c name (Some ac) w1 = (Inr cl, c', w')"
    by (auto simp: GetClient_def split: prod.splits sum.splits option.splits)
  have "count_calls is_NewClient w1 = count_calls is_NewClient w"
    using calls_ReadConfig[OF r] by (simp add: count_append_one)
  with openAndStore_Inr(1)[OF o] openAndStore_NewClient_count[OF o] show ?thesis by simp
qed

lemma GetAdminClient_miss_Inr:
  assumes "conns c name = None" "GetAdminClient env c name w = (Inr a, c', w')"
  shows "\<exists>cl. c' = c\<lparr>conns := (conns c)(name \<mapsto> cl)\<rparr> \<and>
         count_calls is_NewClient w' = Suc (count_calls is_NewClient w)"
proof -
  from assms obtain cfg cl w1 w2 where
    r: "call_ReadConfig env w = (Inr cfg, w1)" and
    o: "openAndStore env c name (resolveOrActive env cfg name) w1 = (Inr cl, c', w2)" and
    a: "adminFromClient env cl w2 = (Inr a, w')"
    by (auto simp: GetAdminClient_def split: prod.splits sum.splits option.splits)
  have "count_calls is_NewClient w1 = count_calls is_NewClient w"
    using calls_ReadConfig[OF r] by (simp add: count_append_one)
  moreover have "count_calls is_NewClient w' = count_calls is_NewClient w2"
    using calls_adminFromClient[OF a] by (simp add: count_append_one)
  ultimately show ?thesis
    using openAndStore_Inr(1)[OF o] openAndStore_NewClient_count[OF o] by auto
qed

lemma GetAdminClient_hit:
  "conns c name = Some cl \<Longrightarrow> GetAdminClient env c name w = (r, c', w') \<Longrightarrow>
     c' = c \<and> adminFromClient env cl w = (r, w')"
  by (auto simp: GetAdminClient_def split: prod.splits)

section \<open>The claims\<close>

text \<open>
  A successful \<open>GetClient\<close> or \<open>GetAdminClient\<close> leaves a client stored under the
  name, and on a miss exactly one client has been opened; a stored client is returned
  by \<open>GetClient\<close> with manager and world unchanged.
\<close>

lemma success_leaves_client_stored:
  "(GetClient env c name w = (Inr cl, c', w') \<longrightarrow>
      conns c' name = Some cl \<and>
      (conns c name = None \<longrightarrow>
         c' = c\<lparr>conns := (conns c)(name \<mapsto> cl)\<rparr> \<and>
         count_calls is_NewClient w' = Suc (count_calls is_NewClient w))) \<and>
   (GetAdminClient env c name w = (Inr a, c2, w2) \<longrightarrow>
      (\<exists>stored. conns c2 name = Some stored \<and>
         (conns c name = None \<longrightarrow>
            c2 = c\<lparr>conns := (conns c)(name \<mapsto> stored)\<rparr> \<and>
            count_calls is_NewClient w2 = Suc (count_calls is_NewClient w)))) \<and>
   (conns c name = Some cl \<longrightarrow> (\<forall>env3 w3. GetClient env3 c name w3 = (Inr cl, c, w3)))"
proof (intro conjI impI allI)
  assume g: "GetClient env c name w = (Inr cl, c', w')"
  show "conns c' name = Some cl"
  proof (cases "conns c name")
    case None
    from GetClient_miss_Inr[OF None g] show ?thesis by simp
  next
    case (Some x)
    with g show ?thesis by (simp add: GetClient_def)
  qed
next
  assume "GetClient env c name w = (Inr cl, c', w')" "conns c name = None"
  then show "c' = c\<lparr>conns := (conns c)(name \<mapsto> cl)\<rparr>"
    and "count_calls is_NewClient w' = Suc (count_calls is_NewClient w)"
    using GetClient_miss_Inr by blast+
next
  assume g: "GetAdminClient env c name w = (Inr a, c2, w2)"
  show "\<exists>stored. conns c2 name = Some stored \<and>
         (conns c name = None \<longrightarrow>
            c2 = c\<lparr>conns := (conns c)(name \<mapsto> stored)\<rparr> \<and>
            count_calls is_NewClient w2 = Suc (count_calls is_NewClient w))"
  proof (cases "conns c name")
    case None
    from GetAdminClient_miss_Inr[OF None g] show ?thesis using None by auto
  next
    case (Some x)
    from GetAdminClient_hit[OF Some g] show ?thesis using Some by simp
  qed
next
  fix env3 :: "'b env" and w3 :: "'b world"
  assume "conns c name = Some cl"
  then show "GetClient env3 c name w3 = (Inr cl, c, w3)" by (rule GetClient_hit)
qed

subsection \<open>What each step of toSaramaConfig leaves in the configuration\<close>

lemma versionStep_Inr:
  "versionStep env cl sc = Inr sc1 \<Longrightarrow>
     (Version cl \<noteq> '''' \<longrightarrow>
        ParseKafkaVersion env (Version cl) = Inr (Config_Version sc1) \<and>
        sc1 = sc\<lparr>Config_Version := Config_Version sc1\<rparr>) \<and>
     (Version cl = '''' \<longrightarrow> sc1 = sc)"
  by (auto simp: versionStep_def split: if_splits sum.splits)

lemma tlsStep_Inr:
  "tlsStep env cl sc w = (Inr sc1, w') \<Longrightarrow>
     (if TLS cl \<noteq> None \<and> SecurityProtocol cl \<noteq> ''SASL_SSL''
      then \<exists>tc. sc1 = sc\<lparr>Net_TLS_Enable := True, Net_TLS_Config := Some tc\<rparr>
      else sc1 = sc)"
  unfolding tlsStep_def
  by (cases "TLS cl") (auto split: if_splits sum.splits prod.splits)

lemma saslSslTls_Inr:
  "saslSslTls env cl sc w = (Inr sc1, w') \<Longrightarrow> \<exists>tc. sc1 = sc\<lparr>Net_TLS_Config := Some tc\<rparr>"
  unfolding saslSslTls_def
  by (cases "TLS cl") (auto split: if_splits sum.splits prod.splits)

lemma saslSslMechanism_Inr:
  "saslSslMechanism cl sc = Inr sc1 \<Longrightarrow>
     SASL cl \<noteq> None \<and>
     Net_TLS_Enable sc1 = Net_TLS_Enable sc \<and> Net_SASL_Enable sc1 = Net_SASL_Enable sc \<and>
     Net_SASL_User sc1 = Net_SASL_User sc \<and> Net_SASL_Password sc1 = Net_SASL_Password sc \<and>
     Config_Version sc1 = Config_Version sc"
  unfolding saslSslMechanism_def
  by (cases "SASL cl") (auto split: if_splits)

lemma saslSslStep_Inr:
  assumes "saslSslStep env cl sc w = (Inr sc1, w')"
  shows "if SecurityProtocol cl = ''SASL_SSL''
      then Net_TLS_Enable sc1 \<and> Net_SASL_Enable sc1 = Net_SASL_Enable sc \<and>
           Net_SASL_User sc1 = Net_SASL_User sc \<and> Net_SASL_Password sc1 = Net_SASL_Password sc \<and>
           Config_Version sc1 = Config_Version sc \<and> SASL cl \<noteq> None
      else sc1 = sc"
proof (cases "SecurityProtocol cl = ''SASL_SSL''")
  case False
  with assms show ?thesis by (simp add: saslSslStep_def)
next
  case True
  with assms obtain sc2 w1 where
    t: "saslSslTls env cl (sc\<lparr>Net_TLS_Enable := True\<rparr>) w = (Inr sc2, w1)" and
    m: "saslSslMechanism cl sc2 = Inr sc1"
    by (auto simp: saslSslStep_def split: prod.splits sum.splits)
  from saslSslTls_Inr[OF t] obtain tc where
    "sc2 = sc\<lparr>Net_TLS_Enable := True, Net_TLS_Config := Some tc\<rparr>" by auto
  with saslSslMechanism_Inr[OF m] True show ?thesis by simp
qed

lemma toSaramaConfig_Inr:
  "toSaramaConfig env (Some cl) w = (Inr sc, w') \<Longrightarrow>
     \<exists>sc1 sc3 w1. versionStep env cl (baseConfig env) = Inr sc1 \<and>
        tlsStep env cl (saslStep cl sc1) w = (Inr sc3, w1) \<and>
        saslSslStep env cl sc3 w1 = (Inr sc, w')"
  unfolding toSaramaConfig_def
  by (cases "versionStep env cl (baseConfig env)"; cases "tlsStep env cl (saslStep cl (projr (versionStep env cl (baseConfig env)))) w")
     (auto split: sum.splits)

text \<open>The fields of a configuration that \<open>toSaramaConfig\<close> has returned.\<close>

lemma returned_config_fields:
  "toSaramaConfig env (Some cl) w = (Inr sc, w') \<and>
   \<not> Net_SASL_Enable (NewConfig env) \<and> \<not> Net_TLS_Enable (NewConfig env) \<longrightarrow>
     (Net_SASL_Enable sc \<longleftrightarrow> SASL cl \<noteq> None) \<and>
     (\<forall>s. SASL cl = Some s \<longrightarrow>
        Net_SASL_User sc = Username s \<and> Net_SASL_Password sc = Password s) \<and>
     (Net_TLS_Enable sc \<longleftrightarrow> TLS cl \<noteq> None \<or> SecurityProtocol cl = ''SASL_SSL'') \<and>
     (Version cl \<noteq> '''' \<longrightarrow> ParseKafkaVersion env (Version cl) = Inr (Config_Version sc)) \<and>
     (Version cl = '''' \<longrightarrow> Config_Version sc = V1_1_0_0)"
proof (intro impI, elim conjE)
  assume t: "toSaramaConfig env (Some cl) w = (Inr sc, w')"
    and d1: "\<not> Net_SASL_Enable (NewConfig env)" and d2: "\<not> Net_TLS_Enable (NewConfig env)"
  from toSaramaConfig_Inr[OF t] obtain sc1 sc3 w1 where
    v: "versionStep env cl (baseConfig env) = Inr sc1" and
    s: "tlsStep env cl (saslStep cl sc1) w = (Inr sc3, w1)" and
    l: "saslSslStep env cl sc3 w1 = (Inr sc, w')"
    by blast
  note v' = versionStep_Inr[OF v] and s' = tlsStep_Inr[OF s] and l' = saslSslStep_Inr[OF l]
  have b: "\<not> Net_SASL_Enable (baseConfig env)" "\<not> Net_TLS_Enable (baseConfig env)"
    "Config_Version (baseConfig env) = V1_1_0_0"
    using d1 d2 by (simp_all add: baseConfig_def)
  have c1: "\<not> Net_SASL_Enable sc1" "\<not> Net_TLS_Enable sc1"
    "Version cl = '''' \<longrightarrow> Config_Version sc1 = V1_1_0_0"
    "Version cl \<noteq> '''' \<longrightarrow> ParseKafkaVersion env (Version cl) = Inr (Config_Version sc1)"
  proof -
    show "Version cl \<noteq> '''' \<longrightarrow> ParseKafkaVersion env (Version cl) = Inr (Config_Version sc1)"
      using v' by blast
    show "Version cl = '''' \<longrightarrow> Config_Version sc1 = V1_1_0_0" using v' b by auto
    show "\<not> Net_SASL_Enable sc1"
    proof (cases "Version cl = ''''")
      case True with v' b show ?thesis by simp
    next
      case False
      with v' have "sc1 = (baseConfig env)\<lparr>Config_Version := Config_Version sc1\<rparr>" by blast
      then have "Net_SASL_Enable sc1 = Net_SASL_Enable (baseConfig env)"
        by (metis sarama_config.select_convs(5) sarama_config.surjective sarama_config.update_convs(1))
      with b show ?thesis by simp
    qed
    show "\<not> Net_TLS_Enable sc1"
    proof (cases "Version cl = ''''")
      case True with v' b show ?thesis by simp
    next
      case False
      with v' have "sc1 = (baseConfig env)\<lparr>Config_Version := Config_Version sc1\<rparr>" by blast
      then have "Net_TLS_Enable sc1 = Net_TLS_Enable (baseConfig env)"
        by (metis sarama_config.select_convs(10) sarama_config.surjective sarama_config.update_convs(1))
      with b show ?thesis by simp
    qed
  qed
  have c2: "Net_SASL_Enable (saslStep cl sc1) \<longleftrightarrow> SASL cl \<noteq> None"
    "\<forall>s. SASL cl = Some s \<longrightarrow>
        Net_SASL_User (saslStep cl sc1) = Username s \<and> Net_SASL_Password (saslStep cl sc1) = Password s"
    "\<not> Net_TLS_Enable (saslStep cl sc1)"
    "Config_Version (saslStep cl sc1) = Config_Version sc1"
    using c1 by (cases "SASL cl"; simp add: saslStep_def)+
  have f3: "Net_SASL_Enable sc3 = Net_SASL_Enable (saslStep cl sc1) \<and>
      Net_SASL_User sc3 = Net_SASL_User (saslStep cl sc1) \<and>
      Net_SASL_Password sc3 = Net_SASL_Password (saslStep cl sc1) \<and>
      Config_Version sc3 = Config_Version (saslStep cl sc1) \<and>
      (Net_TLS_Enable sc3 \<longleftrightarrow> TLS cl \<noteq> None \<and> SecurityProtocol cl \<noteq> ''SASL_SSL'')"
  proof (cases "TLS cl \<noteq> None \<and> SecurityProtocol cl \<noteq> ''SASL_SSL''")
    case True
    with s' obtain tc where
      "sc3 = (saslStep cl sc1)\<lparr>Net_TLS_Enable := True, Net_TLS_Config := Some tc\<rparr>"
      by auto
    with True show ?thesis by simp
  next
    case False
    with s' have "sc3 = saslStep cl sc1" by (simp split: if_splits)
    with False c2 show ?thesis by simp
  qed
  have c3: "Net_SASL_Enable sc3 \<longleftrightarrow> SASL cl \<noteq> None"
    "\<forall>s. SASL cl = Some s \<longrightarrow>
        Net_SASL_User sc3 = Username s \<and> Net_SASL_Password sc3 = Password s"
    "Net_TLS_Enable sc3 \<longleftrightarrow> TLS cl \<noteq> None \<and> SecurityProtocol cl \<noteq> ''SASL_SSL''"
    "Config_Version sc3 = Config_Version sc1"
    using f3 c2 by simp_all
  show "(Net_SASL_Enable sc \<longleftrightarrow> SASL cl \<noteq> None) \<and>
     (\<forall>s. SASL cl = Some s \<longrightarrow>
        Net_SASL_User sc = Username s \<and> Net_SASL_Password sc = Password s) \<and>
     (Net_TLS_Enable sc \<longleftrightarrow> TLS cl \<noteq> None \<or> SecurityProtocol cl = ''SASL_SSL'') \<and>
     (Version cl \<noteq> '''' \<longrightarrow> ParseKafkaVersion env (Version cl) = Inr (Config_Version sc)) \<and>
     (Version cl = '''' \<longrightarrow> Config_Version sc = V1_1_0_0)"
  proof (cases "SecurityProtocol cl = ''SASL_SSL''")
    case True
    with l' have "Net_TLS_Enable sc" "Net_SASL_Enable sc = Net_SASL_Enable sc3"
      "Net_SASL_User sc = Net_SASL_User sc3" "Net_SASL_Password sc = Net_SASL_Password sc3"
      "Config_Version sc = Config_Version sc3" by simp_all
    with c3 c1 True show ?thesis by simp
  next
    case False
    with l' have "sc = sc3" by simp
    with c3 c1 False show ?thesis by simp
  qed
qed


text \<open>
  C8. \<open>toSaramaConfig\<close> should return a configuration or an error for every cluster
  record. For the record \<open>noSaslCluster\<close>, with security protocol SASL_SSL and no SASL
  section, the source reaches \<open>cluster.SASL.Mechanism\<close> on line 223 with a nil
  \<open>SASL\<close>: the call panics.
\<close>

theorem toSaramaConfig_nil_SASL_panics:
  "toSaramaConfig demoEnv (Some noSaslCluster) startWorld = (Inl NilDereference, startWorld)"
  by (simp add: eval_defs noSaslCluster_def)

subsection \<open>Outcomes of the steps of toSaramaConfig\<close>

lemma call_ReadFile_eq:
  "call_ReadFile env p w = (r, w') \<longleftrightarrow>
     r = ReadFile env (extern w) p \<and> w' = record_call (EvReadFile p) w"
  by (auto simp: call_ReadFile_def)

lemma extern_record_call: "extern (record_call e w) = extern w"
  by (simp add: record_call_def)

lemma tlsCafile_Inl:
  "tlsCafile env t tc w = (Inl f, w') \<Longrightarrow>
     Cafile t \<noteq> '''' \<and>
     (\<exists>m. ReadFile env (extern w) (Cafile t) = Inl m \<and>
          f = Err (Errorf (''Unable to read Cafile :'' @ m)))"
  unfolding tlsCafile_def call_ReadFile_def
  by (cases "ReadFile env (extern w) (Cafile t)") (auto split: if_splits)

lemma tlsCafile_Inr:
  "tlsCafile env t tc w = (Inr tc1, w') \<Longrightarrow>
     extern w' = extern w \<and> (Cafile t \<noteq> '''' \<longrightarrow> \<not> isl (ReadFile env (extern w) (Cafile t)))"
  unfolding tlsCafile_def call_ReadFile_def
  by (cases "ReadFile env (extern w) (Cafile t)") (auto simp: extern_record_call split: if_splits)

lemma tlsClientPair_Inl:
  "tlsClientPair env t tc w = (Inl f, w') \<Longrightarrow>
     Clientfile t \<noteq> '''' \<and> Clientkeyfile t \<noteq> '''' \<and>
     ((\<exists>m. ReadFile env (extern w) (Clientfile t) = Inl m \<and>
           f = Err (Errorf (''Unable to read Clientfile :'' @ m))) \<or>
      (\<exists>cert m. ReadFile env (extern w) (Clientfile t) = Inr cert \<and>
           ReadFile env (extern w) (Clientkeyfile t) = Inl m \<and>
           f = Err (Errorf (''Unable to read Clientkeyfile :'' @ m))) \<or>
      (\<exists>cert key m. ReadFile env (extern w) (Clientfile t) = Inr cert \<and>
           ReadFile env (extern w) (Clientkeyfile t) = Inr key \<and>
           X509KeyPair env cert key = Inl m \<and>
           f = Err (Errorf (''Unable to creatre KeyPair: '' @ m))))"
  unfolding tlsClientPair_def call_ReadFile_def
  by (cases "ReadFile env (extern w) (Clientfile t)";
      cases "ReadFile env (extern w) (Clientkeyfile t)";
      cases "X509KeyPair env (projr (ReadFile env (extern w) (Clientfile t)))
               (projr (ReadFile env (extern w) (Clientkeyfile t)))")
     (auto simp: extern_record_call split: if_splits)

lemma tlsClientPair_Inr:
  "tlsClientPair env t tc w = (Inr tc1, w') \<Longrightarrow>
     (Clientfile t \<noteq> '''' \<and> Clientkeyfile t \<noteq> '''' \<longrightarrow>
        (\<exists>cert key. ReadFile env (extern w) (Clientfile t) = Inr cert \<and>
           ReadFile env (extern w) (Clientkeyfile t) = Inr key \<and>
           \<not> isl (X509KeyPair env cert key)))"
  unfolding tlsClientPair_def call_ReadFile_def
  by (cases "ReadFile env (extern w) (Clientfile t)";
      cases "ReadFile env (extern w) (Clientkeyfile t)";
      cases "X509KeyPair env (projr (ReadFile env (extern w) (Clientfile t)))
               (projr (ReadFile env (extern w) (Clientkeyfile t)))")
     (auto simp: extern_record_call split: if_splits)

lemma versionStep_Inl:
  "versionStep env cl sc = Inl f \<Longrightarrow>
     Version cl \<noteq> '''' \<and>
     (\<exists>m. ParseKafkaVersion env (Version cl) = Inl m \<and>
          f = Err (Errorf (''Unable to parse Kafka version: '' @ m)))"
  unfolding versionStep_def
  by (cases "ParseKafkaVersion env (Version cl)") (auto split: if_splits)

lemma versionStep_Inr_ok: "versionStep env cl sc = Inr sc1 \<Longrightarrow> \<not> versionFails env cl"
  unfolding versionStep_def versionFails_def
  by (cases "ParseKafkaVersion env (Version cl)") (auto split: if_splits)

lemma tlsStep_Inl:
  assumes "tlsStep env cl sc w = (Inl f, w')"
  shows "\<exists>e. f = Err e \<and> configError env (extern w) cl e"
proof -
  from assms obtain t where t: "TLS cl = Some t" and p: "SecurityProtocol cl \<noteq> ''SASL_SSL''"
    unfolding tlsStep_def by (cases "TLS cl") (auto split: if_splits)
  let ?tc = "\<lparr>InsecureSkipVerify = Insecure t, RootCAs = None, Certificates = []\<rparr>"
  obtain r1 w1 where c: "tlsCafile env t ?tc w = (r1, w1)" by (cases "tlsCafile env t ?tc w")
  show ?thesis
  proof (cases r1)
    case (Inl f1)
    with assms t p c have "f = f1" by (simp add: tlsStep_def)
    with tlsCafile_Inl[OF c[unfolded Inl]] t p show ?thesis
      by (auto simp: configError_def)
  next
    case (Inr tc1)
    note ok = tlsCafile_Inr[OF c[unfolded Inr]]
    obtain r2 w2 where d: "tlsClientPair env t tc1 w1 = (r2, w2)"
      by (cases "tlsClientPair env t tc1 w1")
    with assms t p c Inr obtain f2 where r2: "r2 = Inl f2" and "f = f2"
      by (cases r2) (auto simp: tlsStep_def)
    from tlsClientPair_Inl[OF d[unfolded r2]] ok \<open>f = f2\<close> t p show ?thesis
      unfolding configError_def by auto
  qed
qed

lemma tlsStep_Inr_ok:
  assumes "tlsStep env cl sc w = (Inr sc1, w')"
  shows "extern w' = extern w"
    and "SecurityProtocol cl \<noteq> ''SASL_SSL'' \<Longrightarrow>
           \<not> cafileFails env (extern w) cl \<and> \<not> clientPairFails env (extern w) cl"
proof -
  show "extern w' = extern w"
    using reads_only_tlsStep[OF assms] by (simp add: reads_only_def)
  assume p: "SecurityProtocol cl \<noteq> ''SASL_SSL''"
  show "\<not> cafileFails env (extern w) cl \<and> \<not> clientPairFails env (extern w) cl"
  proof (cases "TLS cl")
    case None
    then show ?thesis by (simp add: cafileFails_def clientPairFails_def)
  next
    case (Some t)
    let ?tc = "\<lparr>InsecureSkipVerify = Insecure t, RootCAs = None, Certificates = []\<rparr>"
    obtain r1 w1 where c: "tlsCafile env t ?tc w = (r1, w1)" by (cases "tlsCafile env t ?tc w")
    with assms Some p obtain tc1 where r1: "r1 = Inr tc1"
      by (cases r1) (auto simp: tlsStep_def)
    note ok1 = tlsCafile_Inr[OF c[unfolded r1]]
    obtain r2 w2 where d: "tlsClientPair env t tc1 w1 = (r2, w2)"
      by (cases "tlsClientPair env t tc1 w1")
    with assms Some p c r1 obtain tc2 where r2: "r2 = Inr tc2"
      by (cases r2) (auto simp: tlsStep_def)
    note ok2 = tlsClientPair_Inr[OF d[unfolded r2]]
    from ok1 Some have "\<not> cafileFails env (extern w) cl" by (auto simp: cafileFails_def)
    moreover from ok1 ok2 Some have "\<not> clientPairFails env (extern w) cl"
      unfolding clientPairFails_def by auto
    ultimately show ?thesis by simp
  qed
qed

lemma saslSslTls_Inl:
  "saslSslTls env cl sc w = (Inl f, w') \<Longrightarrow>
     \<exists>t m. TLS cl = Some t \<and> Cafile t \<noteq> '''' \<and>
        ReadFile env (extern w) (Cafile t) = Inl m \<and> f = Err (Underlying m)"
  unfolding saslSslTls_def call_ReadFile_def
  by (cases "TLS cl"; cases "ReadFile env (extern w) (Cafile (the (TLS cl)))")
     (auto split: if_splits)

lemma saslSslTls_Inr_ok:
  "saslSslTls env cl sc w = (Inr sc1, w') \<Longrightarrow> \<not> cafileFails env (extern w) cl"
  unfolding saslSslTls_def call_ReadFile_def cafileFails_def
  by (cases "TLS cl"; cases "ReadFile env (extern w) (Cafile (the (TLS cl)))")
     (auto split: if_splits)

lemma saslSslMechanism_Inl:
  "saslSslMechanism cl sc = Inl f \<Longrightarrow> f = NilDereference \<and> SASL cl = None"
  unfolding saslSslMechanism_def
  by (cases "SASL cl") (auto split: if_splits)

lemma saslSslMechanism_total:
  "SASL cl \<noteq> None \<Longrightarrow> \<exists>sc1. saslSslMechanism cl sc = Inr sc1"
  unfolding saslSslMechanism_def
  by (cases "SASL cl") auto

lemma saslSslStep_cases:
  assumes "saslSslStep env cl sc w = (r, w')"
  shows "case r of
           Inl (Err e) \<Rightarrow> SecurityProtocol cl = ''SASL_SSL'' \<and> configError env (extern w) cl e
         | Inl NilDereference \<Rightarrow>
             SecurityProtocol cl = ''SASL_SSL'' \<and> SASL cl = None \<and>
             \<not> cafileFails env (extern w) cl
         | Inr sc1 \<Rightarrow>
             (SecurityProtocol cl = ''SASL_SSL'' \<longrightarrow>
                SASL cl \<noteq> None \<and> \<not> cafileFails env (extern w) cl)"
proof (cases "SecurityProtocol cl = ''SASL_SSL''")
  case False
  with assms show ?thesis by (auto simp: saslSslStep_def)
next
  case True
  obtain r1 w1 where t: "saslSslTls env cl (sc\<lparr>Net_TLS_Enable := True\<rparr>) w = (r1, w1)"
    by (cases "saslSslTls env cl (sc\<lparr>Net_TLS_Enable := True\<rparr>) w")
  show ?thesis
  proof (cases r1)
    case (Inl f)
    with assms True t have r: "r = Inl f" by (simp add: saslSslStep_def)
    from saslSslTls_Inl[OF t[unfolded Inl]] obtain tl m where
      "TLS cl = Some tl" "Cafile tl \<noteq> ''''" "ReadFile env (extern w) (Cafile tl) = Inl m"
      "f = Err (Underlying m)" by blast
    with True r show ?thesis by (auto simp: configError_def)
  next
    case (Inr sc2)
    with assms True t have r: "r = saslSslMechanism cl sc2" by (simp add: saslSslStep_def)
    note ok = saslSslTls_Inr_ok[OF t[unfolded Inr]]
    show ?thesis
    proof (cases r)
      case (Inl f)
      with r saslSslMechanism_Inl[of cl sc2 f] have "f = NilDereference" "SASL cl = None" by simp_all
      with Inl True ok show ?thesis by simp
    next
      case (Inr sc1)
      with r saslSslMechanism_Inr[of cl sc2 sc1] have "SASL cl \<noteq> None" by simp
      with Inr True ok show ?thesis by simp
    qed
  qed
qed

lemma toSaramaConfig_cases:
  assumes "toSaramaConfig env (Some cl) w = (r, w')"
  shows "case r of
           Inl (Err e) \<Rightarrow> configError env (extern w) cl e
         | Inl NilDereference \<Rightarrow>
             SecurityProtocol cl = ''SASL_SSL'' \<and> SASL cl = None \<and>
             \<not> versionFails env cl \<and> \<not> cafileFails env (extern w) cl \<and>
             \<not> clientPairFails env (extern w) cl
         | Inr sc \<Rightarrow>
             (SecurityProtocol cl = ''SASL_SSL'' \<longrightarrow> SASL cl \<noteq> None) \<and>
             \<not> versionFails env cl \<and> \<not> cafileFails env (extern w) cl \<and>
             \<not> clientPairFails env (extern w) cl"
proof (cases "versionStep env cl (baseConfig env)")
  case (Inl f)
  with assms have "r = Inl f" by (simp add: toSaramaConfig_def)
  with versionStep_Inl[OF Inl] show ?thesis by (auto simp: configError_def)
next
  case (Inr sc1)
  note v = versionStep_Inr_ok[OF Inr]
  obtain r2 w1 where t: "tlsStep env cl (saslStep cl sc1) w = (r2, w1)"
    by (cases "tlsStep env cl (saslStep cl sc1) w")
  show ?thesis
  proof (cases r2)
    case (Inl f)
    with assms Inr t have "r = Inl f" by (simp add: toSaramaConfig_def)
    with tlsStep_Inl[OF t[unfolded Inl]] show ?thesis by auto
  next
    case r2: (Inr sc3)
    note ok = tlsStep_Inr_ok[OF t[unfolded r2]]
    from assms Inr t r2 have s: "saslSslStep env cl sc3 w1 = (r, w')"
      by (simp add: toSaramaConfig_def)
    note sc = saslSslStep_cases[OF s]
    have pair: "SecurityProtocol cl = ''SASL_SSL'' \<Longrightarrow> \<not> clientPairFails env (extern w) cl"
      by (cases "TLS cl") (simp_all add: clientPairFails_def)
    show ?thesis
    proof (cases "SecurityProtocol cl = ''SASL_SSL''")
      case True
      with sc ok(1) v pair show ?thesis
        by (cases r) (auto split: failure.splits)
    next
      case False
      with sc ok v show ?thesis
        by (cases r) (auto split: failure.splits)
    qed
  qed
qed

lemma configError_fails:
  "configError env x cl e \<Longrightarrow>
     versionFails env cl \<or> cafileFails env x cl \<or> clientPairFails env x cl"
  unfolding configError_def versionFails_def cafileFails_def clientPairFails_def
  by (cases "TLS cl") (auto split: sum.splits)

text \<open>
  C6, as the code has it. \<open>toSaramaConfig\<close> returns an error exactly when the version
  string is not empty and does not parse, or the TLS section names a certificate
  authority file that cannot be read, or, outside SASL_SSL, the TLS section names both
  a client certificate and a client key and one of the two cannot be read or the pair
  is invalid. When none of these holds, and the record has a SASL section whenever its
  security protocol is SASL_SSL, it returns a configuration.
\<close>

theorem toSaramaConfig_error_exactly_when:
  "((\<exists>e. fst (toSaramaConfig env (Some cl) w) = Inl (Err e)) \<longleftrightarrow>
      versionFails env cl \<or> cafileFails env (extern w) cl \<or> clientPairFails env (extern w) cl) \<and>
   (\<not> versionFails env cl \<and> \<not> cafileFails env (extern w) cl \<and>
    \<not> clientPairFails env (extern w) cl \<and>
    (SecurityProtocol cl = ''SASL_SSL'' \<longrightarrow> SASL cl \<noteq> None) \<longrightarrow>
      (\<exists>sc. fst (toSaramaConfig env (Some cl) w) = Inr sc))"
proof -
  obtain r w' where t: "toSaramaConfig env (Some cl) w = (r, w')"
    by (cases "toSaramaConfig env (Some cl) w")
  note c = toSaramaConfig_cases[OF t]
  let ?fails = "versionFails env cl \<or> cafileFails env (extern w) cl \<or>
    clientPairFails env (extern w) cl"
  show ?thesis
  proof (cases r)
    case (Inr sc)
    with c t show ?thesis by auto
  next
    case (Inl f)
    show ?thesis
    proof (cases f)
      case (Err e)
      with Inl c have "configError env (extern w) cl e" by simp
      then have ?fails by (rule configError_fails)
      with Inl Err t show ?thesis by auto
    next
      case NilDereference
      with Inl c t show ?thesis by auto
    qed
  qed
qed

theorem toSaramaConfig_error_exactly_when_witness:
  "versionFails demoEnv badVersionCluster \<and>
   (\<exists>e. fst (toSaramaConfig demoEnv (Some badVersionCluster) startWorld) = Inl (Err e)) \<and>
   \<not> versionFails demoEnv prodCluster \<and> \<not> cafileFails demoEnv (extern startWorld) prodCluster \<and>
   \<not> clientPairFails demoEnv (extern startWorld) prodCluster \<and>
   SecurityProtocol prodCluster = ''SASL_SSL'' \<and> SASL prodCluster \<noteq> None \<and>
   (\<exists>sc. fst (toSaramaConfig demoEnv (Some prodCluster) startWorld) = Inr sc)"
proof -
  have b: "versionFails demoEnv badVersionCluster"
    by (simp add: versionFails_def demoEnv_def badVersionCluster_def)
  have p: "\<not> versionFails demoEnv prodCluster"
    "\<not> cafileFails demoEnv (extern startWorld) prodCluster"
    "\<not> clientPairFails demoEnv (extern startWorld) prodCluster"
    "SecurityProtocol prodCluster = ''SASL_SSL''" "SASL prodCluster \<noteq> None"
    by (simp_all add: versionFails_def cafileFails_def clientPairFails_def demoEnv_def
        prodCluster_def startWorld_def)
  from toSaramaConfig_error_exactly_when[of demoEnv badVersionCluster startWorld] b
  have "\<exists>e. fst (toSaramaConfig demoEnv (Some badVersionCluster) startWorld) = Inl (Err e)"
    by blast
  moreover from toSaramaConfig_error_exactly_when[of demoEnv prodCluster startWorld] p
  have "\<exists>sc. fst (toSaramaConfig demoEnv (Some prodCluster) startWorld) = Inr sc"
    by blast
  ultimately show ?thesis using b p by blast
qed

text \<open>
  C6 as stated fails: \<open>certOnlyCluster\<close> names a client certificate file that cannot
  be read, and since no client key is named the file is never opened (line 183): a
  configuration is returned.
\<close>

theorem unreadable_client_certificate_counterexample:
  "Clientfile (the (TLS certOnlyCluster)) = ''client.pem'' \<and>
   isl (ReadFile demoEnv (extern startWorld) ''client.pem'') \<and>
   \<not> isl (fst (toSaramaConfig demoEnv (Some certOnlyCluster) startWorld))"
  by (simp add: eval_defs certOnlyCluster_def)

subsection \<open>Errors of the manager's operations\<close>

lemma call_ReadConfig_eq:
  "call_ReadConfig env w = (ReadConfig env (extern w), record_call EvReadConfig w)"
  by (simp add: call_ReadConfig_def)

lemma call_NewClient_Inl:
  "call_NewClient env bs cfg w = (Inl m, w') \<Longrightarrow> fst (NewClient env bs cfg (extern w)) = Inl m"
  by (auto simp: call_NewClient_def split: prod.splits)

lemma adminFromClient_Inl:
  "adminFromClient env cl w = (Inl f, w') \<Longrightarrow>
     \<exists>m. fst (NewClusterAdminFromClient env cl (extern w)) = Inl m \<and> f = Err (Underlying m)"
  unfolding adminFromClient_def call_NewClusterAdminFromClient_def lift_error_def
  by (cases "NewClusterAdminFromClient env cl (extern w)";
      cases "fst (NewClusterAdminFromClient env cl (extern w))") auto

lemma openAndStore_Err:
  assumes "openAndStore env c name clo w = (Inl (Err e), c', w')"
  shows "\<exists>cl. clo = Some cl \<and>
           (configError env (extern w) cl e \<or>
            (\<exists>cfg m. fst (NewClient env (Brokers cl) cfg (extern w)) = Inl m \<and> e = Underlying m))"
proof (cases clo)
  case None
  with assms show ?thesis by (simp add: openAndStore_def toSaramaConfig_def)
next
  case (Some cl)
  obtain r w1 where t: "toSaramaConfig env (Some cl) w = (r, w1)"
    by (cases "toSaramaConfig env (Some cl) w")
  note c = toSaramaConfig_cases[OF t]
  have x: "extern w1 = extern w"
    using reads_only_toSaramaConfig[OF t] by (simp add: reads_only_def)
  show ?thesis
  proof (cases r)
    case (Inl f)
    with assms Some t have "f = Err e" by (simp add: openAndStore_def)
    with c Inl Some show ?thesis by simp
  next
    case (Inr cfg)
    obtain r2 w2 where n: "call_NewClient env (Brokers cl) cfg w1 = (r2, w2)"
      by (cases "call_NewClient env (Brokers cl) cfg w1")
    with assms Some t Inr obtain m where m: "r2 = Inl m" "e = Underlying m"
      by (cases r2) (auto simp: openAndStore_def)
    from call_NewClient_Inl[OF n[unfolded m(1)]] x m Some show ?thesis by auto
  qed
qed

lemma GetClient_Err:
  assumes "GetClient env c name w = (Inl (Err e), c', w')"
  shows "(\<exists>m. ReadConfig env (extern w) = Inl m \<and> e = Underlying m) \<or>
         e = notFound name \<or>
         (\<exists>cl. configError env (extern w) cl e) \<or>
         (\<exists>bs cfg m. fst (NewClient env bs cfg (extern w)) = Inl m \<and> e = Underlying m)"
proof (cases "conns c name")
  case (Some cl)
  with assms show ?thesis by (simp add: GetClient_def)
next
  case None
  show ?thesis
  proof (cases "ReadConfig env (extern w)")
    case (Inl m)
    with assms None show ?thesis by (simp add: GetClient_def call_ReadConfig_eq)
  next
    case (Inr cfg)
    show ?thesis
    proof (cases "findCluster (Clusters cfg) name None")
      case n: None
      with assms None Inr show ?thesis by (simp add: GetClient_def call_ReadConfig_eq)
    next
      case (Some cl)
      with assms None Inr have
        "openAndStore env c name (Some cl) (record_call EvReadConfig w) = (Inl (Err e), c', w')"
        by (simp add: GetClient_def call_ReadConfig_eq)
      from openAndStore_Err[OF this] show ?thesis by (auto simp: extern_record_call)
    qed
  qed
qed

lemma GetConfig_Err:
  assumes "GetConfig env name w = (Inl (Err e), w')"
  shows "(\<exists>m. ReadConfig env (extern w) = Inl m \<and> e = Underlying m) \<or>
         (\<exists>cl. configError env (extern w) cl e)"
proof (cases "ReadConfig env (extern w)")
  case (Inl m)
  with assms show ?thesis by (simp add: GetConfig_def call_ReadConfig_eq)
next
  case (Inr cfg)
  with assms have t: "toSaramaConfig env (resolveOrActive env cfg name) (record_call EvReadConfig w)
      = (Inl (Err e), w')"
    by (simp add: GetConfig_def call_ReadConfig_eq)
  show ?thesis
  proof (cases "resolveOrActive env cfg name")
    case None
    with t show ?thesis by (simp add: toSaramaConfig_def)
  next
    case (Some cl)
    from toSaramaConfig_cases[OF t[unfolded Some]] show ?thesis
      by (auto simp: extern_record_call)
  qed
qed

lemma GetAdminClient_Err:
  assumes "GetAdminClient env c name w = (Inl (Err e), c', w')"
  shows "(\<exists>m. ReadConfig env (extern w) = Inl m \<and> e = Underlying m) \<or>
         (\<exists>cl. configError env (extern w) cl e) \<or>
         (\<exists>bs cfg m. fst (NewClient env bs cfg (extern w)) = Inl m \<and> e = Underlying m) \<or>
         (\<exists>client x m. fst (NewClusterAdminFromClient env client x) = Inl m \<and> e = Underlying m)"
proof (cases "conns c name")
  case (Some cl)
  from GetAdminClient_hit[OF Some assms] have "adminFromClient env cl w = (Inl (Err e), w')"
    by simp
  from adminFromClient_Inl[OF this] show ?thesis by auto
next
  case None
  show ?thesis
  proof (cases "ReadConfig env (extern w)")
    case (Inl m)
    with assms None show ?thesis by (simp add: GetAdminClient_def call_ReadConfig_eq)
  next
    case (Inr cfg)
    let ?w1 = "record_call EvReadConfig w"
    obtain r c1 w2 where o: "openAndStore env c name (resolveOrActive env cfg name) ?w1 = (r, c1, w2)"
      by (cases "openAndStore env c name (resolveOrActive env cfg name) ?w1") auto
    show ?thesis
    proof (cases r)
      case (Inl f)
      with assms None Inr o have "f = Err e" by (simp add: GetAdminClient_def call_ReadConfig_eq)
      with o Inl openAndStore_Err[of env c name "resolveOrActive env cfg name" ?w1 e c1 w2]
      show ?thesis by (auto simp: extern_record_call)
    next
      case r: (Inr client)
      with assms None Inr o have "\<exists>w3. adminFromClient env client w2 = (Inl (Err e), w3)"
        by (auto simp: GetAdminClient_def call_ReadConfig_eq split: prod.splits)
      then obtain w3 where "adminFromClient env client w2 = (Inl (Err e), w3)" ..
      from adminFromClient_Inl[OF this] show ?thesis by auto
    qed
  qed
qed

text \<open>No operation returns an error outside these.\<close>

lemma returned_errors_bounded:
  "(fst (toSaramaConfig env (Some cl) w) = Inl (Err e) \<longrightarrow> configError env (extern w) cl e) \<and>
   (fst (GetClient env c name w) = Inl (Err e) \<longrightarrow>
      (\<exists>m. ReadConfig env (extern w) = Inl m \<and> e = Underlying m) \<or>
      e = notFound name \<or>
      (\<exists>cx. configError env (extern w) cx e) \<or>
      (\<exists>bs cfg m. fst (NewClient env bs cfg (extern w)) = Inl m \<and> e = Underlying m)) \<and>
   (fst (GetConfig env name w) = Inl (Err e) \<longrightarrow>
      (\<exists>m. ReadConfig env (extern w) = Inl m \<and> e = Underlying m) \<or>
      (\<exists>cx. configError env (extern w) cx e)) \<and>
   (fst (GetAdminClient env c name w) = Inl (Err e) \<longrightarrow>
      (\<exists>m. ReadConfig env (extern w) = Inl m \<and> e = Underlying m) \<or>
      (\<exists>cx. configError env (extern w) cx e) \<or>
      (\<exists>bs cfg m. fst (NewClient env bs cfg (extern w)) = Inl m \<and> e = Underlying m) \<or>
      (\<exists>client x m. fst (NewClusterAdminFromClient env client x) = Inl m \<and> e = Underlying m))"
proof (intro conjI impI)
  assume a: "fst (toSaramaConfig env (Some cl) w) = Inl (Err e)"
  then have "toSaramaConfig env (Some cl) w = (Inl (Err e), snd (toSaramaConfig env (Some cl) w))"
    by (metis prod.collapse)
  from toSaramaConfig_cases[OF this] show "configError env (extern w) cl e" by simp
next
  assume "fst (GetClient env c name w) = Inl (Err e)"
  then have "GetClient env c name w =
      (Inl (Err e), fst (snd (GetClient env c name w)), snd (snd (GetClient env c name w)))"
    by (metis prod.collapse)
  then show "(\<exists>m. ReadConfig env (extern w) = Inl m \<and> e = Underlying m) \<or>
      e = notFound name \<or>
      (\<exists>cx. configError env (extern w) cx e) \<or>
      (\<exists>bs cfg m. fst (NewClient env bs cfg (extern w)) = Inl m \<and> e = Underlying m)"
    by (rule GetClient_Err)
next
  assume "fst (GetConfig env name w) = Inl (Err e)"
  then have "GetConfig env name w = (Inl (Err e), snd (GetConfig env name w))"
    by (metis prod.collapse)
  then show "(\<exists>m. ReadConfig env (extern w) = Inl m \<and> e = Underlying m) \<or>
      (\<exists>cx. configError env (extern w) cx e)"
    by (rule GetConfig_Err)
next
  assume "fst (GetAdminClient env c name w) = Inl (Err e)"
  then have "GetAdminClient env c name w =
      (Inl (Err e), fst (snd (GetAdminClient env c name w)), snd (snd (GetAdminClient env c name w)))"
    by (metis prod.collapse)
  then show "(\<exists>m. ReadConfig env (extern w) = Inl m \<and> e = Underlying m) \<or>
      (\<exists>cx. configError env (extern w) cx e) \<or>
      (\<exists>bs cfg m. fst (NewClient env bs cfg (extern w)) = Inl m \<and> e = Underlying m) \<or>
      (\<exists>client x m. fst (NewClusterAdminFromClient env client x) = Inl m \<and> e = Underlying m)"
    by (rule GetAdminClient_Err)
qed

subsection \<open>Resolving the cluster\<close>

lemma configError_not_notFound: "configError env x cl e \<Longrightarrow> e \<noteq> notFound name"
  unfolding configError_def notFound_def by auto

lemma resolveOrActive_unknown:
  "name = '''' \<or> (\<forall>cx \<in> set (Clusters cfg). Name cx \<noteq> name) \<Longrightarrow>
     resolveOrActive env cfg name = ActiveCluster env cfg"
  using findCluster_None[of "Clusters cfg" name] by (auto simp: resolveOrActive_def Let_def)

lemma GetConfig_loaded:
  "ReadConfig env (extern w) = Inr cfg \<Longrightarrow>
     GetConfig env name w =
       toSaramaConfig env (resolveOrActive env cfg name) (record_call EvReadConfig w)"
  by (simp add: GetConfig_def call_ReadConfig_eq)

lemma GetAdminClient_loaded:
  "conns c name = None \<Longrightarrow> ReadConfig env (extern w) = Inr cfg \<Longrightarrow>
     GetAdminClient env c name w =
       (case openAndStore env c name (resolveOrActive env cfg name) (record_call EvReadConfig w) of
          (Inl f, c1, w2) \<Rightarrow> (Inl f, c1, w2)
        | (Inr client, c1, w2) \<Rightarrow>
            (case adminFromClient env client w2 of (r, w3) \<Rightarrow> (r, c1, w3)))"
  by (simp add: GetAdminClient_def call_ReadConfig_eq)

lemma GetConfig_never_notFound: "fst (GetConfig env name w) \<noteq> Inl (Err (notFound name'))"
proof
  assume "fst (GetConfig env name w) = Inl (Err (notFound name'))"
  then have "GetConfig env name w = (Inl (Err (notFound name')), snd (GetConfig env name w))"
    by (metis prod.collapse)
  from GetConfig_Err[OF this] show False
    by (auto simp: notFound_def dest: configError_not_notFound[where name = name', unfolded notFound_def])
qed

lemma GetAdminClient_never_notFound:
  "fst (GetAdminClient env c name w) \<noteq> Inl (Err (notFound name'))"
proof
  assume "fst (GetAdminClient env c name w) = Inl (Err (notFound name'))"
  then have "GetAdminClient env c name w =
      (Inl (Err (notFound name')), fst (snd (GetAdminClient env c name w)),
       snd (snd (GetAdminClient env c name w)))"
    by (metis prod.collapse)
  from GetAdminClient_Err[OF this] show False
    by (auto simp: notFound_def dest: configError_not_notFound[where name = name', unfolded notFound_def])
qed

lemma findCluster_last:
  "\<exists>cx \<in> set cxs. Name cx = name \<Longrightarrow>
     findCluster cxs name None = Some (last (filter (\<lambda>cx. Name cx = name) cxs))"
proof -
  assume "\<exists>cx \<in> set cxs. Name cx = name"
  then have "filter (\<lambda>cx. Name cx = name) cxs \<noteq> []" by (simp add: filter_empty_conv)
  then show ?thesis
    by (cases "filter (\<lambda>cx. Name cx = name) cxs") (simp_all add: findCluster_filter)
qed

lemma GetClient_miss_loaded:
  "conns c name = None \<Longrightarrow> ReadConfig env (extern w) = Inr cfg \<Longrightarrow>
     GetClient env c name w =
       (case findCluster (Clusters cfg) name None of
          None \<Rightarrow> (Inl (Err (notFound name)), c, record_call EvReadConfig w)
        | Some cl \<Rightarrow> openAndStore env c name (Some cl) (record_call EvReadConfig w))"
  by (simp add: GetClient_def call_ReadConfig_eq)

text \<open>
  For the empty name and for a name that matches nothing, \<open>GetConfig\<close> and
  \<open>GetAdminClient\<close> go on with whatever \<open>ActiveCluster\<close> returns, and neither
  returns the not-found error.
\<close>

lemma unknown_name_continues_with_active:
  "ReadConfig env (extern w) = Inr cfg \<and>
   (name = '''' \<or> (\<forall>cx \<in> set (Clusters cfg). Name cx \<noteq> name)) \<longrightarrow>
     GetConfig env name w =
       toSaramaConfig env (ActiveCluster env cfg) (record_call EvReadConfig w) \<and>
     (conns c name = None \<longrightarrow>
        GetAdminClient env c name w =
          (case openAndStore env c name (ActiveCluster env cfg) (record_call EvReadConfig w) of
             (Inl f, c1, w2) \<Rightarrow> (Inl f, c1, w2)
           | (Inr client, c1, w2) \<Rightarrow>
               (case adminFromClient env client w2 of (r, w3) \<Rightarrow> (r, c1, w3)))) \<and>
     fst (GetConfig env name w) \<noteq> Inl (Err (notFound name)) \<and>
     fst (GetAdminClient env c name w) \<noteq> Inl (Err (notFound name))"
proof (intro impI, elim conjE)
  assume r: "ReadConfig env (extern w) = Inr cfg"
    and u: "name = '''' \<or> (\<forall>cx \<in> set (Clusters cfg). Name cx \<noteq> name)"
  note a = resolveOrActive_unknown[OF u, of env]
  have "GetConfig env name w =
       toSaramaConfig env (ActiveCluster env cfg) (record_call EvReadConfig w)"
    using GetConfig_loaded[OF r, of name] a by simp
  moreover have "conns c name = None \<longrightarrow>
        GetAdminClient env c name w =
          (case openAndStore env c name (ActiveCluster env cfg) (record_call EvReadConfig w) of
             (Inl f, c1, w2) \<Rightarrow> (Inl f, c1, w2)
           | (Inr client, c1, w2) \<Rightarrow>
               (case adminFromClient env client w2 of (r, w3) \<Rightarrow> (r, c1, w3)))"
    using GetAdminClient_loaded[OF _ r, of c name] a by simp
  ultimately show "GetConfig env name w =
       toSaramaConfig env (ActiveCluster env cfg) (record_call EvReadConfig w) \<and>
     (conns c name = None \<longrightarrow>
        GetAdminClient env c name w =
          (case openAndStore env c name (ActiveCluster env cfg) (record_call EvReadConfig w) of
             (Inl f, c1, w2) \<Rightarrow> (Inl f, c1, w2)
           | (Inr client, c1, w2) \<Rightarrow>
               (case adminFromClient env client w2 of (r, w3) \<Rightarrow> (r, c1, w3)))) \<and>
     fst (GetConfig env name w) \<noteq> Inl (Err (notFound name)) \<and>
     fst (GetAdminClient env c name w) \<noteq> Inl (Err (notFound name))"
    using GetConfig_never_notFound GetAdminClient_never_notFound by blast
qed

text \<open>
  C4, as the code has it. On a cache miss with the configuration loaded: for a name
  that no cluster has, \<open>GetClient\<close> returns the error \<open>Cluster "name" not found.\<close> and
  no client, the cache unchanged; for a name that some cluster has, it continues with
  the last cluster of that name, and on success the client was opened with that
  cluster's brokers and the configuration \<open>toSaramaConfig\<close> built from it.
\<close>

theorem GetClient_resolves_by_name:
  "conns c name = None \<and> ReadConfig env (extern w) = Inr cfg \<longrightarrow>
     ((\<forall>cx \<in> set (Clusters cfg). Name cx \<noteq> name) \<longrightarrow>
        GetClient env c name w = (Inl (Err (notFound name)), c, record_call EvReadConfig w) \<and>
        message (notFound name) = ''Cluster '' @ [CHR 0x22] @ name @ [CHR 0x22] @ '' not found.'') \<and>
     ((\<exists>cx \<in> set (Clusters cfg). Name cx = name) \<longrightarrow>
        GetClient env c name w =
          openAndStore env c name
            (Some (last (filter (\<lambda>cx. Name cx = name) (Clusters cfg))))
            (record_call EvReadConfig w) \<and>
        (\<forall>client c' w'. GetClient env c name w = (Inr client, c', w') \<longrightarrow>
           (\<exists>scfg w1.
              toSaramaConfig env (Some (last (filter (\<lambda>cx. Name cx = name) (Clusters cfg))))
                (record_call EvReadConfig w) = (Inr scfg, w1) \<and>
              calls w' = calls w1 @
                [EvNewClient (Brokers (last (filter (\<lambda>cx. Name cx = name) (Clusters cfg)))) scfg])))"
proof (intro impI, elim conjE, intro conjI impI allI)
  assume n: "conns c name = None" and r: "ReadConfig env (extern w) = Inr cfg"
  note g = GetClient_miss_loaded[OF n r]
  {
    assume "\<forall>cx \<in> set (Clusters cfg). Name cx \<noteq> name"
    then have "findCluster (Clusters cfg) name None = None" by (simp add: findCluster_None)
    with g show "GetClient env c name w =
        (Inl (Err (notFound name)), c, record_call EvReadConfig w)" by simp
    show "message (notFound name) = ''Cluster '' @ [CHR 0x22] @ name @ [CHR 0x22] @ '' not found.''"
      by (simp add: notFound_def)
  }
  {
    assume m: "\<exists>cx \<in> set (Clusters cfg). Name cx = name"
    let ?lm = "last (filter (\<lambda>cx. Name cx = name) (Clusters cfg))"
    from g findCluster_last[OF m] show e: "GetClient env c name w =
        openAndStore env c name (Some ?lm) (record_call EvReadConfig w)" by simp
    fix client c' w'
    assume "GetClient env c name w = (Inr client, c', w')"
    with e have o: "openAndStore env c name (Some ?lm) (record_call EvReadConfig w) =
        (Inr client, c', w')" by simp
    from openAndStore_Inr(2)[OF o] obtain scfg w1 where
      t: "toSaramaConfig env (Some ?lm) (record_call EvReadConfig w) = (Inr scfg, w1)" and
      k: "call_NewClient env (Brokers ?lm) scfg w1 = (Inr client, w')" by auto
    from calls_NewClient[OF k] t show "\<exists>scfg w1.
        toSaramaConfig env (Some ?lm) (record_call EvReadConfig w) = (Inr scfg, w1) \<and>
        calls w' = calls w1 @ [EvNewClient (Brokers ?lm) scfg]" by blast
  }
qed

theorem GetClient_resolves_by_name_witness:
  "conns NewConnManager ''nope'' = None \<and>
   ReadConfig demoEnv (extern startWorld) = Inr demoConfig \<and>
   ''nope'' \<notin> set (map Name (Clusters demoConfig)) \<and>
   GetClient demoEnv NewConnManager ''nope'' startWorld =
     (Inl (Err (notFound ''nope'')), NewConnManager, record_call EvReadConfig startWorld) \<and>
   conns NewConnManager ''prod'' = None \<and>
   ReadConfig dupEnv (extern startWorld) = Inr dupConfig \<and>
   ''prod'' \<in> set (map Name (Clusters dupConfig)) \<and>
   last (filter (\<lambda>cx. Name cx = ''prod'') (Clusters dupConfig)) = prodCluster2 \<and>
   fst (GetClient dupEnv NewConnManager ''prod'' startWorld) = Inr (Client 0) \<and>
   (\<exists>scfg. last (calls (snd (snd (GetClient dupEnv NewConnManager ''prod'' startWorld)))) =
      EvNewClient (Brokers prodCluster2) scfg)"
proof -
  let ?g = "GetClient dupEnv NewConnManager ''prod'' startWorld"
  have n1: "conns NewConnManager ''nope'' = None" and n2: "conns NewConnManager ''prod'' = None"
    by (simp_all add: NewConnManager_def)
  have r1: "ReadConfig demoEnv (extern startWorld) = Inr demoConfig"
    by (simp add: demoEnv_def)
  have r2: "ReadConfig dupEnv (extern startWorld) = Inr dupConfig"
    by (simp add: dupEnv_def demoEnv_def)
  have u: "\<forall>cx \<in> set (Clusters demoConfig). Name cx \<noteq> ''nope''"
    by (simp add: demoConfig_def localCluster_def prodCluster_def badVersionCluster_def)
  have m: "\<exists>cx \<in> set (Clusters dupConfig). Name cx = ''prod''"
    by (simp add: dupConfig_def prodCluster_def)
  have l: "last (filter (\<lambda>cx. Name cx = ''prod'') (Clusters dupConfig)) = prodCluster2"
    by (simp add: dupConfig_def prodCluster2_def localCluster_def prodCluster_def
        badVersionCluster_def)
  have v: "fst ?g = Inr (Client 0)"
    by (simp add: eval_defs dupEnv_def dupConfig_def prodCluster2_def)
  then have v': "?g = (Inr (Client 0), fst (snd ?g), snd (snd ?g))" by (metis prod.collapse)
  note T1 = GetClient_resolves_by_name[of NewConnManager "''nope''" demoEnv startWorld
      demoConfig, THEN mp, OF conjI[OF n1 r1]]
  note T2 = GetClient_resolves_by_name[of NewConnManager "''prod''" dupEnv startWorld
      dupConfig, THEN mp, OF conjI[OF n2 r2]]
  from T1[THEN conjunct1, THEN mp, OF u]
  have a: "GetClient demoEnv NewConnManager ''nope'' startWorld =
     (Inl (Err (notFound ''nope'')), NewConnManager, record_call EvReadConfig startWorld)"
    by (rule conjunct1)
  from T2[THEN conjunct2, THEN mp, OF m, THEN conjunct2, THEN spec, THEN spec, THEN spec,
      THEN mp, OF v'] l
  have b: "\<exists>scfg. last (calls (snd (snd ?g))) = EvNewClient (Brokers prodCluster2) scfg"
    by auto
  have u': "''nope'' \<notin> set (map Name (Clusters demoConfig))" using u by auto
  have m': "''prod'' \<in> set (map Name (Clusters dupConfig))"
    by (simp add: dupConfig_def prodCluster_def)
  from a b n1 n2 r1 r2 u' m' l v show ?thesis by blast
qed

text \<open>
  C4 as stated fails for a name that is already in the cache: after
  \<open>GetAdminClient\<close> for the empty name has stored the active cluster's client under
  the empty name, \<open>GetClient\<close> for the empty name returns that client, although no
  cluster of the loaded configuration has the empty name.
\<close>

theorem cached_unknown_name_counterexample:
  "'''' \<notin> set (map Name (Clusters demoConfig)) \<and>
   ReadConfig demoEnv
     (extern (snd (snd (GetAdminClient demoEnv NewConnManager '''' startWorld)))) = Inr demoConfig \<and>
   fst (GetClient demoEnv (fst (snd (GetAdminClient demoEnv NewConnManager '''' startWorld))) ''''
          (snd (snd (GetAdminClient demoEnv NewConnManager '''' startWorld)))) = Inr (Client 0)"
  by (simp add: eval_defs)

subsection \<open>What a call does to the cache\<close>

lemma GetClient_manager:
  assumes "GetClient env c name w = (r, c', w')"
  shows "c' = c \<or> (conns c name = None \<and> (\<exists>cl. r = Inr cl \<and> c' = c\<lparr>conns := (conns c)(name \<mapsto> cl)\<rparr>))"
proof (cases "conns c name")
  case (Some cl)
  with assms show ?thesis by (simp add: GetClient_def)
next
  case None
  show ?thesis
  proof (cases "ReadConfig env (extern w)")
    case (Inl m)
    with assms None show ?thesis by (simp add: GetClient_def call_ReadConfig_eq)
  next
    case (Inr cfg)
    show ?thesis
    proof (cases "findCluster (Clusters cfg) name None")
      case n: None
      with assms None Inr show ?thesis by (simp add: GetClient_def call_ReadConfig_eq)
    next
      case (Some cl)
      with assms None Inr have o:
        "openAndStore env c name (Some cl) (record_call EvReadConfig w) = (r, c', w')"
        by (simp add: GetClient_def call_ReadConfig_eq)
      show ?thesis
      proof (cases r)
        case (Inl f)
        with openAndStore_Inl[OF o[unfolded Inl]] show ?thesis by simp
      next
        case r: (Inr client)
        with openAndStore_Inr(1)[OF o[unfolded r]] None show ?thesis by simp
      qed
    qed
  qed
qed

lemma GetAdminClient_manager:
  assumes "GetAdminClient env c name w = (r, c', w')"
  shows "c' = c \<or>
         (conns c name = None \<and>
          (\<exists>client. c' = c\<lparr>conns := (conns c)(name \<mapsto> client)\<rparr> \<and>
             (\<forall>f. r = Inl f \<longrightarrow>
                (\<exists>x m. fst (NewClusterAdminFromClient env client x) = Inl m \<and>
                   f = Err (Underlying m)))))"
proof (cases "conns c name")
  case (Some cl)
  from GetAdminClient_hit[OF Some assms] show ?thesis by simp
next
  case None
  show ?thesis
  proof (cases "ReadConfig env (extern w)")
    case (Inl m)
    with assms None show ?thesis by (simp add: GetAdminClient_def call_ReadConfig_eq)
  next
    case (Inr cfg)
    let ?w1 = "record_call EvReadConfig w"
    obtain r1 c1 w2 where o:
      "openAndStore env c name (resolveOrActive env cfg name) ?w1 = (r1, c1, w2)"
      by (cases "openAndStore env c name (resolveOrActive env cfg name) ?w1") auto
    show ?thesis
    proof (cases r1)
      case (Inl f)
      with assms None Inr o have "c' = c1" by (simp add: GetAdminClient_loaded)
      with openAndStore_Inl[OF o[unfolded Inl]] show ?thesis by simp
    next
      case r1: (Inr client)
      obtain r2 w3 where a: "adminFromClient env client w2 = (r2, w3)"
        by (cases "adminFromClient env client w2")
      with assms None Inr o r1 have e: "r = r2" "c' = c1"
        by (simp_all add: GetAdminClient_loaded)
      have "\<forall>f. r = Inl f \<longrightarrow>
          (\<exists>x m. fst (NewClusterAdminFromClient env client x) = Inl m \<and> f = Err (Underlying m))"
        using adminFromClient_Inl[of env client w2 _ w3] a e by blast
      with openAndStore_Inr(1)[OF o[unfolded r1]] e None show ?thesis by blast
    qed
  qed
qed

lemma manager_keeps_entries:
  "c' = c \<or> (conns c name = None \<and> (\<exists>cl. c' = c\<lparr>conns := (conns c)(name \<mapsto> cl)\<rparr>)) \<Longrightarrow>
     conns c k = Some v \<Longrightarrow> conns c' k = Some v"
  by auto

text \<open>What a call can do to the cache.\<close>

lemma cache_only_grows:
  "(fst (GetClient env c name w) = Inl f \<longrightarrow> fst (snd (GetClient env c name w)) = c) \<and>
   (fst (snd (GetClient env c name w)) \<noteq> c \<longrightarrow>
      conns c name = None \<and>
      (\<exists>cl. fst (GetClient env c name w) = Inr cl \<and>
         fst (snd (GetClient env c name w)) = c\<lparr>conns := (conns c)(name \<mapsto> cl)\<rparr>)) \<and>
   (fst (GetAdminClient env c name w) = Inl f \<longrightarrow>
      fst (snd (GetAdminClient env c name w)) = c \<or>
      (conns c name = None \<and>
       (\<exists>client x m. fst (NewClusterAdminFromClient env client x) = Inl m \<and>
          f = Err (Underlying m) \<and>
          fst (snd (GetAdminClient env c name w)) = c\<lparr>conns := (conns c)(name \<mapsto> client)\<rparr>))) \<and>
   (conns c k = Some v \<longrightarrow>
      conns (fst (snd (GetClient env c name w))) k = Some v \<and>
      conns (fst (snd (GetAdminClient env c name w))) k = Some v)"
proof -
  let ?g = "GetClient env c name w" and ?a = "GetAdminClient env c name w"
  have g: "?g = (fst ?g, fst (snd ?g), snd (snd ?g))" by simp
  have a: "?a = (fst ?a, fst (snd ?a), snd (snd ?a))" by simp
  note G = GetClient_manager[OF g] and A = GetAdminClient_manager[OF a]
  have 1: "fst ?g = Inl f \<longrightarrow> fst (snd ?g) = c" using G by auto
  have 2: "fst (snd ?g) \<noteq> c \<longrightarrow>
      conns c name = None \<and>
      (\<exists>cl. fst ?g = Inr cl \<and> fst (snd ?g) = c\<lparr>conns := (conns c)(name \<mapsto> cl)\<rparr>)"
    using G by blast
  have 3: "fst ?a = Inl f \<longrightarrow>
      fst (snd ?a) = c \<or>
      (conns c name = None \<and>
       (\<exists>client x m. fst (NewClusterAdminFromClient env client x) = Inl m \<and>
          f = Err (Underlying m) \<and>
          fst (snd ?a) = c\<lparr>conns := (conns c)(name \<mapsto> client)\<rparr>))"
    using A by blast
  have 4: "conns c k = Some v \<longrightarrow> conns (fst (snd ?g)) k = Some v"
    using G manager_keeps_entries[of "fst (snd ?g)" c name k v] by blast
  have 5: "conns c k = Some v \<longrightarrow> conns (fst (snd ?a)) k = Some v"
    using A manager_keeps_entries[of "fst (snd ?a)" c name k v] by blast
  from 1 2 3 4 5 show ?thesis by blast
qed

subsection \<open>The calls an operation records\<close>

lemma toSaramaConfig_emits:
  "toSaramaConfig env clo w = (r, w') \<Longrightarrow>
     \<exists>rs. calls w' = calls w @ rs \<and> list_all is_ReadFile rs"
  using reads_only_toSaramaConfig[of env clo w r w'] by (auto simp: reads_only_def)

lemma openAndStore_emits:
  assumes "openAndStore env c name clo w = (r, c', w')"
  shows "\<exists>rs ns. calls w' = calls w @ rs @ ns \<and> list_all is_ReadFile rs \<and>
           (ns = [] \<or> (\<exists>bs cfg. ns = [EvNewClient bs cfg]))"
proof -
  obtain r1 w1 where t: "toSaramaConfig env clo w = (r1, w1)"
    by (cases "toSaramaConfig env clo w")
  from toSaramaConfig_emits[OF t] obtain rs where
    rs: "calls w1 = calls w @ rs" "list_all is_ReadFile rs" by blast
  show ?thesis
  proof (cases r1)
    case (Inl f)
    with assms t have "w' = w1" by (simp add: openAndStore_def)
    with rs show ?thesis by auto
  next
    case (Inr cfg)
    show ?thesis
    proof (cases clo)
      case None
      with assms t Inr have "w' = w1" by (simp add: openAndStore_def)
      with rs show ?thesis by auto
    next
      case (Some cl)
      obtain r2 w2 where n: "call_NewClient env (Brokers cl) cfg w1 = (r2, w2)"
        by (cases "call_NewClient env (Brokers cl) cfg w1")
      with assms t Inr Some have "w' = w2"
        by (cases r2) (simp_all add: openAndStore_def)
      with calls_NewClient[OF n] rs show ?thesis by auto
    qed
  qed
qed

lemma GetClient_emits:
  assumes "GetClient env c name w = (r, c', w')"
  shows "\<exists>evs. calls w' = calls w @ evs \<and>
           (evs = [] \<or>
            (\<exists>rs ns. evs = EvReadConfig # rs @ ns \<and> list_all is_ReadFile rs \<and>
               (ns = [] \<or> (\<exists>bs cfg. ns = [EvNewClient bs cfg]))))"
proof (cases "conns c name")
  case (Some cl)
  with assms show ?thesis by (simp add: GetClient_def)
next
  case None
  let ?w1 = "record_call EvReadConfig w"
  have w1: "calls ?w1 = calls w @ [EvReadConfig]" by (simp add: record_call_def)
  show ?thesis
  proof (cases "ReadConfig env (extern w)")
    case (Inl m)
    with assms None have "w' = ?w1" by (simp add: GetClient_def call_ReadConfig_eq)
    with w1 show ?thesis by auto
  next
    case (Inr cfg)
    show ?thesis
    proof (cases "findCluster (Clusters cfg) name None")
      case n: None
      with assms None Inr have "w' = ?w1" by (simp add: GetClient_def call_ReadConfig_eq)
      with w1 show ?thesis by auto
    next
      case (Some cl)
      with assms None Inr have "openAndStore env c name (Some cl) ?w1 = (r, c', w')"
        by (simp add: GetClient_def call_ReadConfig_eq)
      from openAndStore_emits[OF this] w1 obtain rs ns where
        e: "calls w' = calls w @ EvReadConfig # rs @ ns" "list_all is_ReadFile rs"
           "ns = [] \<or> (\<exists>bs cfg. ns = [EvNewClient bs cfg])" by auto
      then show ?thesis by blast
    qed
  qed
qed

lemma GetConfig_emits:
  assumes "GetConfig env name w = (r, w')"
  shows "\<exists>rs. calls w' = calls w @ EvReadConfig # rs \<and> list_all is_ReadFile rs"
proof -
  let ?w1 = "record_call EvReadConfig w"
  have w1: "calls ?w1 = calls w @ [EvReadConfig]" by (simp add: record_call_def)
  show ?thesis
  proof (cases "ReadConfig env (extern w)")
    case (Inl m)
    with assms have "w' = ?w1" by (simp add: GetConfig_def call_ReadConfig_eq)
    with w1 show ?thesis by auto
  next
    case (Inr cfg)
    with assms have "toSaramaConfig env (resolveOrActive env cfg name) ?w1 = (r, w')"
      by (simp add: GetConfig_loaded)
    from toSaramaConfig_emits[OF this] w1 show ?thesis by auto
  qed
qed

lemma GetAdminClient_emits:
  assumes "GetAdminClient env c name w = (r, c', w')"
  shows "\<exists>evs. calls w' = calls w @ evs \<and>
           ((\<exists>cl. evs = [EvNewClusterAdmin cl]) \<or>
            (\<exists>rs ns as. evs = EvReadConfig # rs @ ns @ as \<and> list_all is_ReadFile rs \<and>
               (ns = [] \<or> (\<exists>bs cfg. ns = [EvNewClient bs cfg])) \<and>
               (as = [] \<or> (\<exists>cl. as = [EvNewClusterAdmin cl]))))"
proof (cases "conns c name")
  case (Some cl)
  from GetAdminClient_hit[OF Some assms] have "adminFromClient env cl w = (r, w')" by simp
  from calls_adminFromClient[OF this] show ?thesis by auto
next
  case None
  let ?w1 = "record_call EvReadConfig w"
  have w1: "calls ?w1 = calls w @ [EvReadConfig]" by (simp add: record_call_def)
  show ?thesis
  proof (cases "ReadConfig env (extern w)")
    case (Inl m)
    with assms None have "w' = ?w1" by (simp add: GetAdminClient_def call_ReadConfig_eq)
    with w1 show ?thesis by auto
  next
    case (Inr cfg)
    obtain r1 c1 w2 where o:
      "openAndStore env c name (resolveOrActive env cfg name) ?w1 = (r1, c1, w2)"
      by (cases "openAndStore env c name (resolveOrActive env cfg name) ?w1") auto
    from openAndStore_emits[OF o] w1 obtain rs ns where
      e: "calls w2 = calls w @ EvReadConfig # rs @ ns" "list_all is_ReadFile rs"
         "ns = [] \<or> (\<exists>bs cfg. ns = [EvNewClient bs cfg])" by auto
    show ?thesis
    proof (cases r1)
      case (Inl f)
      with assms None Inr o have "w' = w2" by (simp add: GetAdminClient_loaded)
      with e have "calls w' = calls w @ EvReadConfig # rs @ ns @ []" by simp
      with e(2,3) show ?thesis by blast
    next
      case r1: (Inr client)
      obtain r2 w3 where a: "adminFromClient env client w2 = (r2, w3)"
        by (cases "adminFromClient env client w2")
      with assms None Inr o r1 have "w' = w3" by (simp add: GetAdminClient_loaded)
      with calls_adminFromClient[OF a] e
      have "calls w' = calls w @ EvReadConfig # rs @ ns @ [EvNewClusterAdmin client]" by simp
      with e(2,3) show ?thesis by blast
    qed
  qed
qed

lemma count_emits:
  "calls w' = calls w @ evs \<Longrightarrow> count_calls P w' = count_calls P w + length (filter P evs)"
  by (simp add: count_calls_def)

lemma filter_reads:
  "list_all is_ReadFile rs \<Longrightarrow> \<forall>e. P e \<longrightarrow> \<not> is_ReadFile e \<Longrightarrow> filter P rs = []"
  by (auto simp: list_all_iff filter_empty_conv)

lemma filter_reads_kinds:
  assumes "list_all is_ReadFile rs"
  shows "filter is_ReadConfig rs = []" "filter is_NewClient rs = []"
    "filter is_NewClusterAdmin rs = []" "filter is_GetAvailableOffsets rs = []"
    "filter is_Close rs = []" "filter is_Open rs = []"
  using assms by (auto intro!: filter_reads)

lemma GetConfig_no_repeat: "GetConfig env name w = (r, w') \<Longrightarrow> no_repeated_call w w'"
proof -
  assume "GetConfig env name w = (r, w')"
  from GetConfig_emits[OF this] obtain rs where
    e: "calls w' = calls w @ EvReadConfig # rs" and rs: "list_all is_ReadFile rs" by blast
  show ?thesis
    unfolding no_repeated_call_def count_emits[OF e]
    by (simp add: filter_reads_kinds[OF rs])
qed

lemma GetClient_no_repeat: "GetClient env c name w = (r, c', w') \<Longrightarrow> no_repeated_call w w'"
proof -
  assume "GetClient env c name w = (r, c', w')"
  from GetClient_emits[OF this] obtain evs where e: "calls w' = calls w @ evs" and
    s: "evs = [] \<or>
        (\<exists>rs ns. evs = EvReadConfig # rs @ ns \<and> list_all is_ReadFile rs \<and>
           (ns = [] \<or> (\<exists>bs cfg. ns = [EvNewClient bs cfg])))" by blast
  from s show ?thesis
  proof
    assume "evs = []"
    then show ?thesis unfolding no_repeated_call_def count_emits[OF e] by simp
  next
    assume "\<exists>rs ns. evs = EvReadConfig # rs @ ns \<and> list_all is_ReadFile rs \<and>
           (ns = [] \<or> (\<exists>bs cfg. ns = [EvNewClient bs cfg]))"
    then obtain rs ns where v: "evs = EvReadConfig # rs @ ns" and rs: "list_all is_ReadFile rs"
      and ns: "ns = [] \<or> (\<exists>bs cfg. ns = [EvNewClient bs cfg])" by blast
    from ns show ?thesis
      unfolding no_repeated_call_def count_emits[OF e] v
      by (auto simp: filter_reads_kinds[OF rs])
  qed
qed

lemma GetAdminClient_no_repeat:
  "GetAdminClient env c name w = (r, c', w') \<Longrightarrow> no_repeated_call w w'"
proof -
  assume "GetAdminClient env c name w = (r, c', w')"
  from GetAdminClient_emits[OF this] obtain evs where e: "calls w' = calls w @ evs" and
    s: "(\<exists>cl. evs = [EvNewClusterAdmin cl]) \<or>
        (\<exists>rs ns as. evs = EvReadConfig # rs @ ns @ as \<and> list_all is_ReadFile rs \<and>
           (ns = [] \<or> (\<exists>bs cfg. ns = [EvNewClient bs cfg])) \<and>
           (as = [] \<or> (\<exists>cl. as = [EvNewClusterAdmin cl])))" by blast
  from s show ?thesis
  proof
    assume "\<exists>cl. evs = [EvNewClusterAdmin cl]"
    then show ?thesis unfolding no_repeated_call_def count_emits[OF e] by auto
  next
    assume "\<exists>rs ns as. evs = EvReadConfig # rs @ ns @ as \<and> list_all is_ReadFile rs \<and>
           (ns = [] \<or> (\<exists>bs cfg. ns = [EvNewClient bs cfg])) \<and>
           (as = [] \<or> (\<exists>cl. as = [EvNewClusterAdmin cl]))"
    then obtain rs ns as where v: "evs = EvReadConfig # rs @ ns @ as"
      and rs: "list_all is_ReadFile rs"
      and ns: "ns = [] \<or> (\<exists>bs cfg. ns = [EvNewClient bs cfg])"
      and as: "as = [] \<or> (\<exists>cl. as = [EvNewClusterAdmin cl])" by blast
    from ns as show ?thesis
      unfolding no_repeated_call_def count_emits[OF e] v
      by (auto simp: filter_reads_kinds[OF rs])
  qed
qed

lemma GetConfig_extern: "GetConfig env name w = (r, w') \<Longrightarrow> extern w' = extern w"
proof (cases "ReadConfig env (extern w)")
  case (Inl m)
  assume "GetConfig env name w = (r, w')"
  with Inl show ?thesis by (auto simp: GetConfig_def call_ReadConfig_eq extern_record_call)
next
  case (Inr cfg)
  assume "GetConfig env name w = (r, w')"
  with Inr have "toSaramaConfig env (resolveOrActive env cfg name) (record_call EvReadConfig w)
      = (r, w')" by (simp add: GetConfig_loaded)
  from reads_only_toSaramaConfig[OF this] show ?thesis
    by (simp add: reads_only_def extern_record_call)
qed

subsection \<open>The offset request and its one retry\<close>

lemma GetAvailableOffsets_first_ok:
  "Broker_GetAvailableOffsets env b req (extern w) = (Inr resp, x) \<Longrightarrow>
     GetAvailableOffsets env b name req w =
       (Inr resp, \<lparr>extern = x, calls = calls w @ [EvGetAvailableOffsets b req]\<rparr>)"
  by (simp add: GetAvailableOffsets_def call_GetAvailableOffsets_def)

lemma GetAvailableOffsets_first_fails:
  "Broker_GetAvailableOffsets env b req (extern w) = (Inl m, x) \<Longrightarrow>
     GetAvailableOffsets env b name req w =
       (case GetConfig env name
               \<lparr>extern = Broker_Close env b x,
                  calls = calls w @ [EvGetAvailableOffsets b req, EvClose b]\<rparr> of
          (Inl f, w2) \<Rightarrow> (Inl f, w2)
        | (Inr cfg, w2) \<Rightarrow>
            (case call_GetAvailableOffsets env b req (call_Open env b cfg w2) of
               (r, w3) \<Rightarrow> (lift_error r, w3)))"
  by (simp add: GetAvailableOffsets_def call_GetAvailableOffsets_def call_Close_def)

lemma GetAvailableOffsets_config_fails:
  assumes first: "Broker_GetAvailableOffsets env b req (extern w) = (Inl m, x)"
    and cfg: "fst (GetConfig env name
                \<lparr>extern = Broker_Close env b x,
                   calls = calls w @ [EvGetAvailableOffsets b req, EvClose b]\<rparr>) = Inl f"
  shows "fst (GetAvailableOffsets env b name req w) = Inl f"
    and "\<exists>rs. calls (snd (GetAvailableOffsets env b name req w)) =
            calls w @ [EvGetAvailableOffsets b req, EvClose b, EvReadConfig] @ rs \<and>
            list_all is_ReadFile rs"
proof -
  let ?W1 = "\<lparr>extern = Broker_Close env b x,
               calls = calls w @ [EvGetAvailableOffsets b req, EvClose b]\<rparr>"
  obtain w2 where g: "GetConfig env name ?W1 = (Inl f, w2)"
    using cfg by (cases "GetConfig env name ?W1") auto
  with GetAvailableOffsets_first_fails[OF first, of name]
  have r: "GetAvailableOffsets env b name req w = (Inl f, w2)" by simp
  then show "fst (GetAvailableOffsets env b name req w) = Inl f" by simp
  from GetConfig_emits[OF g] r
  show "\<exists>rs. calls (snd (GetAvailableOffsets env b name req w)) =
            calls w @ [EvGetAvailableOffsets b req, EvClose b, EvReadConfig] @ rs \<and>
            list_all is_ReadFile rs" by auto
qed

lemma GetAvailableOffsets_retry:
  assumes first: "Broker_GetAvailableOffsets env b req (extern w) = (Inl m, x)"
    and cfg: "fst (GetConfig env name
                \<lparr>extern = Broker_Close env b x,
                   calls = calls w @ [EvGetAvailableOffsets b req, EvClose b]\<rparr>) = Inr sc"
  shows "fst (GetAvailableOffsets env b name req w) =
           lift_error (fst (Broker_GetAvailableOffsets env b req
                              (Broker_Open env b sc (Broker_Close env b x))))"
    and "\<exists>rs. calls (snd (GetAvailableOffsets env b name req w)) =
            calls w @ [EvGetAvailableOffsets b req, EvClose b, EvReadConfig] @ rs @
              [EvOpen b sc, EvGetAvailableOffsets b req] \<and>
            list_all is_ReadFile rs"
proof -
  let ?W1 = "\<lparr>extern = Broker_Close env b x,
               calls = calls w @ [EvGetAvailableOffsets b req, EvClose b]\<rparr>"
  obtain w2 where g: "GetConfig env name ?W1 = (Inr sc, w2)"
    using cfg by (cases "GetConfig env name ?W1") auto
  from GetConfig_extern[OF g] have x2: "extern w2 = Broker_Close env b x" by simp
  from GetConfig_emits[OF g] obtain rs where
    c2: "calls w2 = calls w @ [EvGetAvailableOffsets b req, EvClose b, EvReadConfig] @ rs"
    and rs: "list_all is_ReadFile rs" by auto
  let ?x3 = "Broker_Open env b sc (Broker_Close env b x)"
  obtain r3 x4 where second: "Broker_GetAvailableOffsets env b req ?x3 = (r3, x4)"
    by (cases "Broker_GetAvailableOffsets env b req ?x3")
  have r: "GetAvailableOffsets env b name req w =
      (lift_error r3, \<lparr>extern = x4,
         calls = calls w2 @ [EvOpen b sc, EvGetAvailableOffsets b req]\<rparr>)"
    using GetAvailableOffsets_first_fails[OF first, of name] g x2 second
    by (simp add: call_GetAvailableOffsets_def call_Open_def)
  from r second show "fst (GetAvailableOffsets env b name req w) =
      lift_error (fst (Broker_GetAvailableOffsets env b req ?x3))" by simp
  from r c2 rs show "\<exists>rs. calls (snd (GetAvailableOffsets env b name req w)) =
      calls w @ [EvGetAvailableOffsets b req, EvClose b, EvReadConfig] @ rs @
        [EvOpen b sc, EvGetAvailableOffsets b req] \<and> list_all is_ReadFile rs" by auto
qed

lemma GetAvailableOffsets_at_most_two:
  "count_calls is_GetAvailableOffsets (snd (GetAvailableOffsets env b name req w)) \<le>
     count_calls is_GetAvailableOffsets w + 2"
proof -
  let ?R = "GetAvailableOffsets env b name req w"
  obtain r1 x where first: "Broker_GetAvailableOffsets env b req (extern w) = (r1, x)"
    by (cases "Broker_GetAvailableOffsets env b req (extern w)")
  show ?thesis
  proof (cases r1)
    case (Inr resp)
    from GetAvailableOffsets_first_ok[OF first[unfolded Inr], of name]
    show ?thesis by (simp add: count_calls_def)
  next
    case (Inl m)
    let ?W1 = "\<lparr>extern = Broker_Close env b x,
                 calls = calls w @ [EvGetAvailableOffsets b req, EvClose b]\<rparr>"
    show ?thesis
    proof (cases "fst (GetConfig env name ?W1)")
      case f: (Inl f)
      from GetAvailableOffsets_config_fails(2)[OF first[unfolded Inl] f] obtain rs where
        e: "calls (snd ?R) = calls w @ ([EvGetAvailableOffsets b req, EvClose b, EvReadConfig] @ rs)"
        and rs: "list_all is_ReadFile rs" by auto
      show ?thesis unfolding count_emits[OF e] by (simp add: filter_reads_kinds[OF rs])
    next
      case s: (Inr sc)
      from GetAvailableOffsets_retry(2)[OF first[unfolded Inl] s] obtain rs where
        e: "calls (snd ?R) = calls w @ ([EvGetAvailableOffsets b req, EvClose b, EvReadConfig] @ rs @
              [EvOpen b sc, EvGetAvailableOffsets b req])"
        and rs: "list_all is_ReadFile rs" by auto
      show ?thesis unfolding count_emits[OF e] by (simp add: filter_reads_kinds[OF rs])
    qed
  qed
qed

text \<open>
  C2, as the code has it. \<open>GetAvailableOffsets\<close> sends the offset request to the
  broker. If that attempt succeeds its response is returned and nothing else is called.
  If it fails, the broker is closed and the cluster's configuration is resolved again
  with \<open>GetConfig\<close>; if that fails, its error is returned, the broker is not reopened
  and the request is not sent again; otherwise the broker is reopened with the new
  configuration, the request is sent once more, and the second attempt's result is
  returned. The request is sent at most twice. \<open>GetClient\<close>, \<open>GetConfig\<close> and
  \<open>GetAdminClient\<close> repeat no call.
\<close>

theorem GetAvailableOffsets_retries_once:
  "(\<forall>resp x. Broker_GetAvailableOffsets env b req (extern w) = (Inr resp, x) \<longrightarrow>
      GetAvailableOffsets env b name req w =
        (Inr resp, \<lparr>extern = x, calls = calls w @ [EvGetAvailableOffsets b req]\<rparr>)) \<and>
   (\<forall>m x. Broker_GetAvailableOffsets env b req (extern w) = (Inl m, x) \<longrightarrow>
      (\<forall>f. fst (GetConfig env name
                 \<lparr>extern = Broker_Close env b x,
                    calls = calls w @ [EvGetAvailableOffsets b req, EvClose b]\<rparr>) = Inl f \<longrightarrow>
         fst (GetAvailableOffsets env b name req w) = Inl f \<and>
         (\<exists>rs. calls (snd (GetAvailableOffsets env b name req w)) =
            calls w @ [EvGetAvailableOffsets b req, EvClose b, EvReadConfig] @ rs \<and>
            list_all is_ReadFile rs)) \<and>
      (\<forall>sc. fst (GetConfig env name
                  \<lparr>extern = Broker_Close env b x,
                     calls = calls w @ [EvGetAvailableOffsets b req, EvClose b]\<rparr>) = Inr sc \<longrightarrow>
         fst (GetAvailableOffsets env b name req w) =
           lift_error (fst (Broker_GetAvailableOffsets env b req
                              (Broker_Open env b sc (Broker_Close env b x)))) \<and>
         (\<exists>rs. calls (snd (GetAvailableOffsets env b name req w)) =
            calls w @ [EvGetAvailableOffsets b req, EvClose b, EvReadConfig] @ rs @
              [EvOpen b sc, EvGetAvailableOffsets b req] \<and>
            list_all is_ReadFile rs))) \<and>
   count_calls is_GetAvailableOffsets (snd (GetAvailableOffsets env b name req w)) \<le>
     count_calls is_GetAvailableOffsets w + 2 \<and>
   no_repeated_call w (snd (snd (GetClient env c name w))) \<and>
   no_repeated_call w (snd (GetConfig env name w)) \<and>
   no_repeated_call w (snd (snd (GetAdminClient env c name w)))"
proof (intro conjI allI impI)
  fix resp x
  assume "Broker_GetAvailableOffsets env b req (extern w) = (Inr resp, x)"
  then show "GetAvailableOffsets env b name req w =
      (Inr resp, \<lparr>extern = x, calls = calls w @ [EvGetAvailableOffsets b req]\<rparr>)"
    by (rule GetAvailableOffsets_first_ok)
next
  fix m x f
  assume "Broker_GetAvailableOffsets env b req (extern w) = (Inl m, x)"
    and "fst (GetConfig env name
           \<lparr>extern = Broker_Close env b x,
              calls = calls w @ [EvGetAvailableOffsets b req, EvClose b]\<rparr>) = Inl f"
  then show "fst (GetAvailableOffsets env b name req w) = Inl f"
    and "\<exists>rs. calls (snd (GetAvailableOffsets env b name req w)) =
            calls w @ [EvGetAvailableOffsets b req, EvClose b, EvReadConfig] @ rs \<and>
            list_all is_ReadFile rs"
    by (rule GetAvailableOffsets_config_fails)+
next
  fix m x sc
  assume "Broker_GetAvailableOffsets env b req (extern w) = (Inl m, x)"
    and "fst (GetConfig env name
           \<lparr>extern = Broker_Close env b x,
              calls = calls w @ [EvGetAvailableOffsets b req, EvClose b]\<rparr>) = Inr sc"
  then show "fst (GetAvailableOffsets env b name req w) =
           lift_error (fst (Broker_GetAvailableOffsets env b req
                              (Broker_Open env b sc (Broker_Close env b x))))"
    and "\<exists>rs. calls (snd (GetAvailableOffsets env b name req w)) =
            calls w @ [EvGetAvailableOffsets b req, EvClose b, EvReadConfig] @ rs @
              [EvOpen b sc, EvGetAvailableOffsets b req] \<and>
            list_all is_ReadFile rs"
    by (rule GetAvailableOffsets_retry)+
next
  show "count_calls is_GetAvailableOffsets (snd (GetAvailableOffsets env b name req w)) \<le>
     count_calls is_GetAvailableOffsets w + 2"
    by (rule GetAvailableOffsets_at_most_two)
next
  show "no_repeated_call w (snd (snd (GetClient env c name w)))"
    by (rule GetClient_no_repeat[of env c name w "fst (GetClient env c name w)"
          "fst (snd (GetClient env c name w))"]) simp
next
  show "no_repeated_call w (snd (GetConfig env name w))"
    by (rule GetConfig_no_repeat[of env name w "fst (GetConfig env name w)"]) simp
next
  show "no_repeated_call w (snd (snd (GetAdminClient env c name w)))"
    by (rule GetAdminClient_no_repeat[of env c name w "fst (GetAdminClient env c name w)"
          "fst (snd (GetAdminClient env c name w))"]) simp
qed

theorem GetAvailableOffsets_retries_once_witness:
  "Broker_GetAvailableOffsets demoEnv (Broker 1) (OffsetRequest 7) (extern liveWorld) =
     (Inr (OffsetResponse 1), 1) \<and>
   GetAvailableOffsets demoEnv (Broker 1) ''prod'' (OffsetRequest 7) liveWorld =
     (Inr (OffsetResponse 1),
      \<lparr>extern = 1, calls = calls liveWorld @ [EvGetAvailableOffsets (Broker 1) (OffsetRequest 7)]\<rparr>) \<and>
   Broker_GetAvailableOffsets noConfigEnv (Broker 1) (OffsetRequest 7) (extern startWorld) =
     (Inl ''broken pipe'', 0) \<and>
   fst (GetConfig noConfigEnv ''prod''
          \<lparr>extern = Broker_Close noConfigEnv (Broker 1) 0,
             calls = calls startWorld @
               [EvGetAvailableOffsets (Broker 1) (OffsetRequest 7), EvClose (Broker 1)]\<rparr>) =
     Inl (Err (Underlying ''config unreadable'')) \<and>
   fst (GetAvailableOffsets noConfigEnv (Broker 1) ''prod'' (OffsetRequest 7) startWorld) =
     Inl (Err (Underlying ''config unreadable'')) \<and>
   Broker_GetAvailableOffsets demoEnv (Broker 1) (OffsetRequest 7) (extern startWorld) =
     (Inl ''broken pipe'', 0) \<and>
   \<not> isl (fst (GetConfig demoEnv ''prod''
          \<lparr>extern = Broker_Close demoEnv (Broker 1) 0,
             calls = calls startWorld @
               [EvGetAvailableOffsets (Broker 1) (OffsetRequest 7), EvClose (Broker 1)]\<rparr>)) \<and>
   fst (GetAvailableOffsets demoEnv (Broker 1) ''prod'' (OffsetRequest 7) startWorld) =
     Inr (OffsetResponse 1) \<and>
   count_calls is_GetAvailableOffsets
     (snd (GetAvailableOffsets demoEnv (Broker 1) ''prod'' (OffsetRequest 7) startWorld)) \<le>
     count_calls is_GetAvailableOffsets startWorld + 2"
proof -
  let ?b = "Broker 1" and ?q = "OffsetRequest 7"
  let ?W1 = "\<lambda>env. \<lparr>extern = Broker_Close env ?b 0,
      calls = calls startWorld @ [EvGetAvailableOffsets ?b ?q, EvClose ?b]\<rparr>"
  have f1: "Broker_GetAvailableOffsets demoEnv ?b ?q (extern liveWorld) = (Inr (OffsetResponse 1), 1)"
    by (simp add: demoEnv_def liveWorld_def)
  have f2: "Broker_GetAvailableOffsets noConfigEnv ?b ?q (extern startWorld) = (Inl ''broken pipe'', 0)"
    by (simp add: noConfigEnv_def demoEnv_def startWorld_def)
  have f3: "Broker_GetAvailableOffsets demoEnv ?b ?q (extern startWorld) = (Inl ''broken pipe'', 0)"
    by (simp add: demoEnv_def startWorld_def)
  have c2: "fst (GetConfig noConfigEnv ''prod'' (?W1 noConfigEnv)) =
      Inl (Err (Underlying ''config unreadable''))"
    by (simp add: GetConfig_def call_ReadConfig_def noConfigEnv_def demoEnv_def)
  have c3: "\<not> isl (fst (GetConfig demoEnv ''prod'' (?W1 demoEnv)))"
    by (simp add: eval_defs)
  then have c3': "fst (GetConfig demoEnv ''prod'' (?W1 demoEnv)) =
      Inr (projr (fst (GetConfig demoEnv ''prod'' (?W1 demoEnv))))" by simp
  note T1 = GetAvailableOffsets_retries_once[of demoEnv ?b ?q liveWorld "''prod''" NewConnManager]
  note T2 = GetAvailableOffsets_retries_once[of noConfigEnv ?b ?q startWorld "''prod''" NewConnManager]
  note T3 = GetAvailableOffsets_retries_once[of demoEnv ?b ?q startWorld "''prod''" NewConnManager]
  from T1[THEN conjunct1, THEN spec, THEN spec, THEN mp, OF f1]
  have r1: "GetAvailableOffsets demoEnv ?b ''prod'' ?q liveWorld =
     (Inr (OffsetResponse 1),
      \<lparr>extern = 1, calls = calls liveWorld @ [EvGetAvailableOffsets ?b ?q]\<rparr>)" .
  from T2[THEN conjunct2, THEN conjunct1, THEN spec, THEN spec, THEN mp, OF f2,
      THEN conjunct1, THEN spec, THEN mp, OF c2]
  have r2: "fst (GetAvailableOffsets noConfigEnv ?b ''prod'' ?q startWorld) =
     Inl (Err (Underlying ''config unreadable''))" by (rule conjunct1)
  from T3[THEN conjunct2, THEN conjunct1, THEN spec, THEN spec, THEN mp, OF f3,
      THEN conjunct2, THEN spec, THEN mp, OF c3']
  have "fst (GetAvailableOffsets demoEnv ?b ''prod'' ?q startWorld) =
      lift_error (fst (Broker_GetAvailableOffsets demoEnv ?b ?q
        (Broker_Open demoEnv ?b (projr (fst (GetConfig demoEnv ''prod'' (?W1 demoEnv))))
           (Broker_Close demoEnv ?b 0))))" by (rule conjunct1)
  then have r3: "fst (GetAvailableOffsets demoEnv ?b ''prod'' ?q startWorld) = Inr (OffsetResponse 1)"
    by (simp add: demoEnv_def lift_error_def)
  from T3 have r4: "count_calls is_GetAvailableOffsets
     (snd (GetAvailableOffsets demoEnv ?b ''prod'' ?q startWorld)) \<le>
     count_calls is_GetAvailableOffsets startWorld + 2" by blast
  from f1 f2 f3 c2 c3 r1 r2 r3 r4 show ?thesis by blast
qed

text \<open>
  C2 as stated fails when the configuration cannot be resolved after the first attempt
  has failed: the broker has been closed, it is not reopened, the request is not sent
  again, and the error returned is that of the configuration.
\<close>

theorem unreadable_config_stops_retry_counterexample:
  "fst (Broker_GetAvailableOffsets noConfigEnv (Broker 1) (OffsetRequest 7) (extern startWorld)) =
     Inl ''broken pipe'' \<and>
   GetAvailableOffsets noConfigEnv (Broker 1) ''prod'' (OffsetRequest 7) startWorld =
     (Inl (Err (Underlying ''config unreadable'')),
      \<lparr>extern = 0,
         calls = [EvGetAvailableOffsets (Broker 1) (OffsetRequest 7), EvClose (Broker 1),
                  EvReadConfig]\<rparr>)"
  by (simp add: eval_defs noConfigEnv_def GetAvailableOffsets_def call_GetAvailableOffsets_def
      call_Close_def call_Open_def)

section \<open>The cache, the errors, the translation and the fall-back\<close>

subsection \<open>The result of toSaramaConfig as a function of its callees\<close>

lemma tlsCafile_result:
  "fst (tlsCafile env t tc w) =
     (if Cafile t \<noteq> '''' then
        (case ReadFile env (extern w) (Cafile t) of
           Inl m \<Rightarrow> Inl (Err (Errorf (''Unable to read Cafile :'' @ m)))
         | Inr caCert \<Rightarrow> Inr (tc\<lparr>RootCAs := Some [caCert]\<rparr>))
      else Inr tc)"
  unfolding tlsCafile_def call_ReadFile_def
  by (cases "ReadFile env (extern w) (Cafile t)") auto

lemma tlsCafile_extern: "extern (snd (tlsCafile env t tc w)) = extern w"
  using reads_only_tlsCafile[of env t tc w "fst (tlsCafile env t tc w)" "snd (tlsCafile env t tc w)"]
  by (simp add: reads_only_def)

lemma tlsClientPair_result:
  "fst (tlsClientPair env t tc w) =
     (if Clientfile t \<noteq> '''' \<and> Clientkeyfile t \<noteq> '''' then
        (case ReadFile env (extern w) (Clientfile t) of
           Inl m \<Rightarrow> Inl (Err (Errorf (''Unable to read Clientfile :'' @ m)))
         | Inr clientCert \<Rightarrow>
             (case ReadFile env (extern w) (Clientkeyfile t) of
                Inl m \<Rightarrow> Inl (Err (Errorf (''Unable to read Clientkeyfile :'' @ m)))
              | Inr clientKey \<Rightarrow>
                  (case X509KeyPair env clientCert clientKey of
                     Inl m \<Rightarrow> Inl (Err (Errorf (''Unable to creatre KeyPair: '' @ m)))
                   | Inr cert \<Rightarrow> Inr (tc\<lparr>Certificates := [cert]\<rparr>))))
      else Inr tc)"
  unfolding tlsClientPair_def call_ReadFile_def
  by (cases "ReadFile env (extern w) (Clientfile t)";
      cases "ReadFile env (extern w) (Clientkeyfile t)";
      cases "X509KeyPair env (projr (ReadFile env (extern w) (Clientfile t)))
               (projr (ReadFile env (extern w) (Clientkeyfile t)))")
     (auto simp: extern_record_call)

lemma tlsStep_result:
  "fst (tlsStep env cl sc w) =
     (case TLS cl of
        None \<Rightarrow> Inr sc
      | Some t \<Rightarrow>
          if SecurityProtocol cl \<noteq> ''SASL_SSL'' then
            (case fst (tlsCafile env t
                    \<lparr>InsecureSkipVerify = Insecure t, RootCAs = None, Certificates = []\<rparr> w) of
               Inl f \<Rightarrow> Inl f
             | Inr tc1 \<Rightarrow>
                 (case fst (tlsClientPair env t tc1 w) of
                    Inl f \<Rightarrow> Inl f
                  | Inr tc2 \<Rightarrow> Inr (sc\<lparr>Net_TLS_Enable := True, Net_TLS_Config := Some tc2\<rparr>)))
          else Inr sc)"
proof (cases "TLS cl")
  case None
  then show ?thesis by (simp add: tlsStep_def)
next
  case (Some t)
  let ?tc = "\<lparr>InsecureSkipVerify = Insecure t, RootCAs = None, Certificates = []\<rparr>"
  obtain r1 w1 where c: "tlsCafile env t ?tc w = (r1, w1)" by (cases "tlsCafile env t ?tc w")
  have x: "extern w1 = extern w" using tlsCafile_extern[of env t ?tc w] c by simp
  have p: "\<And>tc1. fst (tlsClientPair env t tc1 w1) = fst (tlsClientPair env t tc1 w)"
    unfolding tlsClientPair_result x ..
  show ?thesis
  proof (cases r1)
    case (Inl f)
    with Some c show ?thesis by (simp add: tlsStep_def)
  next
    case (Inr tc1)
    obtain r2 w2 where d: "tlsClientPair env t tc1 w1 = (r2, w2)"
      by (cases "tlsClientPair env t tc1 w1")
    with p[of tc1] have "fst (tlsClientPair env t tc1 w) = r2" by simp
    with Some c Inr d show ?thesis by (cases r2) (simp_all add: tlsStep_def)
  qed
qed

lemma tlsStep_extern: "extern (snd (tlsStep env cl sc w)) = extern w"
  using reads_only_tlsStep[of env cl sc w "fst (tlsStep env cl sc w)" "snd (tlsStep env cl sc w)"]
  by (simp add: reads_only_def)

lemma saslSslStep_result:
  "fst (saslSslStep env cl sc w) =
     (if SecurityProtocol cl = ''SASL_SSL'' then
        (case TLS cl of
           Some t \<Rightarrow>
             if Cafile t \<noteq> '''' then
               (case ReadFile env (extern w) (Cafile t) of
                  Inl m \<Rightarrow> Inl (Err (Underlying m))
                | Inr caCert \<Rightarrow>
                    saslSslMechanism cl
                      (sc\<lparr>Net_TLS_Enable := True,
                          Net_TLS_Config :=
                            Some \<lparr>InsecureSkipVerify = Insecure t, RootCAs = Some [caCert],
                                  Certificates = []\<rparr>\<rparr>))
             else
               saslSslMechanism cl
                 (sc\<lparr>Net_TLS_Enable := True,
                     Net_TLS_Config :=
                       Some \<lparr>InsecureSkipVerify = Insecure t, RootCAs = None,
                             Certificates = []\<rparr>\<rparr>)
         | None \<Rightarrow>
             saslSslMechanism cl
               (sc\<lparr>Net_TLS_Enable := True,
                   Net_TLS_Config :=
                     Some \<lparr>InsecureSkipVerify = False, RootCAs = None, Certificates = []\<rparr>\<rparr>))
      else Inr sc)"
  unfolding saslSslStep_def saslSslTls_def call_ReadFile_def
  by (cases "TLS cl"; cases "ReadFile env (extern w) (Cafile (the (TLS cl)))") auto

lemma saslSslStep_same_extern:
  "extern w1 = extern w \<Longrightarrow> fst (saslSslStep env cl sc w1) = fst (saslSslStep env cl sc w)"
proof -
  assume x: "extern w1 = extern w"
  show ?thesis unfolding saslSslStep_result x ..
qed

lemma toSaramaConfig_result:
  "fst (toSaramaConfig env (Some cl) w) =
     (case versionStep env cl (baseConfig env) of
        Inl f \<Rightarrow> Inl f
      | Inr sc1 \<Rightarrow>
          (case fst (tlsStep env cl (saslStep cl sc1) w) of
             Inl f \<Rightarrow> Inl f
           | Inr sc3 \<Rightarrow> fst (saslSslStep env cl sc3 w)))"
proof (cases "versionStep env cl (baseConfig env)")
  case (Inl f)
  then show ?thesis by (simp add: toSaramaConfig_def)
next
  case (Inr sc1)
  obtain r2 w1 where t: "tlsStep env cl (saslStep cl sc1) w = (r2, w1)"
    by (cases "tlsStep env cl (saslStep cl sc1) w")
  have x: "extern w1 = extern w" using tlsStep_extern[of env cl "saslStep cl sc1" w] t by simp
  show ?thesis
  proof (cases r2)
    case (Inl f)
    with Inr t show ?thesis by (simp add: toSaramaConfig_def)
  next
    case r2: (Inr sc3)
    with Inr t show ?thesis
      by (simp add: toSaramaConfig_def saslSslStep_same_extern[OF x])
  qed
qed

lemma versionStep_ok:
  "\<not> versionFails env cl \<Longrightarrow> \<exists>sc1. versionStep env cl sc = Inr sc1"
  unfolding versionFails_def versionStep_def
  by (cases "ParseKafkaVersion env (Version cl)") auto

subsection \<open>The error of each failing step\<close>

lemma version_error_prefixed:
  "Version cl \<noteq> '''' \<Longrightarrow> ParseKafkaVersion env (Version cl) = Inl m \<Longrightarrow>
     fst (toSaramaConfig env (Some cl) w) =
       Inl (Err (Errorf (''Unable to parse Kafka version: '' @ m)))"
  by (simp add: toSaramaConfig_result versionStep_def)

lemma tlsCafile_ok:
  "TLS cl = Some t \<Longrightarrow> \<not> cafileFails env (extern w) cl \<Longrightarrow> \<exists>tc1. fst (tlsCafile env t tc w) = Inr tc1"
  unfolding cafileFails_def tlsCafile_result
  by (cases "ReadFile env (extern w) (Cafile t)") auto

lemma plain_cafile_error_prefixed:
  assumes "\<not> versionFails env cl" "TLS cl = Some t" "SecurityProtocol cl \<noteq> ''SASL_SSL''"
    "Cafile t \<noteq> ''''" "ReadFile env (extern w) (Cafile t) = Inl m"
  shows "fst (toSaramaConfig env (Some cl) w) =
           Inl (Err (Errorf (''Unable to read Cafile :'' @ m)))"
proof -
  from versionStep_ok[OF assms(1)] obtain sc1 where
    "versionStep env cl (baseConfig env) = Inr sc1" by blast
  with assms(2-5) show ?thesis
    by (simp add: toSaramaConfig_result tlsStep_result tlsCafile_result)
qed

lemma plain_client_pair_errors_prefixed:
  assumes "\<not> versionFails env cl" "TLS cl = Some t" "SecurityProtocol cl \<noteq> ''SASL_SSL''"
    "\<not> cafileFails env (extern w) cl" "Clientfile t \<noteq> ''''" "Clientkeyfile t \<noteq> ''''"
  shows "ReadFile env (extern w) (Clientfile t) = Inl m \<Longrightarrow>
           fst (toSaramaConfig env (Some cl) w) =
             Inl (Err (Errorf (''Unable to read Clientfile :'' @ m)))"
    and "ReadFile env (extern w) (Clientfile t) = Inr cert \<Longrightarrow>
         ReadFile env (extern w) (Clientkeyfile t) = Inl m \<Longrightarrow>
           fst (toSaramaConfig env (Some cl) w) =
             Inl (Err (Errorf (''Unable to read Clientkeyfile :'' @ m)))"
    and "ReadFile env (extern w) (Clientfile t) = Inr cert \<Longrightarrow>
         ReadFile env (extern w) (Clientkeyfile t) = Inr key \<Longrightarrow>
         X509KeyPair env cert key = Inl m \<Longrightarrow>
           fst (toSaramaConfig env (Some cl) w) =
             Inl (Err (Errorf (''Unable to creatre KeyPair: '' @ m)))"
proof -
  from versionStep_ok[OF assms(1)] obtain sc1 where
    v: "versionStep env cl (baseConfig env) = Inr sc1" by blast
  let ?tc = "\<lparr>InsecureSkipVerify = Insecure t, RootCAs = None, Certificates = []\<rparr>"
  from tlsCafile_ok[OF assms(2,4)] obtain tc1 where
    c: "fst (tlsCafile env t ?tc w) = Inr tc1" by blast
  {
    assume "ReadFile env (extern w) (Clientfile t) = Inl m"
    with v c assms(2,3,5,6) show "fst (toSaramaConfig env (Some cl) w) =
        Inl (Err (Errorf (''Unable to read Clientfile :'' @ m)))"
      by (simp add: toSaramaConfig_result tlsStep_result tlsClientPair_result)
  }
  {
    assume "ReadFile env (extern w) (Clientfile t) = Inr cert"
      "ReadFile env (extern w) (Clientkeyfile t) = Inl m"
    with v c assms(2,3,5,6) show "fst (toSaramaConfig env (Some cl) w) =
        Inl (Err (Errorf (''Unable to read Clientkeyfile :'' @ m)))"
      by (simp add: toSaramaConfig_result tlsStep_result tlsClientPair_result)
  }
  {
    assume "ReadFile env (extern w) (Clientfile t) = Inr cert"
      "ReadFile env (extern w) (Clientkeyfile t) = Inr key" "X509KeyPair env cert key = Inl m"
    with v c assms(2,3,5,6) show "fst (toSaramaConfig env (Some cl) w) =
        Inl (Err (Errorf (''Unable to creatre KeyPair: '' @ m)))"
      by (simp add: toSaramaConfig_result tlsStep_result tlsClientPair_result)
  }
qed

lemma sasl_ssl_cafile_error_unchanged:
  assumes "\<not> versionFails env cl" "TLS cl = Some t" "SecurityProtocol cl = ''SASL_SSL''"
    "Cafile t \<noteq> ''''" "ReadFile env (extern w) (Cafile t) = Inl m"
  shows "fst (toSaramaConfig env (Some cl) w) = Inl (Err (Underlying m))"
proof -
  from versionStep_ok[OF assms(1)] obtain sc1 where
    "versionStep env cl (baseConfig env) = Inr sc1" by blast
  with assms(2-5) show ?thesis
    by (simp add: toSaramaConfig_result tlsStep_result saslSslStep_result)
qed

subsection \<open>The result of a call on a cache miss\<close>

lemma adminFromClient_eq:
  "adminFromClient env client w =
     (lift_error (fst (NewClusterAdminFromClient env client (extern w))),
      \<lparr>extern = snd (NewClusterAdminFromClient env client (extern w)),
         calls = calls w @ [EvNewClusterAdmin client]\<rparr>)"
  by (cases "NewClusterAdminFromClient env client (extern w)")
     (simp add: adminFromClient_def call_NewClusterAdminFromClient_def)

lemma toSaramaConfig_extern: "toSaramaConfig env clo w = (r, w1) \<Longrightarrow> extern w1 = extern w"
  using reads_only_toSaramaConfig[of env clo w r w1] by (simp add: reads_only_def)

lemma openAndStore_config_fails:
  "toSaramaConfig env clo w = (Inl f, w1) \<Longrightarrow> openAndStore env c name clo w = (Inl f, c, w1)"
  by (simp add: openAndStore_def)

lemma openAndStore_opened:
  assumes t: "toSaramaConfig env (Some cl) w = (Inr scfg, w1)"
  shows "NewClient env (Brokers cl) scfg (extern w) = (Inr client, x) \<Longrightarrow>
           openAndStore env c name (Some cl) w =
             (Inr client, c\<lparr>conns := (conns c)(name \<mapsto> client)\<rparr>,
              \<lparr>extern = x, calls = calls w1 @ [EvNewClient (Brokers cl) scfg]\<rparr>)"
    and "NewClient env (Brokers cl) scfg (extern w) = (Inl m, x) \<Longrightarrow>
           openAndStore env c name (Some cl) w =
             (Inl (Err (Underlying m)), c,
              \<lparr>extern = x, calls = calls w1 @ [EvNewClient (Brokers cl) scfg]\<rparr>)"
  using t toSaramaConfig_extern[OF t]
  by (simp_all add: openAndStore_def call_NewClient_def)

lemma GetClient_miss_config_unread:
  "conns c name = None \<Longrightarrow> ReadConfig env (extern w) = Inl m \<Longrightarrow>
     GetClient env c name w = (Inl (Err (Underlying m)), c, record_call EvReadConfig w)"
  by (simp add: GetClient_def call_ReadConfig_eq)

lemma GetConfig_config_unread:
  "ReadConfig env (extern w) = Inl m \<Longrightarrow>
     GetConfig env name w = (Inl (Err (Underlying m)), record_call EvReadConfig w)"
  by (simp add: GetConfig_def call_ReadConfig_eq)

lemma GetAdminClient_miss_config_unread:
  "conns c name = None \<Longrightarrow> ReadConfig env (extern w) = Inl m \<Longrightarrow>
     GetAdminClient env c name w = (Inl (Err (Underlying m)), c, record_call EvReadConfig w)"
  by (simp add: GetAdminClient_def call_ReadConfig_eq)

lemma GetClient_miss_found:
  "conns c name = None \<Longrightarrow> ReadConfig env (extern w) = Inr cfg \<Longrightarrow>
   findCluster (Clusters cfg) name None = Some cl \<Longrightarrow>
     GetClient env c name w = openAndStore env c name (Some cl) (record_call EvReadConfig w)"
  by (simp add: GetClient_miss_loaded)

lemma GetClient_miss_not_found:
  "conns c name = None \<Longrightarrow> ReadConfig env (extern w) = Inr cfg \<Longrightarrow>
   findCluster (Clusters cfg) name None = None \<Longrightarrow>
     GetClient env c name w = (Inl (Err (notFound name)), c, record_call EvReadConfig w)"
  by (simp add: GetClient_miss_loaded)

lemma GetAdminClient_hit_eq:
  "conns c name = Some held \<Longrightarrow>
     GetAdminClient env c name w =
       (lift_error (fst (NewClusterAdminFromClient env held (extern w))), c,
        \<lparr>extern = snd (NewClusterAdminFromClient env held (extern w)),
           calls = calls w @ [EvNewClusterAdmin held]\<rparr>)"
  by (simp add: GetAdminClient_def adminFromClient_eq)

lemma GetAdminClient_miss_opened:
  assumes "conns c name = None" "ReadConfig env (extern w) = Inr cfg"
    "resolveOrActive env cfg name = Some cl"
    "toSaramaConfig env (Some cl) (record_call EvReadConfig w) = (Inr scfg, w1)"
  shows "NewClient env (Brokers cl) scfg (extern w) = (Inr client, x) \<Longrightarrow>
           GetAdminClient env c name w =
             (lift_error (fst (NewClusterAdminFromClient env client x)),
              c\<lparr>conns := (conns c)(name \<mapsto> client)\<rparr>,
              \<lparr>extern = snd (NewClusterAdminFromClient env client x),
                 calls = calls w1 @ [EvNewClient (Brokers cl) scfg, EvNewClusterAdmin client]\<rparr>)"
    and "NewClient env (Brokers cl) scfg (extern w) = (Inl m, x) \<Longrightarrow>
           GetAdminClient env c name w =
             (Inl (Err (Underlying m)), c,
              \<lparr>extern = x, calls = calls w1 @ [EvNewClient (Brokers cl) scfg]\<rparr>)"
proof -
  have e: "extern (record_call EvReadConfig w) = extern w" by (simp add: extern_record_call)
  {
    assume n: "NewClient env (Brokers cl) scfg (extern w) = (Inr client, x)"
    from openAndStore_opened(1)[OF assms(4), of client x c name] n e
    have "openAndStore env c name (Some cl) (record_call EvReadConfig w) =
        (Inr client, c\<lparr>conns := (conns c)(name \<mapsto> client)\<rparr>,
         \<lparr>extern = x, calls = calls w1 @ [EvNewClient (Brokers cl) scfg]\<rparr>)" by simp
    with assms(1-3) show "GetAdminClient env c name w =
        (lift_error (fst (NewClusterAdminFromClient env client x)),
         c\<lparr>conns := (conns c)(name \<mapsto> client)\<rparr>,
         \<lparr>extern = snd (NewClusterAdminFromClient env client x),
            calls = calls w1 @ [EvNewClient (Brokers cl) scfg, EvNewClusterAdmin client]\<rparr>)"
      by (simp add: GetAdminClient_loaded adminFromClient_eq)
  }
  {
    assume n: "NewClient env (Brokers cl) scfg (extern w) = (Inl m, x)"
    from openAndStore_opened(2)[OF assms(4), of m x c name] n e
    have "openAndStore env c name (Some cl) (record_call EvReadConfig w) =
        (Inl (Err (Underlying m)), c,
         \<lparr>extern = x, calls = calls w1 @ [EvNewClient (Brokers cl) scfg]\<rparr>)" by simp
    with assms(1-3) show "GetAdminClient env c name w =
        (Inl (Err (Underlying m)), c,
         \<lparr>extern = x, calls = calls w1 @ [EvNewClient (Brokers cl) scfg]\<rparr>)"
      by (simp add: GetAdminClient_loaded)
  }
qed

lemma GetAdminClient_miss_config_fails:
  "conns c name = None \<Longrightarrow> ReadConfig env (extern w) = Inr cfg \<Longrightarrow>
   toSaramaConfig env (resolveOrActive env cfg name) (record_call EvReadConfig w) = (Inl f, w1) \<Longrightarrow>
     GetAdminClient env c name w = (Inl f, c, w1)"
  by (simp add: GetAdminClient_loaded openAndStore_config_fails)

lemma GetClient_miss_opened:
  assumes "conns c name = None" "ReadConfig env (extern w) = Inr cfg"
    "findCluster (Clusters cfg) name None = Some cl"
    "toSaramaConfig env (Some cl) (record_call EvReadConfig w) = (Inr scfg, w1)"
  shows "NewClient env (Brokers cl) scfg (extern w) = (Inr client, x) \<Longrightarrow>
           GetClient env c name w =
             (Inr client, c\<lparr>conns := (conns c)(name \<mapsto> client)\<rparr>,
              \<lparr>extern = x, calls = calls w1 @ [EvNewClient (Brokers cl) scfg]\<rparr>)"
    and "NewClient env (Brokers cl) scfg (extern w) = (Inl m, x) \<Longrightarrow>
           GetClient env c name w =
             (Inl (Err (Underlying m)), c,
              \<lparr>extern = x, calls = calls w1 @ [EvNewClient (Brokers cl) scfg]\<rparr>)"
  using openAndStore_opened[OF assms(4), of _ x c name] GetClient_miss_found[OF assms(1-3)]
  by (simp_all add: extern_record_call)

lemma GetClient_miss_config_fails:
  "conns c name = None \<Longrightarrow> ReadConfig env (extern w) = Inr cfg \<Longrightarrow>
   findCluster (Clusters cfg) name None = Some cl \<Longrightarrow>
   toSaramaConfig env (Some cl) (record_call EvReadConfig w) = (Inl f, w1) \<Longrightarrow>
     GetClient env c name w = (Inl f, c, w1)"
  by (simp add: GetClient_miss_found openAndStore_config_fails)

subsection \<open>What a miss can leave in the cache\<close>

lemma GetClient_miss_inv:
  assumes miss: "conns c name = None" and g: "GetClient env c name w = (r, c', w')"
  shows "(c' = c \<and> isl r) \<or>
         (\<exists>cfg cl scfg w1 got x.
            ReadConfig env (extern w) = Inr cfg \<and>
            findCluster (Clusters cfg) name None = Some cl \<and>
            toSaramaConfig env (Some cl) (record_call EvReadConfig w) = (Inr scfg, w1) \<and>
            NewClient env (Brokers cl) scfg (extern w) = (Inr got, x) \<and>
            r = Inr got \<and> c' = c\<lparr>conns := (conns c)(name \<mapsto> got)\<rparr> \<and>
            w' = \<lparr>extern = x, calls = calls w1 @ [EvNewClient (Brokers cl) scfg]\<rparr>)"
proof (cases "ReadConfig env (extern w)")
  case (Inl m)
  from GetClient_miss_config_unread[OF miss Inl] g show ?thesis by simp
next
  case (Inr cfg)
  show ?thesis
  proof (cases "findCluster (Clusters cfg) name None")
    case None
    from GetClient_miss_not_found[OF miss Inr None] g show ?thesis by simp
  next
    case (Some cl)
    obtain r1 w1 where t: "toSaramaConfig env (Some cl) (record_call EvReadConfig w) = (r1, w1)"
      by (cases "toSaramaConfig env (Some cl) (record_call EvReadConfig w)")
    show ?thesis
    proof (cases r1)
      case (Inl f)
      from GetClient_miss_config_fails[OF miss Inr Some t[unfolded Inl]] g show ?thesis by simp
    next
      case r1: (Inr scfg)
      obtain r2 x where n: "NewClient env (Brokers cl) scfg (extern w) = (r2, x)"
        by (cases "NewClient env (Brokers cl) scfg (extern w)")
      show ?thesis
      proof (cases r2)
        case (Inl m)
        from GetClient_miss_opened(2)[OF miss Inr Some t[unfolded r1] n[unfolded Inl]] g
        show ?thesis by simp
      next
        case r2: (Inr got)
        from GetClient_miss_opened(1)[OF miss Inr Some t[unfolded r1] n[unfolded r2]] g
        have "r = Inr got" "c' = c\<lparr>conns := (conns c)(name \<mapsto> got)\<rparr>"
          "w' = \<lparr>extern = x, calls = calls w1 @ [EvNewClient (Brokers cl) scfg]\<rparr>"
          by simp_all
        with Inr Some t r1 n r2 show ?thesis by blast
      qed
    qed
  qed
qed

lemma GetAdminClient_miss_inv:
  assumes miss: "conns c name = None" and g: "GetAdminClient env c name w = (r, c', w')"
  shows "(c' = c \<and> isl r) \<or>
         (\<exists>cfg cl scfg w1 client x.
            ReadConfig env (extern w) = Inr cfg \<and>
            resolveOrActive env cfg name = Some cl \<and>
            toSaramaConfig env (Some cl) (record_call EvReadConfig w) = (Inr scfg, w1) \<and>
            NewClient env (Brokers cl) scfg (extern w) = (Inr client, x) \<and>
            r = lift_error (fst (NewClusterAdminFromClient env client x)) \<and>
            c' = c\<lparr>conns := (conns c)(name \<mapsto> client)\<rparr> \<and>
            w' = \<lparr>extern = snd (NewClusterAdminFromClient env client x),
                    calls = calls w1 @ [EvNewClient (Brokers cl) scfg, EvNewClusterAdmin client]\<rparr>)"
proof (cases "ReadConfig env (extern w)")
  case (Inl m)
  from GetAdminClient_miss_config_unread[OF miss Inl] g show ?thesis by simp
next
  case (Inr cfg)
  let ?W1 = "record_call EvReadConfig w"
  obtain r1 w1 where t: "toSaramaConfig env (resolveOrActive env cfg name) ?W1 = (r1, w1)"
    by (cases "toSaramaConfig env (resolveOrActive env cfg name) ?W1")
  show ?thesis
  proof (cases r1)
    case (Inl f)
    from GetAdminClient_miss_config_fails[OF miss Inr t[unfolded Inl]] g show ?thesis by simp
  next
    case r1: (Inr scfg)
    from t r1 obtain cl where cl: "resolveOrActive env cfg name = Some cl"
      by (cases "resolveOrActive env cfg name") (simp_all add: toSaramaConfig_def)
    note t' = t[unfolded r1 cl]
    obtain r2 x where n: "NewClient env (Brokers cl) scfg (extern w) = (r2, x)"
      by (cases "NewClient env (Brokers cl) scfg (extern w)")
    show ?thesis
    proof (cases r2)
      case (Inl m)
      from GetAdminClient_miss_opened(2)[OF miss Inr cl t' n[unfolded Inl]] g
      show ?thesis by simp
    next
      case r2: (Inr client)
      from GetAdminClient_miss_opened(1)[OF miss Inr cl t' n[unfolded r2]] g
      have "r = lift_error (fst (NewClusterAdminFromClient env client x))"
        "c' = c\<lparr>conns := (conns c)(name \<mapsto> client)\<rparr>"
        "w' = \<lparr>extern = snd (NewClusterAdminFromClient env client x),
                calls = calls w1 @ [EvNewClient (Brokers cl) scfg, EvNewClusterAdmin client]\<rparr>"
        by simp_all
      with Inr cl t' n r2 show ?thesis by blast
    qed
  qed
qed

lemma stored_differs: "conns c name = None \<Longrightarrow> c\<lparr>conns := (conns c)(name \<mapsto> v)\<rparr> \<noteq> c"
proof
  assume n: "conns c name = None" and e: "c\<lparr>conns := (conns c)(name \<mapsto> v)\<rparr> = c"
  from e have "conns (c\<lparr>conns := (conns c)(name \<mapsto> v)\<rparr>) name = conns c name" by simp
  with n show False by simp
qed

lemma lift_error_Inl: "lift_error r = Inl f \<longleftrightarrow> (\<exists>m. r = Inl m \<and> f = Err (Underlying m))"
  by (cases r) (auto simp: lift_error_def)

lemma lift_error_Inr: "lift_error r = Inr v \<longleftrightarrow> r = Inr v"
  by (cases r) (auto simp: lift_error_def)

text \<open>
  C1, as the code has it. On a call for a name that is not in the cache, with the
  configuration loaded and the cluster resolved and translated: when \<open>NewClient\<close>
  returns a client, \<open>GetClient\<close> returns that client and stores exactly it under the
  name, and \<open>GetAdminClient\<close> stores exactly it under the name and returns what
  \<open>NewClusterAdminFromClient\<close> makes of it, an error included; when \<open>NewClient\<close>
  fails, both return its error and store nothing. A successful call leaves a client
  stored under the name, and on a miss that client is the one returned by the single
  \<open>NewClient\<close> call of this invocation. Once a client is stored under a name, every
  \<open>GetClient\<close> with that name, in any environment and world, returns it with manager
  and world unchanged: no client is opened and the configuration is not read.
\<close>

theorem cache_created_on_first_use:
  "(conns c name = None \<and> ReadConfig env (extern w) = Inr cfg \<and>
    findCluster (Clusters cfg) name None = Some cl \<and>
    toSaramaConfig env (Some cl) (record_call EvReadConfig w) = (Inr scfg, w1) \<longrightarrow>
      (\<forall>client x. NewClient env (Brokers cl) scfg (extern w) = (Inr client, x) \<longrightarrow>
         GetClient env c name w =
           (Inr client, c\<lparr>conns := (conns c)(name \<mapsto> client)\<rparr>,
            \<lparr>extern = x, calls = calls w1 @ [EvNewClient (Brokers cl) scfg]\<rparr>)) \<and>
      (\<forall>m x. NewClient env (Brokers cl) scfg (extern w) = (Inl m, x) \<longrightarrow>
         GetClient env c name w =
           (Inl (Err (Underlying m)), c,
            \<lparr>extern = x, calls = calls w1 @ [EvNewClient (Brokers cl) scfg]\<rparr>))) \<and>
   (conns c name = None \<and> ReadConfig env (extern w) = Inr cfg \<and>
    resolveOrActive env cfg name = Some acl \<and>
    toSaramaConfig env (Some acl) (record_call EvReadConfig w) = (Inr ascfg, aw1) \<longrightarrow>
      (\<forall>client x. NewClient env (Brokers acl) ascfg (extern w) = (Inr client, x) \<longrightarrow>
         GetAdminClient env c name w =
           (lift_error (fst (NewClusterAdminFromClient env client x)),
            c\<lparr>conns := (conns c)(name \<mapsto> client)\<rparr>,
            \<lparr>extern = snd (NewClusterAdminFromClient env client x),
               calls = calls aw1 @ [EvNewClient (Brokers acl) ascfg, EvNewClusterAdmin client]\<rparr>)) \<and>
      (\<forall>m x. NewClient env (Brokers acl) ascfg (extern w) = (Inl m, x) \<longrightarrow>
         GetAdminClient env c name w =
           (Inl (Err (Underlying m)), c,
            \<lparr>extern = x, calls = calls aw1 @ [EvNewClient (Brokers acl) ascfg]\<rparr>))) \<and>
   (GetClient env c name w = (Inr got, c', w') \<longrightarrow>
      conns c' name = Some got \<and>
      (conns c name = None \<longrightarrow>
         c' = c\<lparr>conns := (conns c)(name \<mapsto> got)\<rparr> \<and>
         count_calls is_NewClient w' = Suc (count_calls is_NewClient w) \<and>
         (\<exists>bs sc x. NewClient env bs sc (extern w) = (Inr got, x) \<and> extern w' = x \<and>
            last (calls w') = EvNewClient bs sc))) \<and>
   (GetAdminClient env c name w = (Inr a, c2, w2) \<longrightarrow>
      (\<exists>stored. conns c2 name = Some stored \<and>
         (conns c name = None \<longrightarrow>
            c2 = c\<lparr>conns := (conns c)(name \<mapsto> stored)\<rparr> \<and>
            count_calls is_NewClient w2 = Suc (count_calls is_NewClient w) \<and>
            (\<exists>bs sc x. NewClient env bs sc (extern w) = (Inr stored, x) \<and>
               NewClusterAdminFromClient env stored x = (Inr a, extern w2))))) \<and>
   (conns c name = Some held \<longrightarrow> (\<forall>env3 w3. GetClient env3 c name w3 = (Inr held, c, w3)))"
proof (intro conjI)
  show "conns c name = None \<and> ReadConfig env (extern w) = Inr cfg \<and>
    findCluster (Clusters cfg) name None = Some cl \<and>
    toSaramaConfig env (Some cl) (record_call EvReadConfig w) = (Inr scfg, w1) \<longrightarrow>
      (\<forall>client x. NewClient env (Brokers cl) scfg (extern w) = (Inr client, x) \<longrightarrow>
         GetClient env c name w =
           (Inr client, c\<lparr>conns := (conns c)(name \<mapsto> client)\<rparr>,
            \<lparr>extern = x, calls = calls w1 @ [EvNewClient (Brokers cl) scfg]\<rparr>)) \<and>
      (\<forall>m x. NewClient env (Brokers cl) scfg (extern w) = (Inl m, x) \<longrightarrow>
         GetClient env c name w =
           (Inl (Err (Underlying m)), c,
            \<lparr>extern = x, calls = calls w1 @ [EvNewClient (Brokers cl) scfg]\<rparr>))"
    using GetClient_miss_opened[of c name env w cfg cl scfg w1] by blast
next
  show "conns c name = None \<and> ReadConfig env (extern w) = Inr cfg \<and>
    resolveOrActive env cfg name = Some acl \<and>
    toSaramaConfig env (Some acl) (record_call EvReadConfig w) = (Inr ascfg, aw1) \<longrightarrow>
      (\<forall>client x. NewClient env (Brokers acl) ascfg (extern w) = (Inr client, x) \<longrightarrow>
         GetAdminClient env c name w =
           (lift_error (fst (NewClusterAdminFromClient env client x)),
            c\<lparr>conns := (conns c)(name \<mapsto> client)\<rparr>,
            \<lparr>extern = snd (NewClusterAdminFromClient env client x),
               calls = calls aw1 @ [EvNewClient (Brokers acl) ascfg, EvNewClusterAdmin client]\<rparr>)) \<and>
      (\<forall>m x. NewClient env (Brokers acl) ascfg (extern w) = (Inl m, x) \<longrightarrow>
         GetAdminClient env c name w =
           (Inl (Err (Underlying m)), c,
            \<lparr>extern = x, calls = calls aw1 @ [EvNewClient (Brokers acl) ascfg]\<rparr>))"
    using GetAdminClient_miss_opened[of c name env w cfg acl ascfg aw1] by blast
next
  show "GetClient env c name w = (Inr got, c', w') \<longrightarrow>
      conns c' name = Some got \<and>
      (conns c name = None \<longrightarrow>
         c' = c\<lparr>conns := (conns c)(name \<mapsto> got)\<rparr> \<and>
         count_calls is_NewClient w' = Suc (count_calls is_NewClient w) \<and>
         (\<exists>bs sc x. NewClient env bs sc (extern w) = (Inr got, x) \<and> extern w' = x \<and>
            last (calls w') = EvNewClient bs sc))"
  proof (intro impI conjI)
    assume g: "GetClient env c name w = (Inr got, c', w')"
    note old = success_leaves_client_stored[of env c name w got c' w']
    from old g show "conns c' name = Some got" by blast
    assume miss: "conns c name = None"
    from old g miss show "c' = c\<lparr>conns := (conns c)(name \<mapsto> got)\<rparr>"
      and "count_calls is_NewClient w' = Suc (count_calls is_NewClient w)" by blast+
    from GetClient_miss_inv[OF miss g]
    show "\<exists>bs sc x. NewClient env bs sc (extern w) = (Inr got, x) \<and> extern w' = x \<and>
            last (calls w') = EvNewClient bs sc"
      by auto
  qed
next
  show "GetAdminClient env c name w = (Inr a, c2, w2) \<longrightarrow>
      (\<exists>stored. conns c2 name = Some stored \<and>
         (conns c name = None \<longrightarrow>
            c2 = c\<lparr>conns := (conns c)(name \<mapsto> stored)\<rparr> \<and>
            count_calls is_NewClient w2 = Suc (count_calls is_NewClient w) \<and>
            (\<exists>bs sc x. NewClient env bs sc (extern w) = (Inr stored, x) \<and>
               NewClusterAdminFromClient env stored x = (Inr a, extern w2))))"
  proof
    assume g: "GetAdminClient env c name w = (Inr a, c2, w2)"
    show "\<exists>stored. conns c2 name = Some stored \<and>
         (conns c name = None \<longrightarrow>
            c2 = c\<lparr>conns := (conns c)(name \<mapsto> stored)\<rparr> \<and>
            count_calls is_NewClient w2 = Suc (count_calls is_NewClient w) \<and>
            (\<exists>bs sc x. NewClient env bs sc (extern w) = (Inr stored, x) \<and>
               NewClusterAdminFromClient env stored x = (Inr a, extern w2)))"
    proof (cases "conns c name")
      case (Some held)
      from GetAdminClient_hit[OF Some g] have "c2 = c" by simp
      with Some show ?thesis by simp
    next
      case None
      have "\<not> (c2 = c \<and> isl (Inr a :: failure + admin))" by simp
      with GetAdminClient_miss_inv[OF None g] obtain cfg and cl :: cluster and scfg w1 client x where
        "ReadConfig env (extern w) = Inr cfg" "resolveOrActive env cfg name = Some cl"
        "toSaramaConfig env (Some cl) (record_call EvReadConfig w) = (Inr scfg, w1)" and
        n: "NewClient env (Brokers cl) scfg (extern w) = (Inr client, x)" and
        r: "Inr a = lift_error (fst (NewClusterAdminFromClient env client x))" and
        c2: "c2 = c\<lparr>conns := (conns c)(name \<mapsto> client)\<rparr>" and
        w2: "w2 = \<lparr>extern = snd (NewClusterAdminFromClient env client x),
                calls = calls w1 @ [EvNewClient (Brokers cl) scfg, EvNewClusterAdmin client]\<rparr>"
        by blast
      from r have "fst (NewClusterAdminFromClient env client x) = Inr a"
        by (metis lift_error_Inr)
      with w2 have a: "NewClusterAdminFromClient env client x = (Inr a, extern w2)"
        by (cases "NewClusterAdminFromClient env client x") simp
      from GetAdminClient_miss_Inr[OF None g] c2
      have k: "count_calls is_NewClient w2 = Suc (count_calls is_NewClient w)" by blast
      from c2 have "conns c2 name = Some client" by simp
      with c2 k n a show ?thesis by blast
    qed
  qed
next
  show "conns c name = Some held \<longrightarrow> (\<forall>env3 w3. GetClient env3 c name w3 = (Inr held, c, w3))"
    by (simp add: GetClient_hit)
qed

text \<open>
  The statement at the cluster \<open>prod\<close>: opened and stored in the concrete
  environment, refused and not stored when there is no broker, and returned from the
  cache afterwards.
\<close>

theorem cache_created_on_first_use_witness:
  "conns NewConnManager ''prod'' = None \<and>
   ReadConfig demoEnv (extern startWorld) = Inr demoConfig \<and>
   findCluster (Clusters demoConfig) ''prod'' None = Some prodCluster \<and>
   resolveOrActive demoEnv demoConfig ''prod'' = Some prodCluster \<and>
   \<not> isl (fst (toSaramaConfig demoEnv (Some prodCluster) (record_call EvReadConfig startWorld))) \<and>
   NewClient demoEnv (Brokers prodCluster)
     (projr (fst (toSaramaConfig demoEnv (Some prodCluster) (record_call EvReadConfig startWorld))))
     (extern startWorld) = (Inr (Client 0), 1) \<and>
   GetClient demoEnv NewConnManager ''prod'' startWorld =
     (Inr (Client 0), NewConnManager\<lparr>conns := (conns NewConnManager)(''prod'' \<mapsto> Client 0)\<rparr>,
      \<lparr>extern = 1,
         calls = calls (snd (toSaramaConfig demoEnv (Some prodCluster)
                               (record_call EvReadConfig startWorld))) @
           [EvNewClient (Brokers prodCluster)
              (projr (fst (toSaramaConfig demoEnv (Some prodCluster)
                             (record_call EvReadConfig startWorld))))]\<rparr>) \<and>
   fst (GetAdminClient demoEnv NewConnManager ''prod'' startWorld) = Inr (ClusterAdmin 1) \<and>
   fst (snd (GetAdminClient demoEnv NewConnManager ''prod'' startWorld)) =
     NewConnManager\<lparr>conns := (conns NewConnManager)(''prod'' \<mapsto> Client 0)\<rparr> \<and>
   NewClient noBrokerEnv (Brokers prodCluster)
     (projr (fst (toSaramaConfig noBrokerEnv (Some prodCluster) (record_call EvReadConfig startWorld))))
     (extern startWorld) = (Inl ''kafka: client has run out of available brokers'', 0) \<and>
   fst (GetClient noBrokerEnv NewConnManager ''prod'' startWorld) =
     Inl (Err (Underlying ''kafka: client has run out of available brokers'')) \<and>
   fst (snd (GetClient noBrokerEnv NewConnManager ''prod'' startWorld)) = NewConnManager \<and>
   fst (GetAdminClient noBrokerEnv NewConnManager ''prod'' startWorld) =
     Inl (Err (Underlying ''kafka: client has run out of available brokers'')) \<and>
   fst (snd (GetAdminClient noBrokerEnv NewConnManager ''prod'' startWorld)) = NewConnManager \<and>
   count_calls is_NewClient (snd (snd (GetClient demoEnv NewConnManager ''prod'' startWorld))) =
     Suc (count_calls is_NewClient startWorld) \<and>
   count_calls is_NewClient (snd (snd (GetAdminClient demoEnv NewConnManager ''prod'' startWorld))) =
     Suc (count_calls is_NewClient startWorld) \<and>
   conns \<lparr>conns = [''prod'' \<mapsto> Client 0]\<rparr> ''prod'' = Some (Client 0) \<and>
   GetClient noBrokerEnv \<lparr>conns = [''prod'' \<mapsto> Client 0]\<rparr> ''prod'' startWorld =
     (Inr (Client 0), \<lparr>conns = [''prod'' \<mapsto> Client 0]\<rparr>, startWorld)"
proof -
  let ?W1 = "record_call EvReadConfig startWorld"
  let ?T = "toSaramaConfig demoEnv (Some prodCluster) ?W1"
  let ?U = "toSaramaConfig noBrokerEnv (Some prodCluster) ?W1"
  let ?c1 = "\<lparr>conns = [''prod'' \<mapsto> Client 0]\<rparr>"
  have miss: "conns NewConnManager ''prod'' = None" by (simp add: NewConnManager_def)
  have rd: "ReadConfig demoEnv (extern startWorld) = Inr demoConfig" by (simp add: demoEnv_def)
  have rn: "ReadConfig noBrokerEnv (extern startWorld) = Inr demoConfig"
    by (simp add: noBrokerEnv_def demoEnv_def)
  have fc: "findCluster (Clusters demoConfig) ''prod'' None = Some prodCluster"
    by (simp add: demoConfig_def localCluster_def prodCluster_def badVersionCluster_def)
  have rad: "resolveOrActive demoEnv demoConfig ''prod'' = Some prodCluster"
    by (simp add: resolveOrActive_def fc)
  have ran: "resolveOrActive noBrokerEnv demoConfig ''prod'' = Some prodCluster"
    by (simp add: resolveOrActive_def fc)
  have it: "\<not> isl (fst ?T)" by (simp add: eval_defs)
  have iu: "\<not> isl (fst ?U)" by (simp add: eval_defs noBrokerEnv_def)
  from it have t: "?T = (Inr (projr (fst ?T)), snd ?T)" by (metis prod.collapse sum.collapse(2))
  from iu have u: "?U = (Inr (projr (fst ?U)), snd ?U)" by (metis prod.collapse sum.collapse(2))
  have nd: "NewClient demoEnv (Brokers prodCluster) (projr (fst ?T)) (extern startWorld) =
      (Inr (Client 0), 1)" by (simp add: demoEnv_def startWorld_def)
  have nn: "NewClient noBrokerEnv (Brokers prodCluster) (projr (fst ?U)) (extern startWorld) =
      (Inl ''kafka: client has run out of available brokers'', 0)"
    by (simp add: noBrokerEnv_def startWorld_def)
  have ad: "NewClusterAdminFromClient demoEnv (Client 0) 1 = (Inr (ClusterAdmin 1), 1)"
    by (simp add: demoEnv_def)
  have h: "conns ?c1 ''prod'' = Some (Client 0)" by simp
  note D = cache_created_on_first_use[of NewConnManager "''prod''" demoEnv startWorld demoConfig
      prodCluster "projr (fst ?T)" "snd ?T" prodCluster "projr (fst ?T)" "snd ?T"]
  note N = cache_created_on_first_use[of NewConnManager "''prod''" noBrokerEnv startWorld demoConfig
      prodCluster "projr (fst ?U)" "snd ?U" prodCluster "projr (fst ?U)" "snd ?U"]
  note H = cache_created_on_first_use[where c = ?c1 and name = "''prod''" and held = "Client 0"]
  from D[THEN conjunct1, THEN mp, OF conjI[OF miss conjI[OF rd conjI[OF fc t]]],
      THEN conjunct1, THEN spec, THEN spec, THEN mp, OF nd]
  have g1: "GetClient demoEnv NewConnManager ''prod'' startWorld =
     (Inr (Client 0), NewConnManager\<lparr>conns := (conns NewConnManager)(''prod'' \<mapsto> Client 0)\<rparr>,
      \<lparr>extern = 1, calls = calls (snd ?T) @ [EvNewClient (Brokers prodCluster) (projr (fst ?T))]\<rparr>)" .
  from D[THEN conjunct2, THEN conjunct1, THEN mp, OF conjI[OF miss conjI[OF rd conjI[OF rad t]]],
      THEN conjunct1, THEN spec, THEN spec, THEN mp, OF nd]
  have a1: "fst (GetAdminClient demoEnv NewConnManager ''prod'' startWorld) = Inr (ClusterAdmin 1)"
    "fst (snd (GetAdminClient demoEnv NewConnManager ''prod'' startWorld)) =
       NewConnManager\<lparr>conns := (conns NewConnManager)(''prod'' \<mapsto> Client 0)\<rparr>"
    by (simp_all add: demoEnv_def lift_error_def)
  from N[THEN conjunct1, THEN mp, OF conjI[OF miss conjI[OF rn conjI[OF fc u]]],
      THEN conjunct2, THEN spec, THEN spec, THEN mp, OF nn]
  have g2: "fst (GetClient noBrokerEnv NewConnManager ''prod'' startWorld) =
       Inl (Err (Underlying ''kafka: client has run out of available brokers''))"
    "fst (snd (GetClient noBrokerEnv NewConnManager ''prod'' startWorld)) = NewConnManager"
    by simp_all
  from N[THEN conjunct2, THEN conjunct1, THEN mp, OF conjI[OF miss conjI[OF rn conjI[OF ran u]]],
      THEN conjunct2, THEN spec, THEN spec, THEN mp, OF nn]
  have a2: "fst (GetAdminClient noBrokerEnv NewConnManager ''prod'' startWorld) =
       Inl (Err (Underlying ''kafka: client has run out of available brokers''))"
    "fst (snd (GetAdminClient noBrokerEnv NewConnManager ''prod'' startWorld)) = NewConnManager"
    by simp_all
  from H h have g3: "GetClient noBrokerEnv ?c1 ''prod'' startWorld = (Inr (Client 0), ?c1, startWorld)"
    by blast
  let ?g = "GetClient demoEnv NewConnManager ''prod'' startWorld"
  let ?a = "GetAdminClient demoEnv NewConnManager ''prod'' startWorld"
  from g1 have ge: "?g = (Inr (Client 0), fst (snd ?g), snd (snd ?g))" by simp
  from a1(1) have ae: "?a = (Inr (ClusterAdmin 1), fst (snd ?a), snd (snd ?a))"
    by (metis prod.collapse)
  from D[where got = "Client 0" and c' = "fst (snd ?g)" and w' = "snd (snd ?g)",
      THEN conjunct2, THEN conjunct2, THEN conjunct1, THEN mp, OF ge] miss
  have k1: "count_calls is_NewClient (snd (snd ?g)) = Suc (count_calls is_NewClient startWorld)"
    by blast
  from D[where a = "ClusterAdmin 1" and ?c2.0 = "fst (snd ?a)" and ?w2.0 = "snd (snd ?a)",
      THEN conjunct2, THEN conjunct2, THEN conjunct2, THEN conjunct1, THEN mp, OF ae] miss
  have k2: "count_calls is_NewClient (snd (snd ?a)) = Suc (count_calls is_NewClient startWorld)"
    by blast
  from miss rd fc rad it nd g1 a1 nn g2 a2 h g3 k1 k2 show ?thesis by blast
qed

text \<open>
  C1 as stated fails for the first successful call that follows a \<open>GetAdminClient\<close>
  whose admin handle could not be created: the failed call has stored its client
  (line 143), so the first successful call for the name finds it in the cache and
  creates no connection.
\<close>

theorem first_success_after_failed_admin_counterexample:
  "conns NewConnManager ''local'' = None \<and>
   isl (fst (GetAdminClient adminFailEnv NewConnManager ''local'' startWorld)) \<and>
   fst (GetClient adminFailEnv
          (fst (snd (GetAdminClient adminFailEnv NewConnManager ''local'' startWorld))) ''local''
          (snd (snd (GetAdminClient adminFailEnv NewConnManager ''local'' startWorld)))) =
     Inr (Client 0) \<and>
   count_calls is_NewClient
     (snd (snd (GetClient adminFailEnv
          (fst (snd (GetAdminClient adminFailEnv NewConnManager ''local'' startWorld))) ''local''
          (snd (snd (GetAdminClient adminFailEnv NewConnManager ''local'' startWorld)))))) =
   count_calls is_NewClient
     (snd (snd (GetAdminClient adminFailEnv NewConnManager ''local'' startWorld)))"
  by (simp add: eval_defs adminFailEnv_def)

text \<open>
  C9, as the code has it. When \<open>GetClient\<close> returns an error the cache is as it was
  before the call, and the cache changes only when it succeeds on a miss, by the one
  entry for the requested name. When, on a miss, \<open>NewClient\<close> has returned a client
  and \<open>NewClusterAdminFromClient\<close> fails on it, \<open>GetAdminClient\<close> returns that
  error and the cache holds exactly that client under the requested name; and this is
  the only way for \<open>GetAdminClient\<close> to return an error with the cache changed: the
  configuration was loaded, the cluster resolved and translated, the client opened in
  this call, and the error is that of creating the admin handle from it. No call of
  either removes or overwrites an entry.
\<close>

theorem cache_changes_only_by_adding:
  "(fst (GetClient env c name w) = Inl f \<longrightarrow> fst (snd (GetClient env c name w)) = c) \<and>
   (fst (snd (GetClient env c name w)) \<noteq> c \<longrightarrow>
      conns c name = None \<and>
      (\<exists>got. fst (GetClient env c name w) = Inr got \<and>
         fst (snd (GetClient env c name w)) = c\<lparr>conns := (conns c)(name \<mapsto> got)\<rparr>)) \<and>
   (conns c name = None \<and> ReadConfig env (extern w) = Inr cfg \<and>
    resolveOrActive env cfg name = Some cl \<and>
    toSaramaConfig env (Some cl) (record_call EvReadConfig w) = (Inr scfg, w1) \<and>
    NewClient env (Brokers cl) scfg (extern w) = (Inr client, x) \<and>
    fst (NewClusterAdminFromClient env client x) = Inl m \<longrightarrow>
      fst (GetAdminClient env c name w) = Inl (Err (Underlying m)) \<and>
      fst (snd (GetAdminClient env c name w)) = c\<lparr>conns := (conns c)(name \<mapsto> client)\<rparr>) \<and>
   (fst (GetAdminClient env c name w) = Inl f \<and> fst (snd (GetAdminClient env c name w)) \<noteq> c \<longrightarrow>
      conns c name = None \<and>
      (\<exists>cfg' cl' scfg' w1' client' x' m'.
         ReadConfig env (extern w) = Inr cfg' \<and>
         resolveOrActive env cfg' name = Some cl' \<and>
         toSaramaConfig env (Some cl') (record_call EvReadConfig w) = (Inr scfg', w1') \<and>
         NewClient env (Brokers cl') scfg' (extern w) = (Inr client', x') \<and>
         fst (NewClusterAdminFromClient env client' x') = Inl m' \<and>
         f = Err (Underlying m') \<and>
         fst (snd (GetAdminClient env c name w)) = c\<lparr>conns := (conns c)(name \<mapsto> client')\<rparr>)) \<and>
   (conns c k = Some v \<longrightarrow>
      conns (fst (snd (GetClient env c name w))) k = Some v \<and>
      conns (fst (snd (GetAdminClient env c name w))) k = Some v)"
proof (intro conjI)
  note old = cache_only_grows[of env c name w f k v]
  from old show "fst (GetClient env c name w) = Inl f \<longrightarrow> fst (snd (GetClient env c name w)) = c"
    by blast
  from old show "fst (snd (GetClient env c name w)) \<noteq> c \<longrightarrow>
      conns c name = None \<and>
      (\<exists>got. fst (GetClient env c name w) = Inr got \<and>
         fst (snd (GetClient env c name w)) = c\<lparr>conns := (conns c)(name \<mapsto> got)\<rparr>)"
    by blast
  from old show "conns c k = Some v \<longrightarrow>
      conns (fst (snd (GetClient env c name w))) k = Some v \<and>
      conns (fst (snd (GetAdminClient env c name w))) k = Some v"
    by blast
  show "conns c name = None \<and> ReadConfig env (extern w) = Inr cfg \<and>
    resolveOrActive env cfg name = Some cl \<and>
    toSaramaConfig env (Some cl) (record_call EvReadConfig w) = (Inr scfg, w1) \<and>
    NewClient env (Brokers cl) scfg (extern w) = (Inr client, x) \<and>
    fst (NewClusterAdminFromClient env client x) = Inl m \<longrightarrow>
      fst (GetAdminClient env c name w) = Inl (Err (Underlying m)) \<and>
      fst (snd (GetAdminClient env c name w)) = c\<lparr>conns := (conns c)(name \<mapsto> client)\<rparr>"
  proof (intro impI, elim conjE)
    assume "conns c name = None" "ReadConfig env (extern w) = Inr cfg"
      "resolveOrActive env cfg name = Some cl"
      "toSaramaConfig env (Some cl) (record_call EvReadConfig w) = (Inr scfg, w1)"
      "NewClient env (Brokers cl) scfg (extern w) = (Inr client, x)"
      and m: "fst (NewClusterAdminFromClient env client x) = Inl m"
    from GetAdminClient_miss_opened(1)[OF this(1-5)] m
    show "fst (GetAdminClient env c name w) = Inl (Err (Underlying m)) \<and>
      fst (snd (GetAdminClient env c name w)) = c\<lparr>conns := (conns c)(name \<mapsto> client)\<rparr>"
      by (simp add: lift_error_def)
  qed
  show "fst (GetAdminClient env c name w) = Inl f \<and> fst (snd (GetAdminClient env c name w)) \<noteq> c \<longrightarrow>
      conns c name = None \<and>
      (\<exists>cfg' cl' scfg' w1' client' x' m'.
         ReadConfig env (extern w) = Inr cfg' \<and>
         resolveOrActive env cfg' name = Some cl' \<and>
         toSaramaConfig env (Some cl') (record_call EvReadConfig w) = (Inr scfg', w1') \<and>
         NewClient env (Brokers cl') scfg' (extern w) = (Inr client', x') \<and>
         fst (NewClusterAdminFromClient env client' x') = Inl m' \<and>
         f = Err (Underlying m') \<and>
         fst (snd (GetAdminClient env c name w)) = c\<lparr>conns := (conns c)(name \<mapsto> client')\<rparr>)"
  proof (intro impI, elim conjE)
    let ?A = "GetAdminClient env c name w"
    assume e: "fst ?A = Inl f" and d: "fst (snd ?A) \<noteq> c"
    have A: "?A = (Inl f, fst (snd ?A), snd (snd ?A))" using e by (metis prod.collapse)
    have miss: "conns c name = None"
    proof (cases "conns c name")
      case None then show ?thesis .
    next
      case (Some held)
      from GetAdminClient_hit[OF Some A] d show ?thesis by simp
    qed
    from GetAdminClient_miss_inv[OF miss A] d obtain cfg' and cl' :: cluster
      and scfg' w1' client' x' where
      i: "ReadConfig env (extern w) = Inr cfg'" "resolveOrActive env cfg' name = Some cl'"
        "toSaramaConfig env (Some cl') (record_call EvReadConfig w) = (Inr scfg', w1')"
        "NewClient env (Brokers cl') scfg' (extern w) = (Inr client', x')"
      and r: "Inl f = lift_error (fst (NewClusterAdminFromClient env client' x'))"
      and s: "fst (snd ?A) = c\<lparr>conns := (conns c)(name \<mapsto> client')\<rparr>"
      by blast
    from r obtain m' where "fst (NewClusterAdminFromClient env client' x') = Inl m'"
      "f = Err (Underlying m')" by (metis lift_error_Inl)
    with miss i s show "conns c name = None \<and>
      (\<exists>cfg' cl' scfg' w1' client' x' m'.
         ReadConfig env (extern w) = Inr cfg' \<and>
         resolveOrActive env cfg' name = Some cl' \<and>
         toSaramaConfig env (Some cl') (record_call EvReadConfig w) = (Inr scfg', w1') \<and>
         NewClient env (Brokers cl') scfg' (extern w) = (Inr client', x') \<and>
         fst (NewClusterAdminFromClient env client' x') = Inl m' \<and>
         f = Err (Underlying m') \<and>
         fst (snd ?A) = c\<lparr>conns := (conns c)(name \<mapsto> client')\<rparr>)" by blast
  qed
qed

text \<open>
  The statement in the concrete environments: the cluster \<open>local\<close> with an admin
  handle that cannot be created, an unknown name, and an entry that is kept.
\<close>

theorem cache_changes_only_by_adding_witness:
  "fst (GetClient demoEnv NewConnManager ''nope'' startWorld) = Inl (Err (notFound ''nope'')) \<and>
   fst (snd (GetClient demoEnv NewConnManager ''nope'' startWorld)) = NewConnManager \<and>
   fst (snd (GetClient demoEnv NewConnManager ''prod'' startWorld)) \<noteq> NewConnManager \<and>
   fst (GetClient demoEnv NewConnManager ''prod'' startWorld) = Inr (Client 0) \<and>
   conns NewConnManager ''local'' = None \<and>
   ReadConfig adminFailEnv (extern startWorld) = Inr demoConfig \<and>
   resolveOrActive adminFailEnv demoConfig ''local'' = Some localCluster \<and>
   \<not> isl (fst (toSaramaConfig adminFailEnv (Some localCluster) (record_call EvReadConfig startWorld))) \<and>
   NewClient adminFailEnv (Brokers localCluster)
     (projr (fst (toSaramaConfig adminFailEnv (Some localCluster)
                    (record_call EvReadConfig startWorld))))
     (extern startWorld) = (Inr (Client 0), 1) \<and>
   fst (NewClusterAdminFromClient adminFailEnv (Client 0) 1) = Inl ''client closed'' \<and>
   fst (GetAdminClient adminFailEnv NewConnManager ''local'' startWorld) =
     Inl (Err (Underlying ''client closed'')) \<and>
   fst (snd (GetAdminClient adminFailEnv NewConnManager ''local'' startWorld)) =
     NewConnManager\<lparr>conns := (conns NewConnManager)(''local'' \<mapsto> Client 0)\<rparr> \<and>
   fst (GetAdminClient demoEnv NewConnManager ''dev'' startWorld) =
     Inl (Err (Errorf ''Unable to parse Kafka version: invalid version bogus'')) \<and>
   fst (snd (GetAdminClient demoEnv NewConnManager ''dev'' startWorld)) = NewConnManager \<and>
   conns \<lparr>conns = [''prod'' \<mapsto> Client 0]\<rparr> ''prod'' = Some (Client 0) \<and>
   conns (fst (snd (GetClient demoEnv \<lparr>conns = [''prod'' \<mapsto> Client 0]\<rparr> ''local'' startWorld)))
     ''prod'' = Some (Client 0) \<and>
   conns (fst (snd (GetAdminClient demoEnv \<lparr>conns = [''prod'' \<mapsto> Client 0]\<rparr> ''local'' startWorld)))
     ''prod'' = Some (Client 0)"
proof -
  let ?e = "Errorf ''Unable to parse Kafka version: invalid version bogus''"
  let ?c1 = "\<lparr>conns = [''prod'' \<mapsto> Client 0]\<rparr>"
  let ?T = "toSaramaConfig adminFailEnv (Some localCluster) (record_call EvReadConfig startWorld)"
  have g1: "fst (GetClient demoEnv NewConnManager ''nope'' startWorld) = Inl (Err (notFound ''nope''))"
    by (simp add: eval_defs)
  have g2: "fst (GetClient demoEnv NewConnManager ''prod'' startWorld) = Inr (Client 0)"
    by (simp add: eval_defs)
  have s2: "conns (fst (snd (GetClient demoEnv NewConnManager ''prod'' startWorld))) ''prod'' =
      Some (Client 0)"
    by (simp add: eval_defs)
  have n: "conns NewConnManager ''prod'' = None" "conns NewConnManager ''local'' = None"
    by (simp_all add: NewConnManager_def)
  from s2 n have d2: "fst (snd (GetClient demoEnv NewConnManager ''prod'' startWorld)) \<noteq> NewConnManager"
    by auto
  have a1: "fst (GetAdminClient demoEnv NewConnManager ''dev'' startWorld) = Inl (Err ?e)"
    by (simp add: eval_defs)
  have h: "conns ?c1 ''prod'' = Some (Client 0)" by simp
  have rc: "ReadConfig adminFailEnv (extern startWorld) = Inr demoConfig"
    by (simp add: adminFailEnv_def demoEnv_def)
  have ra: "resolveOrActive adminFailEnv demoConfig ''local'' = Some localCluster"
    by (simp add: resolveOrActive_def demoConfig_def localCluster_def prodCluster_def
        badVersionCluster_def)
  have it: "\<not> isl (fst ?T)" by (simp add: eval_defs adminFailEnv_def)
  then have t: "?T = (Inr (projr (fst ?T)), snd ?T)" by (metis prod.collapse sum.collapse(2))
  have nc: "NewClient adminFailEnv (Brokers localCluster) (projr (fst ?T)) (extern startWorld) =
      (Inr (Client 0), 1)" by (simp add: adminFailEnv_def demoEnv_def startWorld_def)
  have af: "fst (NewClusterAdminFromClient adminFailEnv (Client 0) 1) = Inl ''client closed''"
    by (simp add: adminFailEnv_def)
  from cache_changes_only_by_adding[of demoEnv NewConnManager "''nope''" startWorld
      "Err (notFound ''nope'')"] g1
  have r1: "fst (snd (GetClient demoEnv NewConnManager ''nope'' startWorld)) = NewConnManager"
    by blast
  from cache_changes_only_by_adding[of demoEnv NewConnManager "''prod''" startWorld] d2
  have r2: "\<exists>got. fst (GetClient demoEnv NewConnManager ''prod'' startWorld) = Inr got"
    by blast
  from cache_changes_only_by_adding[of demoEnv NewConnManager "''dev''" startWorld "Err ?e"] a1
  have r3: "fst (snd (GetAdminClient demoEnv NewConnManager ''dev'' startWorld)) = NewConnManager"
    by auto
  from cache_changes_only_by_adding[where env = adminFailEnv and c = NewConnManager
      and name = "''local''" and w = startWorld and cfg = demoConfig and cl = localCluster
      and scfg = "projr (fst ?T)" and ?w1.0 = "snd ?T" and client = "Client 0" and x = 1
      and m = "''client closed''", THEN conjunct2, THEN conjunct2, THEN conjunct1, THEN mp,
      OF conjI[OF n(2) conjI[OF rc conjI[OF ra conjI[OF t conjI[OF nc af]]]]]]
  have r5: "fst (GetAdminClient adminFailEnv NewConnManager ''local'' startWorld) =
      Inl (Err (Underlying ''client closed''))"
    "fst (snd (GetAdminClient adminFailEnv NewConnManager ''local'' startWorld)) =
      NewConnManager\<lparr>conns := (conns NewConnManager)(''local'' \<mapsto> Client 0)\<rparr>"
    by blast+
  from cache_changes_only_by_adding[where env = demoEnv and c = ?c1 and name = "''local''"
      and w = startWorld and k = "''prod''" and v = "Client 0"] h
  have r4: "conns (fst (snd (GetClient demoEnv ?c1 ''local'' startWorld))) ''prod'' = Some (Client 0)"
    "conns (fst (snd (GetAdminClient demoEnv ?c1 ''local'' startWorld))) ''prod'' = Some (Client 0)"
    by blast+
  from g1 g2 d2 a1 h r1 r3 r4 r5 n rc ra it nc af show ?thesis by blast
qed

text \<open>
  C9 as stated fails: with an admin handle that cannot be created, \<open>GetAdminClient\<close>
  returns the error after line 143 has stored the client it opened.
\<close>

theorem failed_admin_handle_keeps_client_counterexample:
  "fst (GetAdminClient adminFailEnv NewConnManager ''local'' startWorld) =
     Inl (Err (Underlying ''client closed'')) \<and>
   conns NewConnManager ''local'' = None \<and>
   conns (fst (snd (GetAdminClient adminFailEnv NewConnManager ''local'' startWorld))) ''local'' =
     Some (Client 0)"
  by (simp add: eval_defs adminFailEnv_def)

text \<open>
  C3, as the code has it. \<open>toSaramaConfig\<close> returns a failed version parse, and on
  the plain TLS path a failed read of the certificate authority file, of the client
  certificate or of the client key and a failed key pair check, as a new error whose
  message is the fixed prefix of lines 158, 176, 186, 190 and 195 followed by the
  message of the failure; the failed read of the certificate authority file on the
  SASL_SSL path (line 212) it returns unchanged; and it returns no other error.
  \<open>GetConfig\<close>, and \<open>GetClient\<close> and \<open>GetAdminClient\<close> on a cache miss, return the
  error of the configuration read unchanged, the failure of \<open>toSaramaConfig\<close> as it
  is, and the error of the connection attempt unchanged; \<open>GetAdminClient\<close> returns
  the error of the admin handle creation unchanged; \<open>GetClient\<close> returns its own
  not-found error for a name that matches no cluster. Every error they return is one
  of these.
\<close>

theorem errors_verbatim_or_prefixed:
  "(\<forall>m. Version cl \<noteq> '''' \<and> ParseKafkaVersion env (Version cl) = Inl m \<longrightarrow>
      fst (toSaramaConfig env (Some cl) w) =
        Inl (Err (Errorf (''Unable to parse Kafka version: '' @ m)))) \<and>
   (\<forall>t m. \<not> versionFails env cl \<and> TLS cl = Some t \<and> SecurityProtocol cl \<noteq> ''SASL_SSL'' \<and>
      Cafile t \<noteq> '''' \<and> ReadFile env (extern w) (Cafile t) = Inl m \<longrightarrow>
      fst (toSaramaConfig env (Some cl) w) =
        Inl (Err (Errorf (''Unable to read Cafile :'' @ m)))) \<and>
   (\<forall>t. \<not> versionFails env cl \<and> TLS cl = Some t \<and> SecurityProtocol cl \<noteq> ''SASL_SSL'' \<and>
      \<not> cafileFails env (extern w) cl \<and> Clientfile t \<noteq> '''' \<and> Clientkeyfile t \<noteq> '''' \<longrightarrow>
      (\<forall>m. ReadFile env (extern w) (Clientfile t) = Inl m \<longrightarrow>
         fst (toSaramaConfig env (Some cl) w) =
           Inl (Err (Errorf (''Unable to read Clientfile :'' @ m)))) \<and>
      (\<forall>cert m. ReadFile env (extern w) (Clientfile t) = Inr cert \<and>
         ReadFile env (extern w) (Clientkeyfile t) = Inl m \<longrightarrow>
         fst (toSaramaConfig env (Some cl) w) =
           Inl (Err (Errorf (''Unable to read Clientkeyfile :'' @ m)))) \<and>
      (\<forall>cert key m. ReadFile env (extern w) (Clientfile t) = Inr cert \<and>
         ReadFile env (extern w) (Clientkeyfile t) = Inr key \<and>
         X509KeyPair env cert key = Inl m \<longrightarrow>
         fst (toSaramaConfig env (Some cl) w) =
           Inl (Err (Errorf (''Unable to creatre KeyPair: '' @ m))))) \<and>
   (\<forall>t m. \<not> versionFails env cl \<and> TLS cl = Some t \<and> SecurityProtocol cl = ''SASL_SSL'' \<and>
      Cafile t \<noteq> '''' \<and> ReadFile env (extern w) (Cafile t) = Inl m \<longrightarrow>
      fst (toSaramaConfig env (Some cl) w) = Inl (Err (Underlying m))) \<and>
   (\<forall>e. fst (toSaramaConfig env (Some cl) w) = Inl (Err e) \<longrightarrow> configError env (extern w) cl e) \<and>
   (\<forall>m. ReadConfig env (extern w) = Inl m \<longrightarrow>
      fst (GetConfig env name w) = Inl (Err (Underlying m)) \<and>
      (conns c name = None \<longrightarrow>
         fst (GetClient env c name w) = Inl (Err (Underlying m)) \<and>
         fst (GetAdminClient env c name w) = Inl (Err (Underlying m)))) \<and>
   (\<forall>cfg. ReadConfig env (extern w) = Inr cfg \<longrightarrow>
      fst (GetConfig env name w) =
        fst (toSaramaConfig env (resolveOrActive env cfg name) (record_call EvReadConfig w)) \<and>
      (conns c name = None \<longrightarrow>
         (findCluster (Clusters cfg) name None = None \<longrightarrow>
            fst (GetClient env c name w) = Inl (Err (notFound name))) \<and>
         (\<forall>rc f. findCluster (Clusters cfg) name None = Some rc \<and>
            fst (toSaramaConfig env (Some rc) (record_call EvReadConfig w)) = Inl f \<longrightarrow>
            fst (GetClient env c name w) = Inl f) \<and>
         (\<forall>rc scfg m x. findCluster (Clusters cfg) name None = Some rc \<and>
            fst (toSaramaConfig env (Some rc) (record_call EvReadConfig w)) = Inr scfg \<and>
            NewClient env (Brokers rc) scfg (extern w) = (Inl m, x) \<longrightarrow>
            fst (GetClient env c name w) = Inl (Err (Underlying m))) \<and>
         (\<forall>f. fst (toSaramaConfig env (resolveOrActive env cfg name)
                    (record_call EvReadConfig w)) = Inl f \<longrightarrow>
            fst (GetAdminClient env c name w) = Inl f) \<and>
         (\<forall>rc scfg m x. resolveOrActive env cfg name = Some rc \<and>
            fst (toSaramaConfig env (Some rc) (record_call EvReadConfig w)) = Inr scfg \<and>
            NewClient env (Brokers rc) scfg (extern w) = (Inl m, x) \<longrightarrow>
            fst (GetAdminClient env c name w) = Inl (Err (Underlying m))) \<and>
         (\<forall>rc scfg client x m. resolveOrActive env cfg name = Some rc \<and>
            fst (toSaramaConfig env (Some rc) (record_call EvReadConfig w)) = Inr scfg \<and>
            NewClient env (Brokers rc) scfg (extern w) = (Inr client, x) \<and>
            fst (NewClusterAdminFromClient env client x) = Inl m \<longrightarrow>
            fst (GetAdminClient env c name w) = Inl (Err (Underlying m))))) \<and>
   (\<forall>held m. conns c name = Some held \<and>
      fst (NewClusterAdminFromClient env held (extern w)) = Inl m \<longrightarrow>
      fst (GetAdminClient env c name w) = Inl (Err (Underlying m))) \<and>
   (\<forall>e. fst (GetClient env c name w) = Inl (Err e) \<longrightarrow>
      (\<exists>m. ReadConfig env (extern w) = Inl m \<and> e = Underlying m) \<or>
      e = notFound name \<or>
      (\<exists>cx. configError env (extern w) cx e) \<or>
      (\<exists>bs cfg m. fst (NewClient env bs cfg (extern w)) = Inl m \<and> e = Underlying m)) \<and>
   (\<forall>e. fst (GetConfig env name w) = Inl (Err e) \<longrightarrow>
      (\<exists>m. ReadConfig env (extern w) = Inl m \<and> e = Underlying m) \<or>
      (\<exists>cx. configError env (extern w) cx e)) \<and>
   (\<forall>e. fst (GetAdminClient env c name w) = Inl (Err e) \<longrightarrow>
      (\<exists>m. ReadConfig env (extern w) = Inl m \<and> e = Underlying m) \<or>
      (\<exists>cx. configError env (extern w) cx e) \<or>
      (\<exists>bs cfg m. fst (NewClient env bs cfg (extern w)) = Inl m \<and> e = Underlying m) \<or>
      (\<exists>client x m. fst (NewClusterAdminFromClient env client x) = Inl m \<and> e = Underlying m))"
proof -
  let ?W1 = "record_call EvReadConfig w"
  have p1: "\<forall>m. Version cl \<noteq> '''' \<and> ParseKafkaVersion env (Version cl) = Inl m \<longrightarrow>
      fst (toSaramaConfig env (Some cl) w) =
        Inl (Err (Errorf (''Unable to parse Kafka version: '' @ m)))"
    by (intro allI impI, elim conjE) (rule version_error_prefixed)
  have p2: "\<forall>t m. \<not> versionFails env cl \<and> TLS cl = Some t \<and> SecurityProtocol cl \<noteq> ''SASL_SSL'' \<and>
      Cafile t \<noteq> '''' \<and> ReadFile env (extern w) (Cafile t) = Inl m \<longrightarrow>
      fst (toSaramaConfig env (Some cl) w) =
        Inl (Err (Errorf (''Unable to read Cafile :'' @ m)))"
    by (intro allI impI, elim conjE) (rule plain_cafile_error_prefixed)
  have p3: "\<forall>t. \<not> versionFails env cl \<and> TLS cl = Some t \<and> SecurityProtocol cl \<noteq> ''SASL_SSL'' \<and>
      \<not> cafileFails env (extern w) cl \<and> Clientfile t \<noteq> '''' \<and> Clientkeyfile t \<noteq> '''' \<longrightarrow>
      (\<forall>m. ReadFile env (extern w) (Clientfile t) = Inl m \<longrightarrow>
         fst (toSaramaConfig env (Some cl) w) =
           Inl (Err (Errorf (''Unable to read Clientfile :'' @ m)))) \<and>
      (\<forall>cert m. ReadFile env (extern w) (Clientfile t) = Inr cert \<and>
         ReadFile env (extern w) (Clientkeyfile t) = Inl m \<longrightarrow>
         fst (toSaramaConfig env (Some cl) w) =
           Inl (Err (Errorf (''Unable to read Clientkeyfile :'' @ m)))) \<and>
      (\<forall>cert key m. ReadFile env (extern w) (Clientfile t) = Inr cert \<and>
         ReadFile env (extern w) (Clientkeyfile t) = Inr key \<and>
         X509KeyPair env cert key = Inl m \<longrightarrow>
         fst (toSaramaConfig env (Some cl) w) =
           Inl (Err (Errorf (''Unable to creatre KeyPair: '' @ m))))"
  proof (intro allI impI, elim conjE)
    fix t
    assume h: "\<not> versionFails env cl" "TLS cl = Some t" "SecurityProtocol cl \<noteq> ''SASL_SSL''"
      "\<not> cafileFails env (extern w) cl" "Clientfile t \<noteq> ''''" "Clientkeyfile t \<noteq> ''''"
    note L = plain_client_pair_errors_prefixed[OF h]
    show "(\<forall>m. ReadFile env (extern w) (Clientfile t) = Inl m \<longrightarrow>
         fst (toSaramaConfig env (Some cl) w) =
           Inl (Err (Errorf (''Unable to read Clientfile :'' @ m)))) \<and>
      (\<forall>cert m. ReadFile env (extern w) (Clientfile t) = Inr cert \<and>
         ReadFile env (extern w) (Clientkeyfile t) = Inl m \<longrightarrow>
         fst (toSaramaConfig env (Some cl) w) =
           Inl (Err (Errorf (''Unable to read Clientkeyfile :'' @ m)))) \<and>
      (\<forall>cert key m. ReadFile env (extern w) (Clientfile t) = Inr cert \<and>
         ReadFile env (extern w) (Clientkeyfile t) = Inr key \<and>
         X509KeyPair env cert key = Inl m \<longrightarrow>
         fst (toSaramaConfig env (Some cl) w) =
           Inl (Err (Errorf (''Unable to creatre KeyPair: '' @ m))))"
    proof (intro conjI allI impI)
      fix m assume "ReadFile env (extern w) (Clientfile t) = Inl m"
      then show "fst (toSaramaConfig env (Some cl) w) =
           Inl (Err (Errorf (''Unable to read Clientfile :'' @ m)))" by (rule L(1))
    next
      fix cert m assume "ReadFile env (extern w) (Clientfile t) = Inr cert \<and>
         ReadFile env (extern w) (Clientkeyfile t) = Inl m"
      then show "fst (toSaramaConfig env (Some cl) w) =
           Inl (Err (Errorf (''Unable to read Clientkeyfile :'' @ m)))"
        using L(2)[of cert m] by simp
    next
      fix cert key m assume "ReadFile env (extern w) (Clientfile t) = Inr cert \<and>
         ReadFile env (extern w) (Clientkeyfile t) = Inr key \<and>
         X509KeyPair env cert key = Inl m"
      then show "fst (toSaramaConfig env (Some cl) w) =
           Inl (Err (Errorf (''Unable to creatre KeyPair: '' @ m)))"
        using L(3)[of cert key m] by simp
    qed
  qed
  have p4: "\<forall>t m. \<not> versionFails env cl \<and> TLS cl = Some t \<and> SecurityProtocol cl = ''SASL_SSL'' \<and>
      Cafile t \<noteq> '''' \<and> ReadFile env (extern w) (Cafile t) = Inl m \<longrightarrow>
      fst (toSaramaConfig env (Some cl) w) = Inl (Err (Underlying m))"
    by (intro allI impI, elim conjE) (rule sasl_ssl_cafile_error_unchanged)
  have p5: "\<forall>e. fst (toSaramaConfig env (Some cl) w) = Inl (Err e) \<longrightarrow>
      configError env (extern w) cl e"
  proof (intro allI)
    fix e
    from returned_errors_bounded[of env cl w e c name]
    show "fst (toSaramaConfig env (Some cl) w) = Inl (Err e) \<longrightarrow>
      configError env (extern w) cl e" by (rule conjunct1)
  qed
  have b1: "\<forall>e. fst (GetClient env c name w) = Inl (Err e) \<longrightarrow>
      (\<exists>m. ReadConfig env (extern w) = Inl m \<and> e = Underlying m) \<or>
      e = notFound name \<or>
      (\<exists>cx. configError env (extern w) cx e) \<or>
      (\<exists>bs cfg m. fst (NewClient env bs cfg (extern w)) = Inl m \<and> e = Underlying m)"
  proof (intro allI)
    fix e
    from returned_errors_bounded[of env cl w e c name, THEN conjunct2]
    show "fst (GetClient env c name w) = Inl (Err e) \<longrightarrow>
      (\<exists>m. ReadConfig env (extern w) = Inl m \<and> e = Underlying m) \<or>
      e = notFound name \<or>
      (\<exists>cx. configError env (extern w) cx e) \<or>
      (\<exists>bs cfg m. fst (NewClient env bs cfg (extern w)) = Inl m \<and> e = Underlying m)"
      by (rule conjunct1)
  qed
  have b2: "\<forall>e. fst (GetConfig env name w) = Inl (Err e) \<longrightarrow>
      (\<exists>m. ReadConfig env (extern w) = Inl m \<and> e = Underlying m) \<or>
      (\<exists>cx. configError env (extern w) cx e)"
  proof (intro allI)
    fix e
    from returned_errors_bounded[of env cl w e c name, THEN conjunct2, THEN conjunct2]
    show "fst (GetConfig env name w) = Inl (Err e) \<longrightarrow>
      (\<exists>m. ReadConfig env (extern w) = Inl m \<and> e = Underlying m) \<or>
      (\<exists>cx. configError env (extern w) cx e)"
      by (rule conjunct1)
  qed
  have b3: "\<forall>e. fst (GetAdminClient env c name w) = Inl (Err e) \<longrightarrow>
      (\<exists>m. ReadConfig env (extern w) = Inl m \<and> e = Underlying m) \<or>
      (\<exists>cx. configError env (extern w) cx e) \<or>
      (\<exists>bs cfg m. fst (NewClient env bs cfg (extern w)) = Inl m \<and> e = Underlying m) \<or>
      (\<exists>client x m. fst (NewClusterAdminFromClient env client x) = Inl m \<and> e = Underlying m)"
  proof (intro allI)
    fix e
    from returned_errors_bounded[of env cl w e c name, THEN conjunct2, THEN conjunct2]
    show "fst (GetAdminClient env c name w) = Inl (Err e) \<longrightarrow>
      (\<exists>m. ReadConfig env (extern w) = Inl m \<and> e = Underlying m) \<or>
      (\<exists>cx. configError env (extern w) cx e) \<or>
      (\<exists>bs cfg m. fst (NewClient env bs cfg (extern w)) = Inl m \<and> e = Underlying m) \<or>
      (\<exists>client x m. fst (NewClusterAdminFromClient env client x) = Inl m \<and> e = Underlying m)"
      by (rule conjunct2)
  qed
  have q1: "\<forall>m. ReadConfig env (extern w) = Inl m \<longrightarrow>
      fst (GetConfig env name w) = Inl (Err (Underlying m)) \<and>
      (conns c name = None \<longrightarrow>
         fst (GetClient env c name w) = Inl (Err (Underlying m)) \<and>
         fst (GetAdminClient env c name w) = Inl (Err (Underlying m)))"
    by (simp add: GetConfig_config_unread GetClient_miss_config_unread
        GetAdminClient_miss_config_unread)
  have q2: "\<forall>cfg. ReadConfig env (extern w) = Inr cfg \<longrightarrow>
      fst (GetConfig env name w) =
        fst (toSaramaConfig env (resolveOrActive env cfg name) ?W1) \<and>
      (conns c name = None \<longrightarrow>
         (findCluster (Clusters cfg) name None = None \<longrightarrow>
            fst (GetClient env c name w) = Inl (Err (notFound name))) \<and>
         (\<forall>rc f. findCluster (Clusters cfg) name None = Some rc \<and>
            fst (toSaramaConfig env (Some rc) ?W1) = Inl f \<longrightarrow>
            fst (GetClient env c name w) = Inl f) \<and>
         (\<forall>rc scfg m x. findCluster (Clusters cfg) name None = Some rc \<and>
            fst (toSaramaConfig env (Some rc) ?W1) = Inr scfg \<and>
            NewClient env (Brokers rc) scfg (extern w) = (Inl m, x) \<longrightarrow>
            fst (GetClient env c name w) = Inl (Err (Underlying m))) \<and>
         (\<forall>f. fst (toSaramaConfig env (resolveOrActive env cfg name) ?W1) = Inl f \<longrightarrow>
            fst (GetAdminClient env c name w) = Inl f) \<and>
         (\<forall>rc scfg m x. resolveOrActive env cfg name = Some rc \<and>
            fst (toSaramaConfig env (Some rc) ?W1) = Inr scfg \<and>
            NewClient env (Brokers rc) scfg (extern w) = (Inl m, x) \<longrightarrow>
            fst (GetAdminClient env c name w) = Inl (Err (Underlying m))) \<and>
         (\<forall>rc scfg client x m. resolveOrActive env cfg name = Some rc \<and>
            fst (toSaramaConfig env (Some rc) ?W1) = Inr scfg \<and>
            NewClient env (Brokers rc) scfg (extern w) = (Inr client, x) \<and>
            fst (NewClusterAdminFromClient env client x) = Inl m \<longrightarrow>
            fst (GetAdminClient env c name w) = Inl (Err (Underlying m))))"
  proof (intro allI impI conjI)
    fix cfg
    assume r: "ReadConfig env (extern w) = Inr cfg"
    show "fst (GetConfig env name w) = fst (toSaramaConfig env (resolveOrActive env cfg name) ?W1)"
      by (simp add: GetConfig_loaded[OF r])
    assume miss: "conns c name = None"
    {
      assume "findCluster (Clusters cfg) name None = None"
      from GetClient_miss_not_found[OF miss r this]
      show "fst (GetClient env c name w) = Inl (Err (notFound name))" by simp
    }
    {
      fix rc f
      assume a: "findCluster (Clusters cfg) name None = Some rc \<and>
        fst (toSaramaConfig env (Some rc) ?W1) = Inl f"
      then have fc: "findCluster (Clusters cfg) name None = Some rc" by simp
      from a have t: "toSaramaConfig env (Some rc) ?W1 =
          (Inl f, snd (toSaramaConfig env (Some rc) ?W1))" by (simp add: prod_eq_iff)
      from GetClient_miss_config_fails[OF miss r fc t]
      show "fst (GetClient env c name w) = Inl f" by simp
    }
    {
      fix rc scfg m x
      assume a: "findCluster (Clusters cfg) name None = Some rc \<and>
        fst (toSaramaConfig env (Some rc) ?W1) = Inr scfg \<and>
        NewClient env (Brokers rc) scfg (extern w) = (Inl m, x)"
      then have fc: "findCluster (Clusters cfg) name None = Some rc"
        and n: "NewClient env (Brokers rc) scfg (extern w) = (Inl m, x)" by simp_all
      from a have t: "toSaramaConfig env (Some rc) ?W1 =
          (Inr scfg, snd (toSaramaConfig env (Some rc) ?W1))" by (simp add: prod_eq_iff)
      from GetClient_miss_opened(2)[OF miss r fc t n]
      show "fst (GetClient env c name w) = Inl (Err (Underlying m))" by simp
    }
    {
      fix f
      assume a: "fst (toSaramaConfig env (resolveOrActive env cfg name) ?W1) = Inl f"
      then have t: "toSaramaConfig env (resolveOrActive env cfg name) ?W1 =
          (Inl f, snd (toSaramaConfig env (resolveOrActive env cfg name) ?W1))"
        by (simp add: prod_eq_iff)
      from GetAdminClient_miss_config_fails[OF miss r t]
      show "fst (GetAdminClient env c name w) = Inl f" by simp
    }
    {
      fix rc scfg m x
      assume a: "resolveOrActive env cfg name = Some rc \<and>
        fst (toSaramaConfig env (Some rc) ?W1) = Inr scfg \<and>
        NewClient env (Brokers rc) scfg (extern w) = (Inl m, x)"
      then have ra: "resolveOrActive env cfg name = Some rc"
        and n: "NewClient env (Brokers rc) scfg (extern w) = (Inl m, x)" by simp_all
      from a have t: "toSaramaConfig env (Some rc) ?W1 =
          (Inr scfg, snd (toSaramaConfig env (Some rc) ?W1))" by (simp add: prod_eq_iff)
      from GetAdminClient_miss_opened(2)[OF miss r ra t n]
      show "fst (GetAdminClient env c name w) = Inl (Err (Underlying m))" by simp
    }
    {
      fix rc scfg client x m
      assume a: "resolveOrActive env cfg name = Some rc \<and>
        fst (toSaramaConfig env (Some rc) ?W1) = Inr scfg \<and>
        NewClient env (Brokers rc) scfg (extern w) = (Inr client, x) \<and>
        fst (NewClusterAdminFromClient env client x) = Inl m"
      then have ra: "resolveOrActive env cfg name = Some rc"
        and n: "NewClient env (Brokers rc) scfg (extern w) = (Inr client, x)"
        and af: "fst (NewClusterAdminFromClient env client x) = Inl m" by simp_all
      from a have t: "toSaramaConfig env (Some rc) ?W1 =
          (Inr scfg, snd (toSaramaConfig env (Some rc) ?W1))" by (simp add: prod_eq_iff)
      from GetAdminClient_miss_opened(1)[OF miss r ra t n] af
      show "fst (GetAdminClient env c name w) = Inl (Err (Underlying m))"
        by (simp add: lift_error_def)
    }
  qed
  have q3: "\<forall>held m. conns c name = Some held \<and>
      fst (NewClusterAdminFromClient env held (extern w)) = Inl m \<longrightarrow>
      fst (GetAdminClient env c name w) = Inl (Err (Underlying m))"
    by (simp add: GetAdminClient_hit_eq lift_error_def)
  from p1 p2 p3 p4 p5 q1 q2 q3 b1 b2 b3 show ?thesis by (intro conjI)
qed

text \<open>
  The statement on each failing path: a version that does not parse, each of the three
  files missing, a certificate and key that do not match, the certificate authority
  file of a SASL_SSL cluster missing, a configuration that cannot be read, an unknown
  name, no broker, and an admin handle that cannot be created.
\<close>

theorem errors_verbatim_or_prefixed_witness:
  "fst (toSaramaConfig demoEnv (Some badVersionCluster) startWorld) =
     Inl (Err (Errorf (''Unable to parse Kafka version: '' @ ''invalid version bogus''))) \<and>
   fst (toSaramaConfig filesEnv (Some caMissingCluster) startWorld) =
     Inl (Err (Errorf (''Unable to read Cafile :'' @ ''open gone-ca.pem: no such file''))) \<and>
   fst (toSaramaConfig filesEnv (Some certMissingCluster) startWorld) =
     Inl (Err (Errorf (''Unable to read Clientfile :'' @ ''open gone.pem: no such file''))) \<and>
   fst (toSaramaConfig filesEnv (Some keyMissingCluster) startWorld) =
     Inl (Err (Errorf (''Unable to read Clientkeyfile :'' @ ''open gone.key: no such file''))) \<and>
   fst (toSaramaConfig pairFailEnv (Some mtlsCluster) startWorld) =
     Inl (Err (Errorf (''Unable to creatre KeyPair: '' @
       ''tls: private key does not match public key''))) \<and>
   fst (toSaramaConfig filesEnv (Some saslCaMissingCluster) startWorld) =
     Inl (Err (Underlying ''open gone-ca.pem: no such file'')) \<and>
   configError demoEnv (extern startWorld) badVersionCluster
     (Errorf (''Unable to parse Kafka version: '' @ ''invalid version bogus'')) \<and>
   fst (GetConfig noConfigEnv ''prod'' startWorld) = Inl (Err (Underlying ''config unreadable'')) \<and>
   fst (GetClient noConfigEnv NewConnManager ''prod'' startWorld) =
     Inl (Err (Underlying ''config unreadable'')) \<and>
   fst (GetAdminClient noConfigEnv NewConnManager ''prod'' startWorld) =
     Inl (Err (Underlying ''config unreadable'')) \<and>
   fst (GetClient demoEnv NewConnManager ''nope'' startWorld) = Inl (Err (notFound ''nope'')) \<and>
   fst (GetConfig demoEnv ''dev'' startWorld) =
     Inl (Err (Errorf (''Unable to parse Kafka version: '' @ ''invalid version bogus''))) \<and>
   fst (GetClient demoEnv NewConnManager ''dev'' startWorld) =
     Inl (Err (Errorf (''Unable to parse Kafka version: '' @ ''invalid version bogus''))) \<and>
   fst (GetAdminClient demoEnv NewConnManager ''dev'' startWorld) =
     Inl (Err (Errorf (''Unable to parse Kafka version: '' @ ''invalid version bogus''))) \<and>
   fst (GetClient noBrokerEnv NewConnManager ''prod'' startWorld) =
     Inl (Err (Underlying ''kafka: client has run out of available brokers'')) \<and>
   fst (GetAdminClient noBrokerEnv NewConnManager ''prod'' startWorld) =
     Inl (Err (Underlying ''kafka: client has run out of available brokers'')) \<and>
   fst (GetAdminClient adminFailEnv NewConnManager ''local'' startWorld) =
     Inl (Err (Underlying ''client closed'')) \<and>
   fst (GetAdminClient adminFailEnv \<lparr>conns = [''prod'' \<mapsto> Client 0]\<rparr> ''prod'' startWorld) =
     Inl (Err (Underlying ''client closed''))"
proof -
  let ?W1 = "record_call EvReadConfig startWorld"
  let ?c1 = "\<lparr>conns = [''prod'' \<mapsto> Client 0]\<rparr>"
  let ?pe = "Errorf (''Unable to parse Kafka version: '' @ ''invalid version bogus'')"
  have x0: "extern startWorld = 0" by (simp add: startWorld_def)
  have miss: "\<And>n. conns NewConnManager n = None" by (simp add: NewConnManager_def)
  have vok: "\<not> versionFails filesEnv mtlsCluster" "\<not> versionFails filesEnv caMissingCluster"
    "\<not> versionFails filesEnv certMissingCluster" "\<not> versionFails filesEnv keyMissingCluster"
    "\<not> versionFails pairFailEnv mtlsCluster" "\<not> versionFails filesEnv saslCaMissingCluster"
    by (simp_all add: versionFails_def more_demo_defs demoEnv_def prodCluster_def)
  have cok: "\<not> cafileFails filesEnv (extern startWorld) certMissingCluster"
    "\<not> cafileFails filesEnv (extern startWorld) keyMissingCluster"
    "\<not> cafileFails pairFailEnv (extern startWorld) mtlsCluster"
    by (simp_all add: cafileFails_def more_demo_defs)

  \<comment> \<open>the paths of toSaramaConfig\<close>
  note B = errors_verbatim_or_prefixed[where env = demoEnv and cl = badVersionCluster
      and w = startWorld and c = NewConnManager and name = "''dev''"]
  have "Version badVersionCluster \<noteq> '''' \<and>
      ParseKafkaVersion demoEnv (Version badVersionCluster) = Inl ''invalid version bogus''"
    by (simp add: badVersionCluster_def demoEnv_def)
  from B[THEN conjunct1, THEN spec, THEN mp, OF this]
  have e1: "fst (toSaramaConfig demoEnv (Some badVersionCluster) startWorld) = Inl (Err ?pe)" .
  from B[THEN conjunct2, THEN conjunct2, THEN conjunct2, THEN conjunct2, THEN conjunct1,
      THEN spec, THEN mp, OF e1]
  have e1': "configError demoEnv (extern startWorld) badVersionCluster ?pe" .

  note CA = errors_verbatim_or_prefixed[where env = filesEnv and cl = caMissingCluster
      and w = startWorld and c = NewConnManager and name = "''dev''"]
  have "\<not> versionFails filesEnv caMissingCluster \<and>
      TLS caMissingCluster = Some \<lparr>Cafile = ''gone-ca.pem'', Clientfile = ''client.pem'',
        Clientkeyfile = ''client.key'', Insecure = True\<rparr> \<and>
      SecurityProtocol caMissingCluster \<noteq> ''SASL_SSL'' \<and>
      Cafile \<lparr>Cafile = ''gone-ca.pem'', Clientfile = ''client.pem'',
        Clientkeyfile = ''client.key'', Insecure = True\<rparr> \<noteq> '''' \<and>
      ReadFile filesEnv (extern startWorld)
        (Cafile \<lparr>Cafile = ''gone-ca.pem'', Clientfile = ''client.pem'',
           Clientkeyfile = ''client.key'', Insecure = True\<rparr>) =
        Inl ''open gone-ca.pem: no such file''"
    using vok by (simp add: more_demo_defs)
  from CA[THEN conjunct2, THEN conjunct1, THEN spec, THEN spec, THEN mp, OF this]
  have e2: "fst (toSaramaConfig filesEnv (Some caMissingCluster) startWorld) =
      Inl (Err (Errorf (''Unable to read Cafile :'' @ ''open gone-ca.pem: no such file'')))" .

  note CE = errors_verbatim_or_prefixed[where env = filesEnv and cl = certMissingCluster
      and w = startWorld and c = NewConnManager and name = "''dev''"]
  let ?tc = "\<lparr>Cafile = ''ca.pem'', Clientfile = ''gone.pem'', Clientkeyfile = ''client.key'',
      Insecure = True\<rparr>"
  have "\<not> versionFails filesEnv certMissingCluster \<and> TLS certMissingCluster = Some ?tc \<and>
      SecurityProtocol certMissingCluster \<noteq> ''SASL_SSL'' \<and>
      \<not> cafileFails filesEnv (extern startWorld) certMissingCluster \<and>
      Clientfile ?tc \<noteq> '''' \<and> Clientkeyfile ?tc \<noteq> ''''"
    using vok cok by (simp add: more_demo_defs)
  note CE3 = CE[THEN conjunct2, THEN conjunct2, THEN conjunct1, THEN spec, THEN mp, OF this]
  have "ReadFile filesEnv (extern startWorld) (Clientfile ?tc) = Inl ''open gone.pem: no such file''"
    by (simp add: more_demo_defs)
  from CE3[THEN conjunct1, THEN spec, THEN mp, OF this]
  have e3: "fst (toSaramaConfig filesEnv (Some certMissingCluster) startWorld) =
      Inl (Err (Errorf (''Unable to read Clientfile :'' @ ''open gone.pem: no such file'')))" .

  note KE = errors_verbatim_or_prefixed[where env = filesEnv and cl = keyMissingCluster
      and w = startWorld and c = NewConnManager and name = "''dev''"]
  let ?tk = "\<lparr>Cafile = ''ca.pem'', Clientfile = ''client.pem'', Clientkeyfile = ''gone.key'',
      Insecure = True\<rparr>"
  have "\<not> versionFails filesEnv keyMissingCluster \<and> TLS keyMissingCluster = Some ?tk \<and>
      SecurityProtocol keyMissingCluster \<noteq> ''SASL_SSL'' \<and>
      \<not> cafileFails filesEnv (extern startWorld) keyMissingCluster \<and>
      Clientfile ?tk \<noteq> '''' \<and> Clientkeyfile ?tk \<noteq> ''''"
    using vok cok by (simp add: more_demo_defs)
  note KE3 = KE[THEN conjunct2, THEN conjunct2, THEN conjunct1, THEN spec, THEN mp, OF this]
  have "ReadFile filesEnv (extern startWorld) (Clientfile ?tk) = Inr ''contents of client.pem'' \<and>
      ReadFile filesEnv (extern startWorld) (Clientkeyfile ?tk) = Inl ''open gone.key: no such file''"
    by (simp add: more_demo_defs)
  from KE3[THEN conjunct2, THEN conjunct1, THEN spec, THEN spec, THEN mp, OF this]
  have e4: "fst (toSaramaConfig filesEnv (Some keyMissingCluster) startWorld) =
      Inl (Err (Errorf (''Unable to read Clientkeyfile :'' @ ''open gone.key: no such file'')))" .

  note PE = errors_verbatim_or_prefixed[where env = pairFailEnv and cl = mtlsCluster
      and w = startWorld and c = NewConnManager and name = "''dev''"]
  let ?tm = "\<lparr>Cafile = ''ca.pem'', Clientfile = ''client.pem'', Clientkeyfile = ''client.key'',
      Insecure = True\<rparr>"
  have "\<not> versionFails pairFailEnv mtlsCluster \<and> TLS mtlsCluster = Some ?tm \<and>
      SecurityProtocol mtlsCluster \<noteq> ''SASL_SSL'' \<and>
      \<not> cafileFails pairFailEnv (extern startWorld) mtlsCluster \<and>
      Clientfile ?tm \<noteq> '''' \<and> Clientkeyfile ?tm \<noteq> ''''"
    using vok cok by (simp add: more_demo_defs)
  note PE3 = PE[THEN conjunct2, THEN conjunct2, THEN conjunct1, THEN spec, THEN mp, OF this]
  have "ReadFile pairFailEnv (extern startWorld) (Clientfile ?tm) = Inr ''contents of client.pem'' \<and>
      ReadFile pairFailEnv (extern startWorld) (Clientkeyfile ?tm) = Inr ''contents of client.key'' \<and>
      X509KeyPair pairFailEnv ''contents of client.pem'' ''contents of client.key'' =
        Inl ''tls: private key does not match public key''"
    by (simp add: more_demo_defs)
  from PE3[THEN conjunct2, THEN conjunct2, THEN spec, THEN spec, THEN spec, THEN mp, OF this]
  have e5: "fst (toSaramaConfig pairFailEnv (Some mtlsCluster) startWorld) =
      Inl (Err (Errorf (''Unable to creatre KeyPair: '' @
        ''tls: private key does not match public key'')))" .

  note SE = errors_verbatim_or_prefixed[where env = filesEnv and cl = saslCaMissingCluster
      and w = startWorld and c = NewConnManager and name = "''dev''"]
  let ?ts = "\<lparr>Cafile = ''gone-ca.pem'', Clientfile = '''', Clientkeyfile = '''', Insecure = False\<rparr>"
  have "\<not> versionFails filesEnv saslCaMissingCluster \<and> TLS saslCaMissingCluster = Some ?ts \<and>
      SecurityProtocol saslCaMissingCluster = ''SASL_SSL'' \<and> Cafile ?ts \<noteq> '''' \<and>
      ReadFile filesEnv (extern startWorld) (Cafile ?ts) = Inl ''open gone-ca.pem: no such file''"
    using vok by (simp add: more_demo_defs prodCluster_def)
  from SE[THEN conjunct2, THEN conjunct2, THEN conjunct2, THEN conjunct1,
      THEN spec, THEN spec, THEN mp, OF this]
  have e6: "fst (toSaramaConfig filesEnv (Some saslCaMissingCluster) startWorld) =
      Inl (Err (Underlying ''open gone-ca.pem: no such file''))" .

  \<comment> \<open>the configuration read\<close>
  note NC = errors_verbatim_or_prefixed[where env = noConfigEnv and cl = prodCluster
      and w = startWorld and c = NewConnManager and name = "''prod''"]
  have "ReadConfig noConfigEnv (extern startWorld) = Inl ''config unreadable''"
    by (simp add: noConfigEnv_def)
  note NC6 = NC[THEN conjunct2, THEN conjunct2, THEN conjunct2, THEN conjunct2, THEN conjunct2,
      THEN conjunct1, THEN spec, THEN mp, OF this]
  note e7 = NC6[THEN conjunct1] NC6[THEN conjunct2, THEN mp, OF miss, THEN conjunct1]
    NC6[THEN conjunct2, THEN mp, OF miss, THEN conjunct2]

  \<comment> \<open>a loaded configuration\<close>
  have rd: "ReadConfig demoEnv (extern startWorld) = Inr demoConfig" by (simp add: demoEnv_def)
  have fcs: "findCluster (Clusters demoConfig) ''nope'' None = None"
    "findCluster (Clusters demoConfig) ''dev'' None = Some badVersionCluster"
    "findCluster (Clusters demoConfig) ''prod'' None = Some prodCluster"
    by (simp_all add: demoConfig_def localCluster_def prodCluster_def badVersionCluster_def)
  have ras: "\<And>env. resolveOrActive env demoConfig ''dev'' = Some badVersionCluster"
    "\<And>env. resolveOrActive env demoConfig ''prod'' = Some prodCluster"
    by (simp_all add: resolveOrActive_def fcs)
  have ral: "resolveOrActive adminFailEnv demoConfig ''local'' = Some localCluster"
    by (simp add: resolveOrActive_def demoConfig_def localCluster_def prodCluster_def
        badVersionCluster_def)
  have tb: "fst (toSaramaConfig demoEnv (Some badVersionCluster) ?W1) = Inl (Err ?pe)"
    by (simp add: eval_defs)

  note NF = errors_verbatim_or_prefixed[where env = demoEnv and cl = prodCluster
      and w = startWorld and c = NewConnManager and name = "''nope''"]
  note NF7 = NF[THEN conjunct2, THEN conjunct2, THEN conjunct2, THEN conjunct2, THEN conjunct2,
      THEN conjunct2, THEN conjunct1, THEN spec, THEN mp, OF rd, THEN conjunct2, THEN mp, OF miss]
  from NF7[THEN conjunct1, THEN mp, OF fcs(1)]
  have e8: "fst (GetClient demoEnv NewConnManager ''nope'' startWorld) = Inl (Err (notFound ''nope''))" .

  note B7 = B[THEN conjunct2, THEN conjunct2, THEN conjunct2, THEN conjunct2, THEN conjunct2,
      THEN conjunct2, THEN conjunct1, THEN spec, THEN mp, OF rd]
  from B7[THEN conjunct1] ras(1)[of demoEnv] tb
  have e9: "fst (GetConfig demoEnv ''dev'' startWorld) = Inl (Err ?pe)" by simp
  note B7m = B7[THEN conjunct2, THEN mp, OF miss]
  from B7m[THEN conjunct2, THEN conjunct1, THEN spec, THEN spec, THEN mp, OF conjI[OF fcs(2) tb]]
  have e10: "fst (GetClient demoEnv NewConnManager ''dev'' startWorld) = Inl (Err ?pe)" .
  from B7m[THEN conjunct2, THEN conjunct2, THEN conjunct2, THEN conjunct1, THEN spec, THEN mp]
    ras(1)[of demoEnv] tb
  have e11: "fst (GetAdminClient demoEnv NewConnManager ''dev'' startWorld) = Inl (Err ?pe)" by simp

  \<comment> \<open>the connection attempt\<close>
  note NB = errors_verbatim_or_prefixed[where env = noBrokerEnv and cl = prodCluster
      and w = startWorld and c = NewConnManager and name = "''prod''"]
  have rn: "ReadConfig noBrokerEnv (extern startWorld) = Inr demoConfig"
    by (simp add: noBrokerEnv_def demoEnv_def)
  let ?U = "toSaramaConfig noBrokerEnv (Some prodCluster) ?W1"
  have "\<not> isl (fst ?U)" by (simp add: eval_defs noBrokerEnv_def)
  then have u: "fst ?U = Inr (projr (fst ?U))" by simp
  have nn: "NewClient noBrokerEnv (Brokers prodCluster) (projr (fst ?U)) (extern startWorld) =
      (Inl ''kafka: client has run out of available brokers'', 0)"
    by (simp add: noBrokerEnv_def startWorld_def)
  note NB7m = NB[THEN conjunct2, THEN conjunct2, THEN conjunct2, THEN conjunct2, THEN conjunct2,
      THEN conjunct2, THEN conjunct1, THEN spec, THEN mp, OF rn, THEN conjunct2, THEN mp, OF miss]
  from NB7m[THEN conjunct2, THEN conjunct2, THEN conjunct1, THEN spec, THEN spec, THEN spec,
      THEN spec, THEN mp, OF conjI[OF fcs(3) conjI[OF u nn]]]
  have e12: "fst (GetClient noBrokerEnv NewConnManager ''prod'' startWorld) =
      Inl (Err (Underlying ''kafka: client has run out of available brokers''))" .
  from NB7m[THEN conjunct2, THEN conjunct2, THEN conjunct2, THEN conjunct2, THEN conjunct1,
      THEN spec, THEN spec, THEN spec, THEN spec, THEN mp,
      OF conjI[OF ras(2)[of noBrokerEnv] conjI[OF u nn]]]
  have e13: "fst (GetAdminClient noBrokerEnv NewConnManager ''prod'' startWorld) =
      Inl (Err (Underlying ''kafka: client has run out of available brokers''))" .

  \<comment> \<open>the admin handle\<close>
  note AF = errors_verbatim_or_prefixed[where env = adminFailEnv and cl = prodCluster
      and w = startWorld and c = NewConnManager and name = "''local''"]
  have ra: "ReadConfig adminFailEnv (extern startWorld) = Inr demoConfig"
    by (simp add: adminFailEnv_def demoEnv_def)
  let ?V = "toSaramaConfig adminFailEnv (Some localCluster) ?W1"
  have "\<not> isl (fst ?V)" by (simp add: eval_defs adminFailEnv_def)
  then have v: "fst ?V = Inr (projr (fst ?V))" by simp
  have na: "NewClient adminFailEnv (Brokers localCluster) (projr (fst ?V)) (extern startWorld) =
      (Inr (Client 0), 1)" by (simp add: adminFailEnv_def demoEnv_def startWorld_def)
  have af: "\<And>cl x. fst (NewClusterAdminFromClient adminFailEnv cl x) = Inl ''client closed''"
    by (simp add: adminFailEnv_def)
  note AF7m = AF[THEN conjunct2, THEN conjunct2, THEN conjunct2, THEN conjunct2, THEN conjunct2,
      THEN conjunct2, THEN conjunct1, THEN spec, THEN mp, OF ra, THEN conjunct2, THEN mp, OF miss]
  from AF7m[THEN conjunct2, THEN conjunct2, THEN conjunct2, THEN conjunct2, THEN conjunct2,
      THEN spec, THEN spec, THEN spec, THEN spec, THEN spec, THEN mp,
      OF conjI[OF ral conjI[OF v conjI[OF na af]]]]
  have e14: "fst (GetAdminClient adminFailEnv NewConnManager ''local'' startWorld) =
      Inl (Err (Underlying ''client closed''))" .
  note AH = errors_verbatim_or_prefixed[where env = adminFailEnv and cl = prodCluster
      and w = startWorld and c = ?c1 and name = "''prod''"]
  have "conns ?c1 ''prod'' = Some (Client 0) \<and>
      fst (NewClusterAdminFromClient adminFailEnv (Client 0) (extern startWorld)) = Inl ''client closed''"
    by (simp add: af)
  from AH[THEN conjunct2, THEN conjunct2, THEN conjunct2, THEN conjunct2, THEN conjunct2,
      THEN conjunct2, THEN conjunct2, THEN conjunct1, THEN spec, THEN spec, THEN mp, OF this]
  have e15: "fst (GetAdminClient adminFailEnv ?c1 ''prod'' startWorld) =
      Inl (Err (Underlying ''client closed''))" .

  from e1 e2 e3 e4 e5 e6 e1' e7 e8 e9 e10 e11 e12 e13 e14 e15 show ?thesis by (intro conjI)
qed

text \<open>
  C3 as stated fails: the parse error of the version string \<open>bogus\<close> comes back as a
  new error with the prefix of line 158 in front of its message.
\<close>

theorem version_error_is_wrapped_counterexample:
  "ParseKafkaVersion demoEnv (Version badVersionCluster) = Inl ''invalid version bogus'' \<and>
   fst (toSaramaConfig demoEnv (Some badVersionCluster) startWorld) =
     Inl (Err (Errorf ''Unable to parse Kafka version: invalid version bogus'')) \<and>
   message (Errorf ''Unable to parse Kafka version: invalid version bogus'') \<noteq>
     ''invalid version bogus''"
  by (simp add: eval_defs)

subsection \<open>The translation of a cluster record\<close>

text \<open>
  When no step fails and a SASL_SSL cluster has its SASL section, \<open>toSaramaConfig\<close>
  returns a configuration.
\<close>

lemma toSaramaConfig_returns:
  assumes "\<not> versionFails env cl" "\<not> cafileFails env (extern w) cl"
    "\<not> clientPairFails env (extern w) cl"
    "SecurityProtocol cl = ''SASL_SSL'' \<longrightarrow> SASL cl \<noteq> None"
  shows "\<exists>sc w'. toSaramaConfig env (Some cl) w = (Inr sc, w')"
proof -
  obtain r w' where t: "toSaramaConfig env (Some cl) w = (r, w')"
    by (cases "toSaramaConfig env (Some cl) w")
  note c = toSaramaConfig_cases[OF t]
  show ?thesis
  proof (cases r)
    case (Inr sc)
    with t show ?thesis by blast
  next
    case (Inl f)
    show ?thesis
    proof (cases f)
      case (Err e)
      with c Inl have "configError env (extern w) cl e" by simp
      from configError_fails[OF this] assms show ?thesis by blast
    next
      case NilDereference
      with c Inl assms show ?thesis by simp
    qed
  qed
qed

text \<open>
  C5. In a configuration that \<open>toSaramaConfig\<close> returns, SASL is enabled exactly
  when the cluster has a SASL section, then with the section's user name and password;
  TLS is enabled exactly when the cluster has a TLS section or its security protocol
  is SASL_SSL; the version is the parsed version string when that string is not empty
  and \<open>V1_1_0_0\<close> otherwise. And \<open>toSaramaConfig\<close> does return such a configuration
  whenever the version string parses, the files named by the TLS section can be read,
  the certificate and key match, and a SASL_SSL cluster has its SASL section. The
  library's fresh configuration has SASL and TLS switched off.
\<close>

theorem toSaramaConfig_translation:
  "(toSaramaConfig env (Some cl) w = (Inr sc, w') \<and>
    \<not> Net_SASL_Enable (NewConfig env) \<and> \<not> Net_TLS_Enable (NewConfig env) \<longrightarrow>
      (Net_SASL_Enable sc \<longleftrightarrow> SASL cl \<noteq> None) \<and>
      (\<forall>s. SASL cl = Some s \<longrightarrow>
         Net_SASL_User sc = Username s \<and> Net_SASL_Password sc = Password s) \<and>
      (Net_TLS_Enable sc \<longleftrightarrow> TLS cl \<noteq> None \<or> SecurityProtocol cl = ''SASL_SSL'') \<and>
      (Version cl \<noteq> '''' \<longrightarrow> ParseKafkaVersion env (Version cl) = Inr (Config_Version sc)) \<and>
      (Version cl = '''' \<longrightarrow> Config_Version sc = V1_1_0_0)) \<and>
   (\<not> versionFails env cl \<and> \<not> cafileFails env (extern w) cl \<and>
    \<not> clientPairFails env (extern w) cl \<and>
    (SecurityProtocol cl = ''SASL_SSL'' \<longrightarrow> SASL cl \<noteq> None) \<and>
    \<not> Net_SASL_Enable (NewConfig env) \<and> \<not> Net_TLS_Enable (NewConfig env) \<longrightarrow>
      (\<exists>rc rw. toSaramaConfig env (Some cl) w = (Inr rc, rw) \<and>
         (Net_SASL_Enable rc \<longleftrightarrow> SASL cl \<noteq> None) \<and>
         (\<forall>s. SASL cl = Some s \<longrightarrow>
            Net_SASL_User rc = Username s \<and> Net_SASL_Password rc = Password s) \<and>
         (Net_TLS_Enable rc \<longleftrightarrow> TLS cl \<noteq> None \<or> SecurityProtocol cl = ''SASL_SSL'') \<and>
         (Version cl \<noteq> '''' \<longrightarrow> ParseKafkaVersion env (Version cl) = Inr (Config_Version rc)) \<and>
         (Version cl = '''' \<longrightarrow> Config_Version rc = V1_1_0_0)))"
proof (rule conjI)
  show "toSaramaConfig env (Some cl) w = (Inr sc, w') \<and>
    \<not> Net_SASL_Enable (NewConfig env) \<and> \<not> Net_TLS_Enable (NewConfig env) \<longrightarrow>
      (Net_SASL_Enable sc \<longleftrightarrow> SASL cl \<noteq> None) \<and>
      (\<forall>s. SASL cl = Some s \<longrightarrow>
         Net_SASL_User sc = Username s \<and> Net_SASL_Password sc = Password s) \<and>
      (Net_TLS_Enable sc \<longleftrightarrow> TLS cl \<noteq> None \<or> SecurityProtocol cl = ''SASL_SSL'') \<and>
      (Version cl \<noteq> '''' \<longrightarrow> ParseKafkaVersion env (Version cl) = Inr (Config_Version sc)) \<and>
      (Version cl = '''' \<longrightarrow> Config_Version sc = V1_1_0_0)"
    by (rule returned_config_fields)
next
  show "\<not> versionFails env cl \<and> \<not> cafileFails env (extern w) cl \<and>
    \<not> clientPairFails env (extern w) cl \<and>
    (SecurityProtocol cl = ''SASL_SSL'' \<longrightarrow> SASL cl \<noteq> None) \<and>
    \<not> Net_SASL_Enable (NewConfig env) \<and> \<not> Net_TLS_Enable (NewConfig env) \<longrightarrow>
      (\<exists>rc rw. toSaramaConfig env (Some cl) w = (Inr rc, rw) \<and>
         (Net_SASL_Enable rc \<longleftrightarrow> SASL cl \<noteq> None) \<and>
         (\<forall>s. SASL cl = Some s \<longrightarrow>
            Net_SASL_User rc = Username s \<and> Net_SASL_Password rc = Password s) \<and>
         (Net_TLS_Enable rc \<longleftrightarrow> TLS cl \<noteq> None \<or> SecurityProtocol cl = ''SASL_SSL'') \<and>
         (Version cl \<noteq> '''' \<longrightarrow> ParseKafkaVersion env (Version cl) = Inr (Config_Version rc)) \<and>
         (Version cl = '''' \<longrightarrow> Config_Version rc = V1_1_0_0))"
  proof (intro impI, elim conjE)
    assume a: "\<not> versionFails env cl" "\<not> cafileFails env (extern w) cl"
      "\<not> clientPairFails env (extern w) cl"
      "SecurityProtocol cl = ''SASL_SSL'' \<longrightarrow> SASL cl \<noteq> None"
      and d: "\<not> Net_SASL_Enable (NewConfig env)" "\<not> Net_TLS_Enable (NewConfig env)"
    from toSaramaConfig_returns[OF a] obtain rc rw where
      t: "toSaramaConfig env (Some cl) w = (Inr rc, rw)" by blast
    from returned_config_fields[of env cl w rc rw] t d
    have "(Net_SASL_Enable rc \<longleftrightarrow> SASL cl \<noteq> None) \<and>
         (\<forall>s. SASL cl = Some s \<longrightarrow>
            Net_SASL_User rc = Username s \<and> Net_SASL_Password rc = Password s) \<and>
         (Net_TLS_Enable rc \<longleftrightarrow> TLS cl \<noteq> None \<or> SecurityProtocol cl = ''SASL_SSL'') \<and>
         (Version cl \<noteq> '''' \<longrightarrow> ParseKafkaVersion env (Version cl) = Inr (Config_Version rc)) \<and>
         (Version cl = '''' \<longrightarrow> Config_Version rc = V1_1_0_0)"
      by blast
    with t show "\<exists>rc rw. toSaramaConfig env (Some cl) w = (Inr rc, rw) \<and>
         (Net_SASL_Enable rc \<longleftrightarrow> SASL cl \<noteq> None) \<and>
         (\<forall>s. SASL cl = Some s \<longrightarrow>
            Net_SASL_User rc = Username s \<and> Net_SASL_Password rc = Password s) \<and>
         (Net_TLS_Enable rc \<longleftrightarrow> TLS cl \<noteq> None \<or> SecurityProtocol cl = ''SASL_SSL'') \<and>
         (Version cl \<noteq> '''' \<longrightarrow> ParseKafkaVersion env (Version cl) = Inr (Config_Version rc)) \<and>
         (Version cl = '''' \<longrightarrow> Config_Version rc = V1_1_0_0)"
      by blast
  qed
qed

text \<open>
  The statement at three clusters: \<open>mtls\<close> with a plain TLS section and its three
  files, \<open>prod\<close> with SASL_SSL, and \<open>local\<close> with neither section nor version.
\<close>

theorem toSaramaConfig_translation_witness:
  "TLS mtlsCluster \<noteq> None \<and> SASL mtlsCluster = None \<and>
   SecurityProtocol mtlsCluster \<noteq> ''SASL_SSL'' \<and> Version mtlsCluster \<noteq> '''' \<and>
   \<not> isl (fst (toSaramaConfig filesEnv (Some mtlsCluster) startWorld)) \<and>
   Net_TLS_Enable (projr (fst (toSaramaConfig filesEnv (Some mtlsCluster) startWorld))) \<and>
   \<not> Net_SASL_Enable (projr (fst (toSaramaConfig filesEnv (Some mtlsCluster) startWorld))) \<and>
   ParseKafkaVersion filesEnv (Version mtlsCluster) =
     Inr (Config_Version (projr (fst (toSaramaConfig filesEnv (Some mtlsCluster) startWorld)))) \<and>
   SASL prodCluster = Some \<lparr>Mechanism = ''SCRAM-SHA-512'', Username = ''svc'', Password = ''secret''\<rparr> \<and>
   SecurityProtocol prodCluster = ''SASL_SSL'' \<and>
   \<not> isl (fst (toSaramaConfig demoEnv (Some prodCluster) startWorld)) \<and>
   Net_SASL_Enable (projr (fst (toSaramaConfig demoEnv (Some prodCluster) startWorld))) \<and>
   Net_SASL_User (projr (fst (toSaramaConfig demoEnv (Some prodCluster) startWorld))) = ''svc'' \<and>
   Net_SASL_Password (projr (fst (toSaramaConfig demoEnv (Some prodCluster) startWorld))) = ''secret'' \<and>
   Net_TLS_Enable (projr (fst (toSaramaConfig demoEnv (Some prodCluster) startWorld))) \<and>
   ParseKafkaVersion demoEnv (Version prodCluster) =
     Inr (Config_Version (projr (fst (toSaramaConfig demoEnv (Some prodCluster) startWorld)))) \<and>
   SASL localCluster = None \<and> TLS localCluster = None \<and> Version localCluster = '''' \<and>
   \<not> isl (fst (toSaramaConfig demoEnv (Some localCluster) startWorld)) \<and>
   \<not> Net_SASL_Enable (projr (fst (toSaramaConfig demoEnv (Some localCluster) startWorld))) \<and>
   \<not> Net_TLS_Enable (projr (fst (toSaramaConfig demoEnv (Some localCluster) startWorld))) \<and>
   Config_Version (projr (fst (toSaramaConfig demoEnv (Some localCluster) startWorld))) = V1_1_0_0"
proof -
  let ?m = "toSaramaConfig filesEnv (Some mtlsCluster) startWorld"
  let ?p = "toSaramaConfig demoEnv (Some prodCluster) startWorld"
  let ?l = "toSaramaConfig demoEnv (Some localCluster) startWorld"
  have d: "\<not> Net_SASL_Enable (NewConfig demoEnv)" "\<not> Net_TLS_Enable (NewConfig demoEnv)"
    "\<not> Net_SASL_Enable (NewConfig filesEnv)" "\<not> Net_TLS_Enable (NewConfig filesEnv)"
    by (simp_all add: filesEnv_def demoEnv_def libraryDefaults_def)
  have cm: "TLS mtlsCluster \<noteq> None" "SASL mtlsCluster = None"
    "SecurityProtocol mtlsCluster \<noteq> ''SASL_SSL''" "Version mtlsCluster \<noteq> ''''"
    by (simp_all add: mtlsCluster_def)
  have cp: "SASL prodCluster =
      Some \<lparr>Mechanism = ''SCRAM-SHA-512'', Username = ''svc'', Password = ''secret''\<rparr>"
    "SecurityProtocol prodCluster = ''SASL_SSL''" "Version prodCluster \<noteq> ''''"
    by (simp_all add: prodCluster_def)
  have cl: "SASL localCluster = None" "TLS localCluster = None" "Version localCluster = ''''"
    "SecurityProtocol localCluster \<noteq> ''SASL_SSL''"
    by (simp_all add: localCluster_def)
  have hm: "\<not> versionFails filesEnv mtlsCluster \<and>
      \<not> cafileFails filesEnv (extern startWorld) mtlsCluster \<and>
      \<not> clientPairFails filesEnv (extern startWorld) mtlsCluster \<and>
      (SecurityProtocol mtlsCluster = ''SASL_SSL'' \<longrightarrow> SASL mtlsCluster \<noteq> None) \<and>
      \<not> Net_SASL_Enable (NewConfig filesEnv) \<and> \<not> Net_TLS_Enable (NewConfig filesEnv)"
    using d by (simp add: versionFails_def cafileFails_def clientPairFails_def filesEnv_def
        mtlsCluster_def demoEnv_def startWorld_def)
  have hp: "\<not> versionFails demoEnv prodCluster \<and>
      \<not> cafileFails demoEnv (extern startWorld) prodCluster \<and>
      \<not> clientPairFails demoEnv (extern startWorld) prodCluster \<and>
      (SecurityProtocol prodCluster = ''SASL_SSL'' \<longrightarrow> SASL prodCluster \<noteq> None) \<and>
      \<not> Net_SASL_Enable (NewConfig demoEnv) \<and> \<not> Net_TLS_Enable (NewConfig demoEnv)"
    using d by (simp add: versionFails_def cafileFails_def clientPairFails_def
        prodCluster_def demoEnv_def startWorld_def)
  have hl: "\<not> versionFails demoEnv localCluster \<and>
      \<not> cafileFails demoEnv (extern startWorld) localCluster \<and>
      \<not> clientPairFails demoEnv (extern startWorld) localCluster \<and>
      (SecurityProtocol localCluster = ''SASL_SSL'' \<longrightarrow> SASL localCluster \<noteq> None) \<and>
      \<not> Net_SASL_Enable (NewConfig demoEnv) \<and> \<not> Net_TLS_Enable (NewConfig demoEnv)"
    using d by (simp add: versionFails_def cafileFails_def clientPairFails_def
        localCluster_def demoEnv_def startWorld_def)
  from toSaramaConfig_translation[where env = filesEnv and cl = mtlsCluster and w = startWorld,
      THEN conjunct2, THEN mp, OF hm]
  obtain mc mw where m: "?m = (Inr mc, mw)"
    and m1: "Net_SASL_Enable mc \<longleftrightarrow> SASL mtlsCluster \<noteq> None"
    and m2: "Net_TLS_Enable mc \<longleftrightarrow> TLS mtlsCluster \<noteq> None \<or> SecurityProtocol mtlsCluster = ''SASL_SSL''"
    and m3: "Version mtlsCluster \<noteq> '''' \<longrightarrow>
      ParseKafkaVersion filesEnv (Version mtlsCluster) = Inr (Config_Version mc)"
    by blast
  from toSaramaConfig_translation[where env = demoEnv and cl = prodCluster and w = startWorld,
      THEN conjunct2, THEN mp, OF hp]
  obtain pc pw where p: "?p = (Inr pc, pw)"
    and p1: "Net_SASL_Enable pc \<longleftrightarrow> SASL prodCluster \<noteq> None"
    and p2: "\<forall>s. SASL prodCluster = Some s \<longrightarrow>
            Net_SASL_User pc = Username s \<and> Net_SASL_Password pc = Password s"
    and p3: "Net_TLS_Enable pc \<longleftrightarrow> TLS prodCluster \<noteq> None \<or> SecurityProtocol prodCluster = ''SASL_SSL''"
    and p4: "Version prodCluster \<noteq> '''' \<longrightarrow>
      ParseKafkaVersion demoEnv (Version prodCluster) = Inr (Config_Version pc)"
    by blast
  from toSaramaConfig_translation[where env = demoEnv and cl = localCluster and w = startWorld,
      THEN conjunct2, THEN mp, OF hl]
  obtain lc lw where l: "?l = (Inr lc, lw)"
    and l1: "Net_SASL_Enable lc \<longleftrightarrow> SASL localCluster \<noteq> None"
    and l2: "Net_TLS_Enable lc \<longleftrightarrow> TLS localCluster \<noteq> None \<or> SecurityProtocol localCluster = ''SASL_SSL''"
    and l3: "Version localCluster = '''' \<longrightarrow> Config_Version lc = V1_1_0_0"
    by blast
  have rm: "\<not> isl (fst ?m)" "projr (fst ?m) = mc" by (simp_all add: m)
  have rp: "\<not> isl (fst ?p)" "projr (fst ?p) = pc" by (simp_all add: p)
  have rl: "\<not> isl (fst ?l)" "projr (fst ?l) = lc" by (simp_all add: l)
  have a1: "Net_TLS_Enable mc" "\<not> Net_SASL_Enable mc"
    "ParseKafkaVersion filesEnv (Version mtlsCluster) = Inr (Config_Version mc)"
    using m1 m2 m3 cm by simp_all
  have a2: "Net_SASL_Enable pc" "Net_SASL_User pc = ''svc''" "Net_SASL_Password pc = ''secret''"
    "Net_TLS_Enable pc" "ParseKafkaVersion demoEnv (Version prodCluster) = Inr (Config_Version pc)"
    using p1 p2 p3 p4 cp by simp_all
  have a3: "\<not> Net_SASL_Enable lc" "\<not> Net_TLS_Enable lc" "Config_Version lc = V1_1_0_0"
    using l1 l2 l3 cl by simp_all
  show ?thesis
    unfolding rm(2) rp(2) rl(2)
    using cm cp(1,2) cl(1,2,3) rm(1) rp(1) rl(1) a1 a2 a3 by (intro conjI)
qed

text \<open>
  C7. For an empty or unmatched name \<open>GetConfig\<close> and \<open>GetAdminClient\<close> should
  proceed with the active cluster and not fail on the name. When the configuration has
  no active cluster, \<open>ActiveCluster\<close> returns nil, lines 98 to 102 of \<open>GetConfig\<close>
  and lines 129 to 133 of \<open>GetAdminClient\<close> pass the nil pointer to
  \<open>toSaramaConfig\<close>, and line 155 dereferences it: the call panics. \<open>GetClient\<close>
  tests \<open>cl == nil\<close> on line 47 and returns an error.
\<close>

theorem unknown_name_without_active_cluster_panics:
  "ReadConfig emptyConfigEnv (extern startWorld) = Inr \<lparr>Clusters = []\<rparr> \<and>
   ActiveCluster emptyConfigEnv \<lparr>Clusters = []\<rparr> = None \<and>
   GetConfig emptyConfigEnv ''nope'' startWorld =
     (Inl NilDereference, record_call EvReadConfig startWorld) \<and>
   GetConfig emptyConfigEnv '''' startWorld =
     (Inl NilDereference, record_call EvReadConfig startWorld) \<and>
   GetAdminClient emptyConfigEnv NewConnManager ''nope'' startWorld =
     (Inl NilDereference, NewConnManager, record_call EvReadConfig startWorld) \<and>
   GetAdminClient emptyConfigEnv NewConnManager '''' startWorld =
     (Inl NilDereference, NewConnManager, record_call EvReadConfig startWorld) \<and>
   GetClient emptyConfigEnv NewConnManager ''nope'' startWorld =
     (Inl (Err (notFound ''nope'')), NewConnManager, record_call EvReadConfig startWorld) \<and>
   ReadConfig noActiveEnv (extern startWorld) = Inr demoConfig \<and>
   ActiveCluster noActiveEnv demoConfig = None \<and>
   ''nope'' \<notin> set (map Name (Clusters demoConfig)) \<and>
   GetConfig noActiveEnv ''nope'' startWorld =
     (Inl NilDereference, record_call EvReadConfig startWorld) \<and>
   GetAdminClient noActiveEnv NewConnManager ''nope'' startWorld =
     (Inl NilDereference, NewConnManager, record_call EvReadConfig startWorld)"
  by (simp add: eval_defs emptyConfigEnv_def noActiveEnv_def)

end
